theory Spec2Isabelle
  imports Complex_Main "HOL-Library.AList"
begin

section \<open>Tensors\<close>

text \<open>
  The trainer of \<^verbatim>\<open>train.py\<close> works on float32 tensors. A tensor is modelled as a
  nested list of reals, one list level per dimension, the batch dimension outermost.
  Arithmetic is exact real arithmetic, except where a section says otherwise: the
  3D keypoint loss is given a second time with float32 rounding after every operation,
  and the means that \<^verbatim>\<open>eval\<close> logs are NaN on an empty test set. Infinities are not
  part of the model. A nested list does not record the inner sizes of a tensor with an
  empty outer dimension.

  Exceptions of the source are values of \<open>error\<close>; a computation that may raise
  returns \<open>error + 'a\<close>, with \<open>Inl\<close> for the exception.
\<close>

type_synonym t1 = "real list"
type_synonym t2 = "real list list"
type_synonym t3 = "real list list list"
type_synonym t4 = "real list list list list"

datatype error = IndexError | RuntimeError | ValueError | ExternalError

definition bindE :: "error + 'a \<Rightarrow> ('a \<Rightarrow> error + 'b) \<Rightarrow> error + 'b" where
  "bindE m f = (case m of Inl e \<Rightarrow> Inl e | Inr x \<Rightarrow> f x)"

definition of_opt :: "error \<Rightarrow> 'a option \<Rightarrow> error + 'a" where
  "of_opt e m = (case m of None \<Rightarrow> Inl e | Some x \<Rightarrow> Inr x)"

text \<open>Running a fallible function over a list stops at the first exception.\<close>

fun mapE :: "('a \<Rightarrow> error + 'b) \<Rightarrow> 'a list \<Rightarrow> error + 'b list" where
  "mapE f [] = Inr []"
| "mapE f (x # xs) = bindE (f x) (\<lambda>y. bindE (mapE f xs) (\<lambda>ys. Inr (y # ys)))"

subsection \<open>Broadcasting\<close>

text \<open>
  An elementwise operation of torch on two tensors pairs the elements of each dimension
  when the sizes agree, repeats the single element of a dimension of size 1, and raises
  RuntimeError otherwise. \<open>bcast\<close> is that rule for one dimension; it is nested once
  per dimension.
\<close>

fun sequence :: "'a option list \<Rightarrow> 'a list option" where
  "sequence [] = Some []"
| "sequence (None # xs) = None"
| "sequence (Some x # xs) = (case sequence xs of None \<Rightarrow> None | Some ys \<Rightarrow> Some (x # ys))"

definition bcast :: "('a \<Rightarrow> 'b \<Rightarrow> 'c option) \<Rightarrow> 'a list \<Rightarrow> 'b list \<Rightarrow> 'c list option" where
  "bcast f xs ys =
     (if length xs = length ys then sequence (map2 f xs ys)
      else if length xs = 1 then sequence (map (f (hd xs)) ys)
      else if length ys = 1 then sequence (map (\<lambda>x. f x (hd ys)) xs)
      else None)"

definition ew1 :: "(real \<Rightarrow> real \<Rightarrow> real) \<Rightarrow> t1 \<Rightarrow> t1 \<Rightarrow> t1 option" where
  "ew1 f = bcast (\<lambda>x y. Some (f x y))"

definition ew2 :: "(real \<Rightarrow> real \<Rightarrow> real) \<Rightarrow> t2 \<Rightarrow> t2 \<Rightarrow> t2 option" where
  "ew2 f = bcast (ew1 f)"

definition ew3 :: "(real \<Rightarrow> real \<Rightarrow> real) \<Rightarrow> t3 \<Rightarrow> t3 \<Rightarrow> t3 option" where
  "ew3 f = bcast (ew2 f)"

definition ew4 :: "(real \<Rightarrow> real \<Rightarrow> real) \<Rightarrow> t4 \<Rightarrow> t4 \<Rightarrow> t4 option" where
  "ew4 f = bcast (ew3 f)"

subsection \<open>Views\<close>

text \<open>
  \<open>chunks n xs\<close> cuts a flat list into rows of \<open>n\<close> elements; \<open>view_rows\<close> is
  \<^verbatim>\<open>x.view(-1, n)\<close> on the flattened data, which raises RuntimeError when the number
  of elements is not a multiple of \<open>n\<close>.
\<close>

definition chunks :: "nat \<Rightarrow> 'a list \<Rightarrow> 'a list list" where
  "chunks n xs = map (\<lambda>i. take n (drop (i * n) xs)) [0..<length xs div n]"

definition view_rows :: "nat \<Rightarrow> 'a list \<Rightarrow> error + 'a list list" where
  "view_rows n xs = (if 0 < n \<and> n dvd length xs then Inr (chunks n xs) else Inl RuntimeError)"

section \<open>Weak-perspective projection\<close>

text \<open>
  \<^verbatim>\<open>
  def weakProjection_gpu(skel3D, scale, trans2D):
      skel3D = skel3D.view((skel3D.shape[0], -1, 3))
      trans2D = trans2D.view((trans2D.shape[0] , 1, 2))
      scale = scale.view((scale.shape[0], 1 , 1))
      skel3D_proj = scale*skel3D[:,:,:2] + trans2D
      return skel3D_proj
  \<close>
  \<open>skel3D\<close> has rank 3, \<open>scale\<close> rank 1 and \<open>trans2D\<close> rank 2, as at the two call
  sites. The first view regroups the numbers of each batch item in rows of 3 and raises
  on an empty batch (the size \<open>-1\<close> cannot be inferred); the second raises unless every
  row of \<open>trans2D\<close> has 2 entries. The arguments are only read: each assignment rebinds
  a local name to a new view or a new tensor.
\<close>

definition view_B_m1_3 :: "t3 \<Rightarrow> error + t3" where
  "view_B_m1_3 skel3D =
     (if skel3D = [] then Inl RuntimeError else mapE (\<lambda>item. view_rows 3 (concat item)) skel3D)"

definition view_B_1_2 :: "t2 \<Rightarrow> error + t3" where
  "view_B_1_2 trans2D =
     (if \<forall>row \<in> set trans2D. length row = 2 then Inr (map (\<lambda>row. [row]) trans2D)
      else Inl RuntimeError)"

definition view_B_1_1 :: "t1 \<Rightarrow> t3" where
  "view_B_1_1 scale = map (\<lambda>s. [[s]]) scale"

definition weakProjection_gpu :: "t3 \<Rightarrow> t1 \<Rightarrow> t2 \<Rightarrow> error + t3" where
  "weakProjection_gpu skel3D scale trans2D =
     bindE (view_B_m1_3 skel3D) (\<lambda>skel3D'.
     bindE (view_B_1_2 trans2D) (\<lambda>trans2D'.
     bindE (of_opt RuntimeError (ew3 (*) (view_B_1_1 scale) (map (map (take 2)) skel3D'))) (\<lambda>scaled.
     of_opt RuntimeError (ew3 (+) scaled trans2D'))))"


section \<open>Loss functions of the trainer\<close>

subsection \<open>Reductions, slices and masks\<close>

text \<open>
  \<^verbatim>\<open>t.mean()\<close> is the sum of all elements over their number. On a tensor without
  elements the source gets NaN, which the reals do not have: \<open>mean_list []\<close> is
  \<open>0 / 0\<close>, which is 0 in HOL, so \<open>mean_list\<close> is the mean of the source on
  non-empty lists only. The losses take the mean of the tensors of a non-empty selection
  of the batch.
\<close>

definition mean_list :: "real list \<Rightarrow> real" where
  "mean_list xs = sum_list xs / real (length xs)"

definition flat2 :: "t2 \<Rightarrow> real list" where
  "flat2 t = concat t"

definition flat3 :: "t3 \<Rightarrow> real list" where
  "flat3 t = concat (concat t)"

definition flat4 :: "t4 \<Rightarrow> real list" where
  "flat4 t = concat (concat (concat t))"

definition sq_diff :: "real \<Rightarrow> real \<Rightarrow> real" where
  "sq_diff x y = (x - y)\<^sup>2"

definition abs_diff :: "real \<Rightarrow> real \<Rightarrow> real" where
  "abs_diff x y = \<bar>x - y\<bar>"

text \<open>
  \<open>criterion_keypoints\<close> is \<^verbatim>\<open>nn.MSELoss(reduction='none')\<close>, \<open>criterion_shape\<close> is
  \<^verbatim>\<open>nn.L1Loss()\<close> and \<open>criterion_regr\<close> is \<^verbatim>\<open>nn.MSELoss()\<close>; the last two
  reduce by the mean.
\<close>

definition criterion_keypoints :: "t3 \<Rightarrow> t3 \<Rightarrow> error + t3" where
  "criterion_keypoints a b = of_opt RuntimeError (ew3 sq_diff a b)"

definition criterion_shape :: "t3 \<Rightarrow> t3 \<Rightarrow> error + real" where
  "criterion_shape a b = bindE (of_opt RuntimeError (ew3 abs_diff a b)) (\<lambda>d. Inr (mean_list (flat3 d)))"

definition criterion_regr4 :: "t4 \<Rightarrow> t4 \<Rightarrow> error + real" where
  "criterion_regr4 a b = bindE (of_opt RuntimeError (ew4 sq_diff a b)) (\<lambda>d. Inr (mean_list (flat4 d)))"

definition criterion_regr2 :: "t2 \<Rightarrow> t2 \<Rightarrow> error + real" where
  "criterion_regr2 a b = bindE (of_opt RuntimeError (ew2 sq_diff a b)) (\<lambda>d. Inr (mean_list (flat2 d)))"

text \<open>
  \<^verbatim>\<open>x[flags == 1]\<close> keeps the batch items whose flag is 1 and raises IndexError when
  the mask and the batch differ in length.
\<close>

definition eq1 :: "nat list \<Rightarrow> bool list" where
  "eq1 flags = map (\<lambda>h. h = 1) flags"

definition mask_select :: "'a list \<Rightarrow> bool list \<Rightarrow> error + 'a list" where
  "mask_select xs m =
     (if length m = length xs then Inr (map fst (filter snd (zip xs m))) else Inl IndexError)"

text \<open>
  \<^verbatim>\<open>x[:, :, -1].unsqueeze(-1)\<close> (\<open>last_col\<close>) raises IndexError on a last dimension
  of size 0; \<^verbatim>\<open>x[:, :, :-1]\<close> is \<open>but_last_col\<close>; \<^verbatim>\<open>x[:, j]\<close> (\<open>select1\<close>)
  raises IndexError when dimension 1 has no index \<open>j\<close>.
\<close>

definition last_col :: "t3 \<Rightarrow> error + t3" where
  "last_col t =
     (if \<exists>item \<in> set t. \<exists>kp \<in> set item. kp = [] then Inl IndexError
      else Inr (map (map (\<lambda>kp. [last kp])) t))"

definition but_last_col :: "t3 \<Rightarrow> t3" where
  "but_last_col t = map (map butlast) t"

definition select1 :: "'a list list \<Rightarrow> nat \<Rightarrow> error + 'a list" where
  "select1 t j =
     (if \<exists>item \<in> set t. length item \<le> j then Inl IndexError else Inr (map (\<lambda>item. item ! j) t))"

subsection \<open>2D keypoint loss, on a store\<close>

text \<open>
  \<^verbatim>\<open>
  def keypoint_loss(self, pred_keypoints_2d, gt_keypoints_2d, openpose_weight, gt_weight):
      conf = gt_keypoints_2d[:, :, -1].unsqueeze(-1).clone()
      conf[:, :25] *= openpose_weight
      conf[:, 25:] *= gt_weight
      loss = (conf * self.criterion_keypoints(pred_keypoints_2d, gt_keypoints_2d[:, :, :-1])).mean()
      return loss
  \<close>
  The function multiplies in place, so the tensors it touches live in a store, a list of
  rank-3 tensors addressed by position. A \<open>view\<close> is a tensor object: \<open>Whole a\<close> owns
  the storage at address \<open>a\<close>, \<open>LastCol a\<close> is \<^verbatim>\<open>T[:, :, -1].unsqueeze(-1)\<close> for the
  tensor \<open>T\<close> at \<open>a\<close> and shares its storage. \<open>clone\<close> copies what a view shows into
  new storage; \<open>imul\<close> is \<^verbatim>\<open>v[:, sel] *= w\<close> and writes through the view to the
  storage it shares. The ground-truth tensor is passed by its address, which is taken
  to be allocated.
\<close>

type_synonym store = "t3 list"

datatype view = Whole nat | LastCol nat

fun read_view :: "store \<Rightarrow> view \<Rightarrow> error + t3" where
  "read_view st (Whole a) = Inr (st ! a)"
| "read_view st (LastCol a) = last_col (st ! a)"

definition clone :: "store \<Rightarrow> view \<Rightarrow> error + (store \<times> view)" where
  "clone st v = bindE (read_view st v) (\<lambda>d. Inr (st @ [d], Whole (length st)))"

definition scale_last :: "real \<Rightarrow> real list \<Rightarrow> real list" where
  "scale_last w kp = (if kp = [] then [] else butlast kp @ [w * last kp])"

definition on_joints :: "(nat \<Rightarrow> bool) \<Rightarrow> (real list \<Rightarrow> real list) \<Rightarrow> t3 \<Rightarrow> t3" where
  "on_joints sel f t = map (\<lambda>item. map (\<lambda>(j, kp). if sel j then f kp else kp) (enumerate 0 item)) t"

fun imul :: "store \<Rightarrow> view \<Rightarrow> (nat \<Rightarrow> bool) \<Rightarrow> real \<Rightarrow> store" where
  "imul st (Whole a) sel w = st[a := on_joints sel (map ((*) w)) (st ! a)]"
| "imul st (LastCol a) sel w = st[a := on_joints sel (scale_last w) (st ! a)]"

definition keypoint_loss :: "store \<Rightarrow> t3 \<Rightarrow> nat \<Rightarrow> real \<Rightarrow> real \<Rightarrow> (error + real) \<times> store" where
  "keypoint_loss st pred_keypoints_2d gt_keypoints_2d openpose_weight gt_weight =
     (case clone st (LastCol gt_keypoints_2d) of
        Inl e \<Rightarrow> (Inl e, st)
      | Inr (st1, conf) \<Rightarrow>
          let st2 = imul st1 conf (\<lambda>j. j < 25) openpose_weight;
              st3 = imul st2 conf (\<lambda>j. 25 \<le> j) gt_weight
          in (bindE (criterion_keypoints pred_keypoints_2d (but_last_col (st3 ! gt_keypoints_2d))) (\<lambda>sq.
              bindE (read_view st3 conf) (\<lambda>c.
              bindE (of_opt RuntimeError (ew3 (*) c sq)) (\<lambda>weighted.
              Inr (mean_list (flat3 weighted))))), st3))"

subsection \<open>3D keypoint loss\<close>

text \<open>
  \<^verbatim>\<open>
  def keypoint_3d_loss(self, pred_keypoints_3d, gt_keypoints_3d, has_pose_3d):
      pred_keypoints_3d = pred_keypoints_3d[:, 25:, :]
      conf = gt_keypoints_3d[:, :, -1].unsqueeze(-1).clone()
      gt_keypoints_3d = gt_keypoints_3d[:, :, :-1].clone()
      gt_keypoints_3d = gt_keypoints_3d[has_pose_3d == 1]
      conf = conf[has_pose_3d == 1]
      pred_keypoints_3d = pred_keypoints_3d[has_pose_3d == 1]
      if len(gt_keypoints_3d) > 0:
          gt_pelvis = (gt_keypoints_3d[:, 2,:] + gt_keypoints_3d[:, 3,:]) / 2
          gt_keypoints_3d = gt_keypoints_3d - gt_pelvis[:, None, :]
          pred_pelvis = (pred_keypoints_3d[:, 2,:] + pred_keypoints_3d[:, 3,:]) / 2
          pred_keypoints_3d = pred_keypoints_3d - pred_pelvis[:, None, :]
          return (conf * self.criterion_keypoints(pred_keypoints_3d, gt_keypoints_3d)).mean()
      else:
          return torch.FloatTensor(1).fill_(0.).to(self.device)
  \<close>
  The two pelvis lines are the same computation on the ground truth and on the
  prediction; \<open>center_on_pelvis\<close> is that computation. Nothing is written in place
  here (the clones are only read), so the function is a function of values.
\<close>

definition center_on_pelvis :: "t3 \<Rightarrow> error + t3" where
  "center_on_pelvis x =
     bindE (select1 x 2) (\<lambda>j2.
     bindE (select1 x 3) (\<lambda>j3.
     bindE (of_opt RuntimeError (ew2 (+) j2 j3)) (\<lambda>s.
     of_opt RuntimeError (ew3 (-) x (map (\<lambda>p. [map (\<lambda>v. v / 2) p]) s)))))"

definition keypoint_3d_loss :: "t3 \<Rightarrow> t3 \<Rightarrow> nat list \<Rightarrow> error + real" where
  "keypoint_3d_loss pred_keypoints_3d gt_keypoints_3d has_pose_3d =
     (let pred1 = map (drop 25) pred_keypoints_3d in
      bindE (last_col gt_keypoints_3d) (\<lambda>conf0.
      bindE (mask_select (but_last_col gt_keypoints_3d) (eq1 has_pose_3d)) (\<lambda>gt.
      bindE (mask_select conf0 (eq1 has_pose_3d)) (\<lambda>conf.
      bindE (mask_select pred1 (eq1 has_pose_3d)) (\<lambda>pred.
      if length gt > 0 then
        bindE (center_on_pelvis gt) (\<lambda>gt'.
        bindE (center_on_pelvis pred) (\<lambda>pred'.
        bindE (criterion_keypoints pred' gt') (\<lambda>sq.
        bindE (of_opt RuntimeError (ew3 (*) conf sq)) (\<lambda>weighted.
        Inr (mean_list (flat3 weighted))))))
      else Inr 0)))))"

subsection \<open>The 3D keypoint loss in float32\<close>

text \<open>
  The tensors of the source hold float32 numbers, and every operation of torch rounds
  its exact result to the nearest float32, ties to the even significand. \<open>float32\<close>
  is that rounding on the reals: \<open>significand\<close> scales the magnitude into
  \<open>[2\<^sup>2\<^sup>3, 2\<^sup>2\<^sup>4)\<close>, or as far as the smallest exponent \<open>-149\<close> of the
  subnormal numbers allows, and the scaled magnitude is rounded to an integer. The
  exponent range of float32 ends at \<open>2\<^sup>1\<^sup>2\<^sup>8\<close>; beyond it the source has infinities,
  which this function does not model. The 300 steps of \<open>significand\<close> cover the whole
  exponent range.

  \<open>keypoint_3d_loss_rnd rnd\<close> is \<^verbatim>\<open>keypoint_3d_loss\<close> again, line by line, with the
  rounding \<open>rnd\<close> after each arithmetic operation: the sum of the two pelvis joints,
  its half, the two subtractions of the pelvis, the difference and the square of
  \<^verbatim>\<open>MSELoss\<close>, the product with the confidence, and the sum and the division of
  \<^verbatim>\<open>mean()\<close>. With \<open>float32\<close> for \<open>rnd\<close> it is the computation of the source on
  float32 inputs; with the identity it is \<open>keypoint_3d_loss\<close>. The order in which
  \<^verbatim>\<open>mean()\<close> adds up the elements is left open by torch; \<open>sum_rnd\<close> adds them from
  left to right.
\<close>

definition round_half_even :: "real \<Rightarrow> int" where
  "round_half_even y =
     (let n = \<lfloor>y\<rfloor>; r = y - of_int n
      in if r < 1 / 2 then n else if 1 / 2 < r then n + 1 else if even n then n else n + 1)"

fun significand :: "nat \<Rightarrow> real \<Rightarrow> int \<Rightarrow> real \<times> int" where
  "significand 0 m e = (m, e)"
| "significand (Suc n) m e =
     (if 2 ^ 24 \<le> m then significand n (m / 2) (e + 1)
      else if m < 2 ^ 23 \<and> - 149 < e then significand n (m * 2) (e - 1)
      else (m, e))"

definition float32 :: "real \<Rightarrow> real" where
  "float32 x =
     (if x = 0 then 0
      else let (m, e) = significand 300 \<bar>x\<bar> 0
           in sgn x * of_int (round_half_even m) * 2 powi e)"

definition sum_rnd :: "(real \<Rightarrow> real) \<Rightarrow> real list \<Rightarrow> real" where
  "sum_rnd rnd xs = foldl (\<lambda>a x. rnd (a + x)) 0 xs"

definition mean_rnd :: "(real \<Rightarrow> real) \<Rightarrow> real list \<Rightarrow> real" where
  "mean_rnd rnd xs = rnd (sum_rnd rnd xs / real (length xs))"

definition center_on_pelvis_rnd :: "(real \<Rightarrow> real) \<Rightarrow> t3 \<Rightarrow> error + t3" where
  "center_on_pelvis_rnd rnd x =
     bindE (select1 x 2) (\<lambda>j2.
     bindE (select1 x 3) (\<lambda>j3.
     bindE (of_opt RuntimeError (ew2 (\<lambda>a b. rnd (a + b)) j2 j3)) (\<lambda>s.
     of_opt RuntimeError (ew3 (\<lambda>a b. rnd (a - b)) x (map (\<lambda>p. [map (\<lambda>v. rnd (v / 2)) p]) s)))))"

definition keypoint_3d_loss_rnd :: "(real \<Rightarrow> real) \<Rightarrow> t3 \<Rightarrow> t3 \<Rightarrow> nat list \<Rightarrow> error + real" where
  "keypoint_3d_loss_rnd rnd pred_keypoints_3d gt_keypoints_3d has_pose_3d =
     (let pred1 = map (drop 25) pred_keypoints_3d in
      bindE (last_col gt_keypoints_3d) (\<lambda>conf0.
      bindE (mask_select (but_last_col gt_keypoints_3d) (eq1 has_pose_3d)) (\<lambda>gt.
      bindE (mask_select conf0 (eq1 has_pose_3d)) (\<lambda>conf.
      bindE (mask_select pred1 (eq1 has_pose_3d)) (\<lambda>pred.
      if length gt > 0 then
        bindE (center_on_pelvis_rnd rnd gt) (\<lambda>gt'.
        bindE (center_on_pelvis_rnd rnd pred) (\<lambda>pred'.
        bindE (of_opt RuntimeError (ew3 (\<lambda>a b. rnd ((rnd (a - b))\<^sup>2)) pred' gt')) (\<lambda>sq.
        bindE (of_opt RuntimeError (ew3 (\<lambda>c q. rnd (c * q)) conf sq)) (\<lambda>weighted.
        Inr (mean_rnd rnd (flat3 weighted))))))
      else Inr 0)))))"

subsection \<open>Per-vertex loss and parameter losses\<close>

text \<open>
  \<^verbatim>\<open>
  def shape_loss(self, pred_vertices, gt_vertices, has_smpl):
      pred_vertices_with_shape = pred_vertices[has_smpl == 1]
      gt_vertices_with_shape = gt_vertices[has_smpl == 1]
      if len(gt_vertices_with_shape) > 0:
          return self.criterion_shape(pred_vertices_with_shape, gt_vertices_with_shape)
      else:
          return torch.FloatTensor(1).fill_(0.).to(self.device)
  \<close>
\<close>

definition shape_loss :: "t3 \<Rightarrow> t3 \<Rightarrow> nat list \<Rightarrow> error + real" where
  "shape_loss pred_vertices gt_vertices has_smpl =
     bindE (mask_select pred_vertices (eq1 has_smpl)) (\<lambda>pred_vertices_with_shape.
     bindE (mask_select gt_vertices (eq1 has_smpl)) (\<lambda>gt_vertices_with_shape.
     if length gt_vertices_with_shape > 0
     then criterion_shape pred_vertices_with_shape gt_vertices_with_shape
     else Inr 0))"

text \<open>
  \<^verbatim>\<open>
  def smpl_losses(self, pred_rotmat, pred_betas, gt_pose, gt_betas, has_smpl):
      pred_rotmat_valid = pred_rotmat[has_smpl == 1]
      gt_rotmat_valid = batch_rodrigues(gt_pose.view(-1,3)).view(-1, 24, 3, 3)[has_smpl == 1]
      pred_betas_valid = pred_betas[has_smpl == 1]
      gt_betas_valid = gt_betas[has_smpl == 1]
      if len(pred_rotmat_valid) > 0:
          loss_regr_pose = self.criterion_regr(pred_rotmat_valid, gt_rotmat_valid)
          loss_regr_betas = self.criterion_regr(pred_betas_valid, gt_betas_valid)
      else:
          loss_regr_pose = torch.FloatTensor(1).fill_(0.).to(self.device)
          loss_regr_betas = torch.FloatTensor(1).fill_(0.).to(self.device)
      return loss_regr_pose, loss_regr_betas
  \<close>
  \<open>batch_rodrigues\<close> lives in \<^verbatim>\<open>utils.geometry\<close>, outside this file: the conversion
  of one axis-angle row to a rotation matrix is the parameter \<open>rodrigues\<close>, applied to
  every row.
\<close>

definition view_m1_24_3_3 :: "t3 \<Rightarrow> error + t4" where
  "view_m1_24_3_3 t =
     (if 216 dvd length (flat3 t) then Inr (chunks 24 (chunks 3 (chunks 3 (flat3 t))))
      else Inl RuntimeError)"

definition smpl_losses ::
  "(t1 \<Rightarrow> t2) \<Rightarrow> t4 \<Rightarrow> t2 \<Rightarrow> t2 \<Rightarrow> t2 \<Rightarrow> nat list \<Rightarrow> error + (real \<times> real)" where
  "smpl_losses rodrigues pred_rotmat pred_betas gt_pose gt_betas has_smpl =
     bindE (mask_select pred_rotmat (eq1 has_smpl)) (\<lambda>pred_rotmat_valid.
     bindE (view_rows 3 (flat2 gt_pose)) (\<lambda>rows.
     bindE (view_m1_24_3_3 (map rodrigues rows)) (\<lambda>gt_rotmat.
     bindE (mask_select gt_rotmat (eq1 has_smpl)) (\<lambda>gt_rotmat_valid.
     bindE (mask_select pred_betas (eq1 has_smpl)) (\<lambda>pred_betas_valid.
     bindE (mask_select gt_betas (eq1 has_smpl)) (\<lambda>gt_betas_valid.
     if length pred_rotmat_valid > 0 then
       bindE (criterion_regr4 pred_rotmat_valid gt_rotmat_valid) (\<lambda>loss_regr_pose.
       bindE (criterion_regr2 pred_betas_valid gt_betas_valid) (\<lambda>loss_regr_betas.
       Inr (loss_regr_pose, loss_regr_betas)))
     else Inr (0, 0)))))))"

section \<open>The trainer\<close>

subsection \<open>Batches, options and collaborators\<close>

text \<open>
  A batch is what the data loader collates from a list of dataset items:
  \<^verbatim>\<open>input_batch['pose']\<close> is \<open>map pose batch\<close>, and so on for every key, so all the
  tensors of a batch have the same first dimension. The keys \<^verbatim>\<open>is_flipped\<close>,
  \<^verbatim>\<open>rot_angle\<close>, \<^verbatim>\<open>dataset_name\<close> and \<^verbatim>\<open>sample_index\<close> are read by
  \<^verbatim>\<open>train_step\<close> and never used; they are left out.
\<close>

record 'img example =
  img :: 'img
  keypoints :: t2
  pose :: t1
  betas :: t1
  pose_3d :: t2
  has_smpl :: nat
  has_pose_3d :: nat
  imgname :: string

record options =
  img_res :: real
  use_wpp :: bool
  openpose_train_weight :: real
  gt_train_weight :: real
  shape_loss_weight :: real
  keypoint_loss_weight :: real
  pose_loss_weight :: real
  beta_loss_weight :: real
  batch_size :: nat

datatype json = JString string | JNumber real | JArray "json list" | JObject "(string \<times> json) list"

text \<open>
  The network, the body model, the geometry helpers, automatic differentiation and the
  optimizer are imported by \<^verbatim>\<open>train.py\<close> and not part of it. They are parameters,
  collected in one record:
  \<^item> \<open>network train w images x\<close>: the prediction (rotation matrices, shape
    coefficients, camera) of \<^verbatim>\<open>self.model\<close> with weights \<open>w\<close> for the item \<open>x\<close> of
    the batch \<open>images\<close>, in training or evaluation mode;
  \<^item> \<open>smpl\<close>, \<open>smpl_rotmat\<close>: the joints and vertices \<^verbatim>\<open>self.smpl\<close> gives one item
    from \<open>betas\<close>, \<open>body_pose\<close> and \<open>global_orient\<close>, the pose as axis-angle vectors
    or (\<^verbatim>\<open>pose2rot=False\<close>) as rotation matrices; \<open>smpl_eval\<close>,
    \<open>smpl_eval_rotmat\<close>: the same for \<^verbatim>\<open>self.smpl_eval\<close>;
  \<^item> \<open>rodrigues\<close>, \<open>rotation_matrix_to_angle_axis\<close>: the rotation conversions, per row
    and per matrix; \<open>reconstruction_error\<close>: the procrustes-aligned error of one item;
  \<^item> \<open>perspective_projection\<close>, \<open>estimate_translation\<close>: on whole batches; the
    second may raise;
  \<^item> \<open>autograd w batch\<close>: the gradient of the total loss of \<^verbatim>\<open>train_step\<close> on
    \<open>batch\<close> at the weights \<open>w\<close>, which \<^verbatim>\<open>loss.backward()\<close> adds to the
    parameters' gradients; \<open>grad_add\<close>: the sum of two gradients; \<open>adam\<close>: one
    \<^verbatim>\<open>optimizer.step()\<close>.
\<close>

record ('img, 'w, 'g, 'o) env =
  network :: "bool \<Rightarrow> 'w \<Rightarrow> 'img list \<Rightarrow> 'img \<Rightarrow> t3 \<times> t1 \<times> t1"
  smpl :: "t1 \<Rightarrow> t1 \<Rightarrow> t1 \<Rightarrow> t2 \<times> t2"
  smpl_rotmat :: "t1 \<Rightarrow> t3 \<Rightarrow> t3 \<Rightarrow> t2 \<times> t2"
  smpl_eval :: "t1 \<Rightarrow> t1 \<Rightarrow> t1 \<Rightarrow> t2 \<times> t2"
  smpl_eval_rotmat :: "t1 \<Rightarrow> t3 \<Rightarrow> t3 \<Rightarrow> t2 \<times> t2"
  rodrigues :: "t1 \<Rightarrow> t2"
  rotation_matrix_to_angle_axis :: "t2 \<Rightarrow> t1"
  reconstruction_error :: "t2 \<Rightarrow> t2 \<Rightarrow> real"
  perspective_projection :: "t3 \<Rightarrow> t3 \<Rightarrow> t2 \<Rightarrow> real \<Rightarrow> t2 \<Rightarrow> t3"
  estimate_translation :: "t3 \<Rightarrow> t3 \<Rightarrow> real \<Rightarrow> real \<Rightarrow> error + t2"
  focal_length :: real
  autograd :: "'w \<Rightarrow> 'img example list \<Rightarrow> 'g"
  grad_add :: "'g \<Rightarrow> 'g \<Rightarrow> 'g"
  adam :: "'o \<Rightarrow> 'w \<Rightarrow> 'g \<Rightarrow> 'o \<times> 'w"

text \<open>
  The state of the trainer that the three operations touch: the weights and the mode of
  the network, the gradients the parameters hold in \<^verbatim>\<open>.grad\<close> (\<open>None\<close> when they
  hold none, as after \<^verbatim>\<open>zero_grad\<close>), the state of the optimizer, and the log of the
  optimizer calls made so far.
\<close>

datatype event = ZeroGrad | Backward real | OptimizerStep

record ('w, 'g, 'o) trainer =
  weights :: 'w
  training :: bool
  grads :: "'g option"
  opt_state :: 'o
  events :: "event list"

record step_output =
  pred_vertices :: t3
  opt_vertices :: t3
  pred_cam_t :: t2
  opt_cam_t :: t2

record losses =
  loss :: real
  loss_keypoints :: real
  loss_keypoints_3d :: real
  loss_regr_pose :: real
  loss_regr_betas :: real
  loss_shape :: real

record losses_test =
  loss_test :: real
  loss_keypoints_test :: real
  loss_regr_pose_test :: real
  loss_regr_betas_test :: real
  loss_shape_test :: real

subsection \<open>Pieces shared by \<^verbatim>\<open>train_step\<close> and \<^verbatim>\<open>test_step\<close>\<close>

text \<open>\<^verbatim>\<open>.byte()\<close> and \<^verbatim>\<open>.bool()\<close> on a tensor of flags.\<close>

definition byte_flags :: "nat list \<Rightarrow> nat list" where
  "byte_flags flags = map (\<lambda>h. h mod 256) flags"

definition bool_flags :: "nat list \<Rightarrow> nat list" where
  "bool_flags flags = map (\<lambda>h. if h \<noteq> 0 then 1 else 0) flags"

text \<open>
  \<^verbatim>\<open>self.smpl(betas=b, body_pose=p[:,3:], global_orient=p[:,:3])\<close> on the ground truth,
  and \<^verbatim>\<open>self.smpl(betas=b, body_pose=r[:,1:], global_orient=r[:,0].unsqueeze(1),
  pose2rot=False)\<close> on the prediction; \<^verbatim>\<open>r[:,0]\<close> raises IndexError on an item
  without matrices.
\<close>

definition smpl_gt :: "(t1 \<Rightarrow> t1 \<Rightarrow> t1 \<Rightarrow> t2 \<times> t2) \<Rightarrow> t2 \<Rightarrow> t2 \<Rightarrow> (t2 \<times> t2) list" where
  "smpl_gt model gt_betas gt_pose = map2 (\<lambda>b p. model b (drop 3 p) (take 3 p)) gt_betas gt_pose"

definition smpl_pred ::
  "(t1 \<Rightarrow> t3 \<Rightarrow> t3 \<Rightarrow> t2 \<times> t2) \<Rightarrow> t2 \<Rightarrow> t4 \<Rightarrow> error + (t2 \<times> t2) list" where
  "smpl_pred model pred_betas pred_rotmat =
     bindE (select1 pred_rotmat 0) (\<lambda>r0.
     Inr (map2 (\<lambda>b (body, orient). model b body [orient]) pred_betas (zip (map (drop 1) pred_rotmat) r0)))"

text \<open>
  \<^verbatim>\<open>
  gt_keypoints_2d_orig = gt_keypoints_2d.clone()
  gt_keypoints_2d_orig[:, :, :-1] = 0.5 * self.options.img_res * (gt_keypoints_2d_orig[:, :, :-1] + 1)
  \<close>
\<close>

definition denormalize :: "real \<Rightarrow> t3 \<Rightarrow> t3" where
  "denormalize res kps =
     map (map (\<lambda>kp. if kp = [] then [] else map (\<lambda>v. 0.5 * res * (v + 1)) (butlast kp) @ [last kp])) kps"

text \<open>
  The camera branch: the 2D keypoints of the prediction and, in \<^verbatim>\<open>train_step\<close>, the
  camera translation \<open>pred_cam_t\<close>.
  \<^verbatim>\<open>
  if self.options.use_wpp:
      pred_keypoints_2d = weakProjection_gpu(pred_joints, pred_camera[:,0], pred_camera[:,1:])
      pred_cam_t = torch.zeros(batch_size, 3, device=self.device)
  else:
      pred_cam_t = torch.stack([pred_camera[:,1], pred_camera[:,2],
                                2*self.focal_length / (self.options.img_res*pred_camera[:,0]+1e-9)], dim=-1)
      camera_center = torch.zeros(batch_size, 2, device=self.device)
      pred_keypoints_2d = perspective_projection(pred_joints,
          rotation=torch.eye(3, device=self.device).unsqueeze(0).expand(batch_size, -1, -1),
          translation=pred_cam_t, focal_length=self.focal_length, camera_center=camera_center)
  \<close>
  \<^verbatim>\<open>test_step\<close> has the same branch without the line that sets \<open>pred_cam_t\<close> to
  zeros, and does not use \<open>pred_cam_t\<close> afterwards.
\<close>

definition eye3 :: t2 where
  "eye3 = [[1, 0, 0], [0, 1, 0], [0, 0, 1]]"

definition stack3 :: "t1 \<Rightarrow> t1 \<Rightarrow> t1 \<Rightarrow> t2" where
  "stack3 a b c = map (\<lambda>(x, y, z). [x, y, z]) (zip a (zip b c))"

definition project ::
  "('img, 'w, 'g, 'o) env \<Rightarrow> options \<Rightarrow> nat \<Rightarrow> t3 \<Rightarrow> t2 \<Rightarrow> error + (t3 \<times> t2)" where
  "project env opts batch_size' pred_joints pred_camera =
     (if use_wpp opts then
        bindE (select1 pred_camera 0) (\<lambda>s.
        bindE (weakProjection_gpu pred_joints s (map (drop 1) pred_camera)) (\<lambda>pred_keypoints_2d.
        Inr (pred_keypoints_2d, replicate batch_size' [0, 0, 0])))
      else
        bindE (select1 pred_camera 1) (\<lambda>tx.
        bindE (select1 pred_camera 2) (\<lambda>ty.
        bindE (select1 pred_camera 0) (\<lambda>s.
        let pred_cam_t = stack3 tx ty (map (\<lambda>v. 2 * focal_length env / (img_res opts * v + 1 / 10 ^ 9)) s);
            camera_center = replicate batch_size' [0, 0]
        in Inr (perspective_projection env pred_joints (replicate batch_size' eye3) pred_cam_t
                  (focal_length env) camera_center, pred_cam_t)))))"

text \<open>The last summand of both totals: \<^verbatim>\<open>((torch.exp(-pred_camera[:,0]*10)) ** 2).mean()\<close>.\<close>

definition camera_term :: "t2 \<Rightarrow> error + real" where
  "camera_term pred_camera =
     bindE (select1 pred_camera 0) (\<lambda>s. Inr (mean_list (map (\<lambda>v. (exp (- v * 10))\<^sup>2) s)))"

subsection \<open>\<^verbatim>\<open>train_step\<close>\<close>

text \<open>
  \<open>train_losses\<close> is the body of \<^verbatim>\<open>train_step\<close> from the first line after
  \<^verbatim>\<open>self.model.train()\<close> to \<^verbatim>\<open>loss *= 60\<close>, with the values the function returns
  in \<^verbatim>\<open>output\<close> and \<^verbatim>\<open>losses\<close>; it reads the weights and changes nothing. The bare
  \<^verbatim>\<open>except:\<close> around \<^verbatim>\<open>estimate_translation\<close> turns every exception into
  \<^verbatim>\<open>gt_cam_t = None\<close>. The ground-truth keypoints go to \<^verbatim>\<open>keypoint_loss\<close> by
  reference: they are the tensor at address 0 of the store of that call.
\<close>

definition train_losses ::
  "('img, 'w, 'g, 'o) env \<Rightarrow> options \<Rightarrow> 'w \<Rightarrow> 'img example list \<Rightarrow> error + (step_output \<times> losses)" where
  "train_losses env opts w input_batch =
     (let images = map img input_batch;
          gt_keypoints_2d = map keypoints input_batch;
          gt_pose = map pose input_batch;
          gt_betas = map betas input_batch;
          gt_joints = map pose_3d input_batch;
          has_smpl' = byte_flags (map has_smpl input_batch);
          has_pose_3d' = byte_flags (map has_pose_3d input_batch);
          batch_size' = length images;
          gt_out = smpl_gt (smpl env) gt_betas gt_pose;
          gt_model_joints = map fst gt_out;
          gt_vertices = map snd gt_out;
          gt_keypoints_2d_orig = denormalize (img_res opts) gt_keypoints_2d;
          gt_cam_t = (case estimate_translation env gt_model_joints gt_keypoints_2d_orig
                             (focal_length env) (img_res opts) of
                        Inl e \<Rightarrow> None | Inr t \<Rightarrow> Some t);
          pred = map (network env True w images) images;
          pred_rotmat = map fst pred;
          pred_betas = map (fst \<circ> snd) pred;
          pred_camera = map (snd \<circ> snd) pred
      in
      bindE (smpl_pred (smpl_rotmat env) pred_betas pred_rotmat) (\<lambda>pred_output.
      let pred_vertices' = map snd pred_output;
          pred_joints = map fst pred_output
      in
      bindE (project env opts batch_size' pred_joints pred_camera) (\<lambda>(pred_keypoints_2d, pred_cam_t').
      let gt_cam_t' = (case gt_cam_t of None \<Rightarrow> pred_cam_t' | Some t \<Rightarrow> t);
          pred_keypoints_2d' = map (map (map (\<lambda>v. v / (img_res opts / 2)))) pred_keypoints_2d;
          valid_fit = bool_flags has_smpl'
      in
      bindE (smpl_losses (rodrigues env) pred_rotmat pred_betas gt_pose gt_betas valid_fit)
        (\<lambda>(loss_regr_pose', loss_regr_betas').
      bindE (fst (keypoint_loss [gt_keypoints_2d] pred_keypoints_2d' 0
                    (openpose_train_weight opts) (gt_train_weight opts))) (\<lambda>loss_keypoints'.
      bindE (keypoint_3d_loss pred_joints gt_joints has_pose_3d') (\<lambda>loss_keypoints_3d'.
      bindE (shape_loss pred_vertices' gt_vertices valid_fit) (\<lambda>loss_shape'.
      bindE (camera_term pred_camera) (\<lambda>cam.
      let total = (shape_loss_weight opts * loss_shape' +
                   keypoint_loss_weight opts * loss_keypoints' +
                   keypoint_loss_weight opts * loss_keypoints_3d' +
                   pose_loss_weight opts * loss_regr_pose' +
                   beta_loss_weight opts * loss_regr_betas' +
                   cam) * 60
      in Inr (\<lparr>pred_vertices = pred_vertices', opt_vertices = gt_vertices,
               pred_cam_t = pred_cam_t', opt_cam_t = gt_cam_t'\<rparr>,
              \<lparr>loss = total, loss_keypoints = loss_keypoints',
               loss_keypoints_3d = loss_keypoints_3d', loss_regr_pose = loss_regr_pose',
               loss_regr_betas = loss_regr_betas', loss_shape = loss_shape'\<rparr>)))))))))"

text \<open>
  \<^verbatim>\<open>
  self.model.train()
  ...
  self.optimizer.zero_grad()
  loss.backward()
  self.optimizer.step()
  \<close>
  An exception in the body leaves the function before the three optimizer lines.
  \<^verbatim>\<open>zero_grad\<close> clears the gradients; \<^verbatim>\<open>backward\<close> accumulates: it adds the
  gradient of the loss to the gradients the parameters hold, and stores it where they
  hold none; \<^verbatim>\<open>step\<close> updates the weights from the gradients the parameters hold
  and skips parameters without a gradient.
\<close>

definition zero_grad :: "('w, 'g, 'o) trainer \<Rightarrow> ('w, 'g, 'o) trainer" where
  "zero_grad tr = tr\<lparr>grads := None, events := events tr @ [ZeroGrad]\<rparr>"

definition backward ::
  "('img, 'w, 'g, 'o) env \<Rightarrow> 'img example list \<Rightarrow> real \<Rightarrow> ('w, 'g, 'o) trainer \<Rightarrow> ('w, 'g, 'o) trainer" where
  "backward env input_batch l tr =
     (let g = autograd env (weights tr) input_batch
      in tr\<lparr>grads := Some (case grads tr of None \<Rightarrow> g | Some old \<Rightarrow> grad_add env old g),
             events := events tr @ [Backward l]\<rparr>)"

definition optimizer_step ::
  "('img, 'w, 'g, 'o) env \<Rightarrow> ('w, 'g, 'o) trainer \<Rightarrow> ('w, 'g, 'o) trainer" where
  "optimizer_step env tr =
     (case grads tr of
        None \<Rightarrow> tr\<lparr>events := events tr @ [OptimizerStep]\<rparr>
      | Some g \<Rightarrow>
          let (o', w') = adam env (opt_state tr) (weights tr) g
          in tr\<lparr>weights := w', opt_state := o', events := events tr @ [OptimizerStep]\<rparr>)"

definition train_step ::
  "('img, 'w, 'g, 'o) env \<Rightarrow> options \<Rightarrow> ('w, 'g, 'o) trainer \<Rightarrow> 'img example list \<Rightarrow>
   (error + (step_output \<times> losses)) \<times> ('w, 'g, 'o) trainer" where
  "train_step env opts tr input_batch =
     (let tr1 = tr\<lparr>training := True\<rparr> in
      case train_losses env opts (weights tr1) input_batch of
        Inl e \<Rightarrow> (Inl e, tr1)
      | Inr (out, ls) \<Rightarrow>
          (Inr (out, ls), optimizer_step env (backward env input_batch (loss ls) (zero_grad tr1))))"

subsection \<open>\<^verbatim>\<open>test_step\<close>\<close>

text \<open>
  The body of \<^verbatim>\<open>test_step\<close> after \<^verbatim>\<open>self.model.eval()\<close>. It evaluates the body
  model on the ground truth as \<^verbatim>\<open>train_step\<close> does and keeps the vertices; the mask
  of the losses is \<^verbatim>\<open>has_smpl\<close> itself; there is no 3D keypoint loss.
\<close>

definition test_losses ::
  "('img, 'w, 'g, 'o) env \<Rightarrow> options \<Rightarrow> 'w \<Rightarrow> 'img example list \<Rightarrow> error + losses_test" where
  "test_losses env opts w input_batch =
     (let images = map img input_batch;
          gt_keypoints_2d = map keypoints input_batch;
          gt_pose = map pose input_batch;
          gt_betas = map betas input_batch;
          has_smpl' = byte_flags (map has_smpl input_batch);
          batch_size' = length images;
          gt_out = smpl_gt (smpl env) gt_betas gt_pose;
          gt_vertices = map snd gt_out;
          pred = map (network env False w images) images;
          pred_rotmat = map fst pred;
          pred_betas = map (fst \<circ> snd) pred;
          pred_camera = map (snd \<circ> snd) pred
      in
      bindE (smpl_pred (smpl_rotmat env) pred_betas pred_rotmat) (\<lambda>pred_output.
      let pred_vertices' = map snd pred_output;
          pred_joints = map fst pred_output
      in
      bindE (project env opts batch_size' pred_joints pred_camera) (\<lambda>(pred_keypoints_2d, pred_cam_t').
      let pred_keypoints_2d' = map (map (map (\<lambda>v. v / (img_res opts / 2)))) pred_keypoints_2d;
          valid_fit = has_smpl'
      in
      bindE (smpl_losses (rodrigues env) pred_rotmat pred_betas gt_pose gt_betas valid_fit)
        (\<lambda>(loss_regr_pose', loss_regr_betas').
      bindE (fst (keypoint_loss [gt_keypoints_2d] pred_keypoints_2d' 0
                    (openpose_train_weight opts) (gt_train_weight opts))) (\<lambda>loss_keypoints'.
      bindE (shape_loss pred_vertices' gt_vertices valid_fit) (\<lambda>loss_shape'.
      bindE (camera_term pred_camera) (\<lambda>cam.
      let total = (shape_loss_weight opts * loss_shape' +
                   keypoint_loss_weight opts * loss_keypoints' +
                   pose_loss_weight opts * loss_regr_pose' +
                   beta_loss_weight opts * loss_regr_betas' +
                   cam) * 60
      in Inr \<lparr>loss_test = total, loss_keypoints_test = loss_keypoints',
               loss_regr_pose_test = loss_regr_pose', loss_regr_betas_test = loss_regr_betas',
               loss_shape_test = loss_shape'\<rparr>)))))))"

definition test_step ::
  "('img, 'w, 'g, 'o) env \<Rightarrow> options \<Rightarrow> ('w, 'g, 'o) trainer \<Rightarrow> 'img example list \<Rightarrow>
   (error + losses_test) \<times> ('w, 'g, 'o) trainer" where
  "test_step env opts tr input_batch =
     (let tr1 = tr\<lparr>training := False\<rparr>
      in (test_losses env opts (weights tr1) input_batch, tr1))"

subsection \<open>\<^verbatim>\<open>eval\<close>\<close>

text \<open>
  The data loader (\<^verbatim>\<open>shuffle=False\<close>, no \<^verbatim>\<open>drop_last\<close>) cuts the test set into
  consecutive batches of \<open>batch_size\<close> items, the last one shorter when the sizes do
  not divide; its constructor raises ValueError for a batch size of 0.
\<close>

definition loader_batches :: "nat \<Rightarrow> 'a list \<Rightarrow> 'a list list" where
  "loader_batches bs ds = map (\<lambda>k. take bs (drop (k * bs) ds)) [0..<(length ds + bs - 1) div bs]"

text \<open>
  \<^verbatim>\<open>torch.sqrt(((pred - gt)**2).sum(dim=-1)).mean(dim=-1)\<close>: for each item, the mean
  over its points of the Euclidean distance between prediction and ground truth.
\<close>

definition point_errors :: "t3 \<Rightarrow> t3 \<Rightarrow> error + t1" where
  "point_errors pred gt =
     bindE (of_opt RuntimeError (ew3 sq_diff pred gt)) (\<lambda>d.
     Inr (map (\<lambda>item. mean_list (map (\<lambda>pt. sqrt (sum_list pt)) item)) d))"

text \<open>
  \<^verbatim>\<open>arr[lo:lo+n] = vals\<close> on a numpy array: the slice is clipped to the array, a
  single value is repeated over it, and any other length mismatch raises ValueError.
\<close>

definition assign_slice :: "t1 \<Rightarrow> nat \<Rightarrow> nat \<Rightarrow> t1 \<Rightarrow> error + t1" where
  "assign_slice arr lo n vals =
     (let lo' = min lo (length arr); hi' = min (lo + n) (length arr); m = hi' - lo' in
      if length vals = m then Inr (take lo' arr @ vals @ drop hi' arr)
      else if length vals = 1 then Inr (take lo' arr @ replicate m (hd vals) @ drop hi' arr)
      else Inl ValueError)"

text \<open>
  \<^verbatim>\<open>
  rot_pad = torch.tensor([0,0,1], dtype=torch.float32, device=self.device).view(1,3,1)
  rotmat = torch.cat((pred_rotmat.view(-1, 3, 3), rot_pad.expand(curr_batch_size * 24, -1, -1)), dim=-1)
  pred_pose = tgm.rotation_matrix_to_angle_axis(rotmat).contiguous().view(-1, 72)
  \<close>
\<close>

definition view_m1_3_3 :: "t4 \<Rightarrow> error + t3" where
  "view_m1_3_3 t =
     (if 9 dvd length (flat4 t) then Inr (chunks 3 (chunks 3 (flat4 t))) else Inl RuntimeError)"

definition cat_rot_pad :: "nat \<Rightarrow> t3 \<Rightarrow> error + t3" where
  "cat_rot_pad curr_batch_size mats =
     (if length mats = curr_batch_size * 24
      then Inr (map (\<lambda>m. map2 (\<lambda>row pad. row @ pad) m [[0], [0], [1]]) mats)
      else Inl RuntimeError)"

definition pred_pose_of :: "(t2 \<Rightarrow> t1) \<Rightarrow> nat \<Rightarrow> t4 \<Rightarrow> error + t2" where
  "pred_pose_of to_angle_axis curr_batch_size pred_rotmat =
     bindE (view_m1_3_3 pred_rotmat) (\<lambda>mats.
     bindE (cat_rot_pad curr_batch_size mats) (\<lambda>rotmat.
     view_rows 72 (flat2 (map to_angle_axis rotmat))))"

text \<open>
  Python's \<^verbatim>\<open>s.split('/')\<close>, indexing from the end (\<^verbatim>\<open>xs[-k]\<close>) and from the
  start; both raise IndexError out of range.
\<close>

fun split_on :: "char \<Rightarrow> string \<Rightarrow> string list" where
  "split_on c [] = [[]]"
| "split_on c (x # xs) =
     (if x = c then [] # split_on c xs
      else (case split_on c xs of [] \<Rightarrow> [[x]] | w # ws \<Rightarrow> (x # w) # ws))"

definition index_from_end :: "'a list \<Rightarrow> nat \<Rightarrow> error + 'a" where
  "index_from_end xs k = (if 0 < k \<and> k \<le> length xs then Inr (xs ! (length xs - k)) else Inl IndexError)"

definition index :: "'a list \<Rightarrow> nat \<Rightarrow> error + 'a" where
  "index xs i = (if i < length xs then Inr (xs ! i) else Inl IndexError)"

text \<open>
  The dictionary of predictions keeps its keys in insertion order, as a Python
  dictionary does; it is an association list, and \<open>AList.update\<close> replaces the value
  of a key in place or appends a new key.
  \<^verbatim>\<open>
  for i in range(curr_batch_size):
      recording_name = img_path[i].split('/')[-4]
      frame_name = img_path[i].split('/')[-1]
      if recording_name not in pred_dict.keys():
          pred_dict[recording_name] = {}
      pred_dict[recording_name][frame_name] = {
          'gender': 'neutral',
          'body_pose': [pred_pose[i][3:].cpu().numpy().tolist()],
          'global_orient': [pred_pose[i][:3].cpu().numpy().tolist()],
          'betas': [pred_betas[i].cpu().numpy().tolist()]
      }
  \<close>
\<close>

type_synonym pred_dict = "(string \<times> (string \<times> json) list) list"

definition tolist :: "t1 \<Rightarrow> json" where
  "tolist v = JArray (map JNumber v)"

definition frame_entry :: "t1 \<Rightarrow> t1 \<Rightarrow> json" where
  "frame_entry pose_i betas_i =
     JObject [(''gender'', JString ''neutral''),
              (''body_pose'', JArray [tolist (drop 3 pose_i)]),
              (''global_orient'', JArray [tolist (take 3 pose_i)]),
              (''betas'', JArray [tolist betas_i])]"

definition set_frame :: "pred_dict \<Rightarrow> string \<Rightarrow> string \<Rightarrow> json \<Rightarrow> pred_dict" where
  "set_frame d recording_name frame_name entry =
     (let d' = (if recording_name \<notin> fst ` set d then AList.update recording_name [] d else d);
          frames = (case map_of d' recording_name of None \<Rightarrow> [] | Some fr \<Rightarrow> fr)
      in AList.update recording_name (AList.update frame_name entry frames) d')"

definition save_item :: "string list \<Rightarrow> t2 \<Rightarrow> t2 \<Rightarrow> pred_dict \<Rightarrow> nat \<Rightarrow> error + pred_dict" where
  "save_item img_path pred_pose pred_betas d i =
     bindE (index img_path i) (\<lambda>path.
     bindE (index_from_end (split_on CHR ''/'' path) 4) (\<lambda>recording_name.
     bindE (index_from_end (split_on CHR ''/'' path) 1) (\<lambda>frame_name.
     bindE (index pred_pose i) (\<lambda>pose_i.
     bindE (index pred_betas i) (\<lambda>betas_i.
     Inr (set_frame d recording_name frame_name (frame_entry pose_i betas_i)))))))"

fun save_items :: "string list \<Rightarrow> t2 \<Rightarrow> t2 \<Rightarrow> pred_dict \<Rightarrow> nat list \<Rightarrow> error + pred_dict" where
  "save_items img_path pred_pose pred_betas d [] = Inr d"
| "save_items img_path pred_pose pred_betas d (i # is) =
     bindE (save_item img_path pred_pose pred_betas d i) (\<lambda>d'.
     save_items img_path pred_pose pred_betas d' is)"

text \<open>
  What the loop of \<^verbatim>\<open>eval\<close> carries from batch to batch: the four arrays of per-item
  errors and the dictionary of predictions.
\<close>

record eval_acc =
  mpjpe :: t1
  pa_mpjpe :: t1
  v2v :: t1
  pa_v2v :: t1
  pred_dict :: pred_dict

definition eval_batch ::
  "('img, 'w, 'g, 'o) env \<Rightarrow> 'w \<Rightarrow> nat \<Rightarrow> nat \<Rightarrow> 'img example list \<Rightarrow> eval_acc \<Rightarrow> error + eval_acc" where
  "eval_batch env w batch_size' step batch acc =
     (let gt_pose = map pose batch;
          gt_betas = map betas batch;
          gt_output = smpl_gt (smpl_eval env) gt_betas gt_pose;
          gt_joints = map (take 24 \<circ> fst) gt_output;
          gt_vertices = map snd gt_output;
          images = map img batch;
          curr_batch_size = length images;
          pred = map (network env False w images) images;
          pred_rotmat = map fst pred;
          pred_betas = map (fst \<circ> snd) pred;
          lo = step * batch_size'
      in
      bindE (smpl_pred (smpl_eval_rotmat env) pred_betas pred_rotmat) (\<lambda>pred_output.
      let pred_joints = map (take 24 \<circ> fst) pred_output;
          pred_vertices' = map snd pred_output
      in
      bindE (point_errors pred_joints gt_joints) (\<lambda>e1.
      bindE (assign_slice (mpjpe acc) lo curr_batch_size e1) (\<lambda>mpjpe'.
      bindE (assign_slice (pa_mpjpe acc) lo curr_batch_size
               (map2 (reconstruction_error env) pred_joints gt_joints)) (\<lambda>pa_mpjpe'.
      bindE (point_errors pred_vertices' gt_vertices) (\<lambda>e2.
      bindE (assign_slice (v2v acc) lo curr_batch_size e2) (\<lambda>v2v'.
      bindE (assign_slice (pa_v2v acc) lo curr_batch_size
               (map2 (reconstruction_error env) pred_vertices' gt_vertices)) (\<lambda>pa_v2v'.
      bindE (pred_pose_of (rotation_matrix_to_angle_axis env) curr_batch_size pred_rotmat) (\<lambda>pred_pose.
      bindE (save_items (map imgname batch) pred_pose pred_betas (pred_dict acc) [0..<curr_batch_size])
        (\<lambda>d.
      Inr \<lparr>mpjpe = mpjpe', pa_mpjpe = pa_mpjpe', v2v = v2v', pa_v2v = pa_v2v',
           pred_dict = d\<rparr>))))))))))"

fun eval_loop ::
  "('img, 'w, 'g, 'o) env \<Rightarrow> 'w \<Rightarrow> nat \<Rightarrow> nat \<Rightarrow> 'img example list list \<Rightarrow> eval_acc \<Rightarrow> error + eval_acc" where
  "eval_loop env w batch_size' step [] acc = Inr acc"
| "eval_loop env w batch_size' step (batch # rest) acc =
     bindE (eval_batch env w batch_size' step batch acc) (\<lambda>acc'.
     eval_loop env w batch_size' (Suc step) rest acc')"

text \<open>
  The two files \<^verbatim>\<open>eval\<close> writes, in a file system that maps a path to the text of
  the file: the log is opened with \<^verbatim>\<open>'a+'\<close> and the submission with \<^verbatim>\<open>'w+'\<close>.
  \<^verbatim>\<open>
  with open(self.eval_result_path, 'a+') as f:
      f.writelines(self.submission_path + '\n')
      f.writelines('MPJPE: ' + str(1000 * mpjpe.mean()) + '\n')
      f.writelines('PA-MPJPE: ' + str(1000 * pa_mpjpe.mean()) + '\n')
      f.writelines('V2V: ' + str(1000 * v2v.mean()) + '\n')
      f.writelines('PA-V2V: ' + str(1000 * pa_v2v.mean()) + '\n')
      f.writelines('\n')
  pred_json=json.dumps(pred_dict)
  with open(self.submission_path, 'w+') as f:
      f.write(pred_json)
  \<close>
  The text of a file is a sequence of pieces: literal text, the text \<^verbatim>\<open>str(x)\<close> of a
  float \<open>x\<close>, and the text \<^verbatim>\<open>json.dumps(j)\<close> of a JSON value \<open>j\<close>; how Python
  prints a float or a JSON value is not modelled. The four \<^verbatim>\<open>print\<close> lines before
  write the same numbers to the standard output, which is not modelled either.

  The \<^verbatim>\<open>mean()\<close> of a numpy array without elements is NaN (with a warning, no
  exception), and so is 1000 times it: the floats that are logged are \<open>Finite x\<close> or
  \<open>NaN\<close>.
\<close>

datatype npfloat = Finite real | NaN

definition np_mean :: "t1 \<Rightarrow> npfloat" where
  "np_mean arr = (if arr = [] then NaN else Finite (sum_list arr / real (length arr)))"

fun np_times :: "real \<Rightarrow> npfloat \<Rightarrow> npfloat" where
  "np_times c (Finite x) = Finite (c * x)"
| "np_times c NaN = NaN"

datatype piece = Text string | FloatStr npfloat | JsonDumps json

type_synonym files = "string \<Rightarrow> piece list option"

definition append_file :: "files \<Rightarrow> string \<Rightarrow> piece list \<Rightarrow> files" where
  "append_file fs path ps = fs(path \<mapsto> (case fs path of None \<Rightarrow> ps | Some old \<Rightarrow> old @ ps))"

definition write_file :: "files \<Rightarrow> string \<Rightarrow> piece list \<Rightarrow> files" where
  "write_file fs path ps = fs(path \<mapsto> ps)"

definition newline :: string where
  "newline = [CHR 0x0A]"

definition report :: "string \<Rightarrow> t1 \<Rightarrow> t1 \<Rightarrow> t1 \<Rightarrow> t1 \<Rightarrow> piece list" where
  "report submission_path mpjpe' pa_mpjpe' v2v' pa_v2v' =
     [Text (submission_path @ newline),
      Text ''MPJPE: '', FloatStr (np_times 1000 (np_mean mpjpe')), Text newline,
      Text ''PA-MPJPE: '', FloatStr (np_times 1000 (np_mean pa_mpjpe')), Text newline,
      Text ''V2V: '', FloatStr (np_times 1000 (np_mean v2v')), Text newline,
      Text ''PA-V2V: '', FloatStr (np_times 1000 (np_mean pa_v2v')), Text newline,
      Text newline]"

definition dict_json :: "pred_dict \<Rightarrow> json" where
  "dict_json d = JObject (map (\<lambda>(recording_name, frames). (recording_name, JObject frames)) d)"

definition eval_acc0 :: "nat \<Rightarrow> eval_acc" where
  "eval_acc0 n = \<lparr>mpjpe = replicate n 0, pa_mpjpe = replicate n 0, v2v = replicate n 0,
                  pa_v2v = replicate n 0, pred_dict = []\<rparr>"

definition eval ::
  "('img, 'w, 'g, 'o) env \<Rightarrow> options \<Rightarrow> string \<Rightarrow> string \<Rightarrow> 'img example list \<Rightarrow>
   ('w, 'g, 'o) trainer \<Rightarrow> files \<Rightarrow> (error + unit) \<times> ('w, 'g, 'o) trainer \<times> files" where
  "eval env opts eval_result_path submission_path test_ds tr fs =
     (let tr1 = tr\<lparr>training := False\<rparr> in
      if batch_size opts = 0 then (Inl ValueError, tr1, fs)
      else
        case eval_loop env (weights tr1) (batch_size opts) 0
               (loader_batches (batch_size opts) test_ds) (eval_acc0 (length test_ds)) of
          Inl e \<Rightarrow> (Inl e, tr1, fs)
        | Inr acc \<Rightarrow>
            (Inr (), tr1,
             write_file
               (append_file fs eval_result_path
                  (report submission_path (mpjpe acc) (pa_mpjpe acc) (v2v acc) (pa_v2v acc)))
               submission_path [JsonDumps (dict_json (pred_dict acc))]))"

section \<open>Translated keypoints\<close>

text \<open>
  Adding one 3-vector \<open>t\<close> to every predicted keypoint from index 25 on, and to the
  three coordinates of every ground-truth keypoint (the confidence, its last entry,
  stays): the inputs that the statement about translations of the 3D keypoint loss
  compares.
\<close>

definition translate_pred :: "t1 \<Rightarrow> t3 \<Rightarrow> t3" where
  "translate_pred t pred = map (\<lambda>item. take 25 item @ map (\<lambda>p. map2 (+) p t) (drop 25 item)) pred"

definition translate_gt :: "t1 \<Rightarrow> t3 \<Rightarrow> t3" where
  "translate_gt t gt = map (map (\<lambda>kp. map2 (+) (butlast kp) t @ [last kp])) gt"

text \<open>
  What \<open>center_on_pelvis\<close> computes for one item whose points have 3 coordinates:
  every point minus the midpoint of points 2 and 3.
\<close>

definition centered :: "t2 \<Rightarrow> t2" where
  "centered item = map (\<lambda>q. map2 (-) q (map (\<lambda>v. v / 2) (map2 (+) (item ! 2) (item ! 3)))) item"

section \<open>Values named in the statements\<close>

text \<open>
  The ground-truth vertices and the predicted body of a batch, as \<^verbatim>\<open>train_step\<close> and
  \<^verbatim>\<open>test_step\<close> compute them, and the predicted camera scales
  \<^verbatim>\<open>pred_camera[:,0]\<close>.
\<close>

definition gt_vertices_of :: "('img, 'w, 'g, 'o) env \<Rightarrow> 'img example list \<Rightarrow> t3" where
  "gt_vertices_of env batch =
     map (\<lambda>e. snd (smpl env (betas e) (drop 3 (pose e)) (take 3 (pose e)))) batch"

definition gt_model_joints_of :: "('img, 'w, 'g, 'o) env \<Rightarrow> 'img example list \<Rightarrow> t3" where
  "gt_model_joints_of env batch =
     map (\<lambda>e. fst (smpl env (betas e) (drop 3 (pose e)) (take 3 (pose e)))) batch"

definition prediction ::
  "('img, 'w, 'g, 'o) env \<Rightarrow> bool \<Rightarrow> 'w \<Rightarrow> 'img example list \<Rightarrow> (t3 \<times> t1 \<times> t1) list" where
  "prediction env train w batch = map (network env train w (map img batch)) (map img batch)"

definition pred_output_of ::
  "('img, 'w, 'g, 'o) env \<Rightarrow> bool \<Rightarrow> 'w \<Rightarrow> 'img example list \<Rightarrow> error + (t2 \<times> t2) list" where
  "pred_output_of env train w batch =
     smpl_pred (smpl_rotmat env) (map (fst \<circ> snd) (prediction env train w batch))
       (map fst (prediction env train w batch))"

definition camera_scales ::
  "('img, 'w, 'g, 'o) env \<Rightarrow> bool \<Rightarrow> 'w \<Rightarrow> 'img example list \<Rightarrow> real list" where
  "camera_scales env train w batch = map (\<lambda>(r, b, c). c ! 0) (prediction env train w batch)"

text \<open>
  The sum the loss composer is said to compute: each of the five losses times its weight
  from the options, the keypoint weight for the 2D and for the 3D loss.
\<close>

definition weighted_sum :: "options \<Rightarrow> losses \<Rightarrow> real" where
  "weighted_sum opts ls =
     keypoint_loss_weight opts * loss_keypoints ls +
     keypoint_loss_weight opts * loss_keypoints_3d ls +
     shape_loss_weight opts * loss_shape ls +
     pose_loss_weight opts * loss_regr_pose ls +
     beta_loss_weight opts * loss_regr_betas ls"

text \<open>
  The Euclidean distance between two points, and the mean over the points of two bodies
  of the distance between corresponding points: the per-joint and the per-vertex error
  of one item.
\<close>

definition distance :: "t1 \<Rightarrow> t1 \<Rightarrow> real" where
  "distance p g = sqrt (sum_list (map2 (\<lambda>x y. (x - y)\<^sup>2) p g))"

definition mean_distance :: "t2 \<Rightarrow> t2 \<Rightarrow> real" where
  "mean_distance ps gs = sum_list (map2 distance ps gs) / real (length ps)"

text \<open>
  The mean of a list of errors, times 1000, as a number of the log: NaN when there is
  no error to average.
\<close>

definition scaled_mean :: "real list \<Rightarrow> npfloat" where
  "scaled_mean xs = (if xs = [] then NaN else Finite (1000 * (sum_list xs / real (length xs))))"

text \<open>
  For one item \<open>e\<close> of a batch of \<^verbatim>\<open>eval\<close>: its prediction, the pose written for it
  (the angle-axis vectors of its rotation matrices, each padded with the column
  \<open>(0, 0, 1)\<close>, one after the other), its entry in the submission, the names it is
  filed under, its predicted and its ground-truth body (joints and vertices), and its
  four errors.
\<close>

definition item_prediction ::
  "('img, 'w, 'g, 'o) env \<Rightarrow> 'w \<Rightarrow> 'img example list \<Rightarrow> 'img example \<Rightarrow> t3 \<times> t1 \<times> t1" where
  "item_prediction env w batch e = network env False w (map img batch) (img e)"

definition item_pose :: "('img, 'w, 'g, 'o) env \<Rightarrow> t3 \<Rightarrow> t1" where
  "item_pose env rotmats =
     concat (map (\<lambda>m. rotation_matrix_to_angle_axis env (map2 (\<lambda>row pad. row @ pad) m [[0], [0], [1]]))
               rotmats)"

definition item_entry ::
  "('img, 'w, 'g, 'o) env \<Rightarrow> 'w \<Rightarrow> 'img example list \<Rightarrow> 'img example \<Rightarrow> json" where
  "item_entry env w batch e =
     (let (rotmats, betas', cam) = item_prediction env w batch e
      in frame_entry (item_pose env rotmats) betas')"

definition path_names :: "string \<Rightarrow> string \<times> string" where
  "path_names path =
     (let parts = split_on CHR ''/'' path
      in (parts ! (length parts - 4), parts ! (length parts - 1)))"

definition item_names :: "'img example \<Rightarrow> string \<times> string" where
  "item_names e = path_names (imgname e)"

definition item_bodies ::
  "('img, 'w, 'g, 'o) env \<Rightarrow> 'w \<Rightarrow> 'img example list \<Rightarrow> 'img example \<Rightarrow> (t2 \<times> t2) \<times> (t2 \<times> t2)" where
  "item_bodies env w batch e =
     (let (rotmats, betas', cam) = item_prediction env w batch e
      in (smpl_eval_rotmat env betas' (drop 1 rotmats) [rotmats ! 0],
          smpl_eval env (betas e) (drop 3 (pose e)) (take 3 (pose e))))"

definition item_mpjpe :: "('img, 'w, 'g, 'o) env \<Rightarrow> 'w \<Rightarrow> 'img example list \<Rightarrow> 'img example \<Rightarrow> real" where
  "item_mpjpe env w batch e =
     (let (pred, gt) = item_bodies env w batch e in mean_distance (take 24 (fst pred)) (take 24 (fst gt)))"

definition item_pa_mpjpe :: "('img, 'w, 'g, 'o) env \<Rightarrow> 'w \<Rightarrow> 'img example list \<Rightarrow> 'img example \<Rightarrow> real" where
  "item_pa_mpjpe env w batch e =
     (let (pred, gt) = item_bodies env w batch e
      in reconstruction_error env (take 24 (fst pred)) (take 24 (fst gt)))"

definition item_v2v :: "('img, 'w, 'g, 'o) env \<Rightarrow> 'w \<Rightarrow> 'img example list \<Rightarrow> 'img example \<Rightarrow> real" where
  "item_v2v env w batch e =
     (let (pred, gt) = item_bodies env w batch e in mean_distance (snd pred) (snd gt))"

definition item_pa_v2v :: "('img, 'w, 'g, 'o) env \<Rightarrow> 'w \<Rightarrow> 'img example list \<Rightarrow> 'img example \<Rightarrow> real" where
  "item_pa_v2v env w batch e =
     (let (pred, gt) = item_bodies env w batch e in reconstruction_error env (snd pred) (snd gt))"

text \<open>
  \<open>per_item f bs ds\<close> lists \<open>f batch e\<close> for every item \<open>e\<close> of the test set \<open>ds\<close>,
  in order, \<open>batch\<close> being the batch of the loader that holds \<open>e\<close>.
\<close>

definition per_item :: "('a list \<Rightarrow> 'a \<Rightarrow> 'b) \<Rightarrow> nat \<Rightarrow> 'a list \<Rightarrow> 'b list" where
  "per_item f bs ds = concat (map (\<lambda>batch. map (f batch) batch) (loader_batches bs ds))"

text \<open>The entry that a dictionary of predictions holds for a recording and a frame.\<close>

definition lookup_frame :: "pred_dict \<Rightarrow> string \<times> string \<Rightarrow> json option" where
  "lookup_frame d k = (case map_of d (fst k) of None \<Rightarrow> None | Some frames \<Rightarrow> map_of frames (snd k))"

text \<open>
  A dictionary of predictions in which no recording and, within a recording, no frame
  occurs twice as a key, and in which every recording has a frame.
\<close>

definition well_keyed :: "pred_dict \<Rightarrow> bool" where
  "well_keyed d \<longleftrightarrow>
     distinct (map fst d) \<and> (\<forall>(recording_name, frames) \<in> set d. frames \<noteq> [] \<and> distinct (map fst frames))"

text \<open>
  The shape of the predictions that makes the rows of \<^verbatim>\<open>pred_pose\<close> the poses of the
  items: 24 rotation matrices of 3 by 3 numbers per item, and 3 numbers per angle-axis
  vector.
\<close>

definition rotations_shaped :: "('img, 'w, 'g, 'o) env \<Rightarrow> bool" where
  "rotations_shaped env \<longleftrightarrow>
     (\<forall>train w images x. length (fst (network env train w images x)) = 24 \<and>
        (\<forall>m \<in> set (fst (network env train w images x)). length m = 3 \<and> (\<forall>row \<in> set m. length row = 3))) \<and>
     (\<forall>m. length (rotation_matrix_to_angle_axis env m) = 3)"

text \<open>
  The shape of the bodies that makes the error of an item the mean distance of
  corresponding points: the evaluation body model gives the prediction and the ground
  truth the same number of joints (among the first 24) and of vertices, at least one of
  each, and corresponding points have the same number of coordinates.
\<close>

definition same_shape :: "t2 \<Rightarrow> t2 \<Rightarrow> bool" where
  "same_shape ps gs \<longleftrightarrow> ps \<noteq> [] \<and> list_all2 (\<lambda>p g. length p = length g) ps gs"

definition bodies_shaped :: "('img, 'w, 'g, 'o) env \<Rightarrow> bool" where
  "bodies_shaped env \<longleftrightarrow>
     (\<forall>b r orient b' p g.
        same_shape (take 24 (fst (smpl_eval_rotmat env b r orient))) (take 24 (fst (smpl_eval env b' p g))) \<and>
        same_shape (snd (smpl_eval_rotmat env b r orient)) (snd (smpl_eval env b' p g)))"

text \<open>
  A path with the components \<open>cs\<close>: the components, none of which holds a slash, with
  a slash between each two.
\<close>

fun join_path :: "string list \<Rightarrow> string" where
  "join_path [] = []"
| "join_path [c] = c"
| "join_path (c # d # cs) = c @ CHR ''/'' # join_path (d # cs)"

section \<open>A small instance\<close>

text \<open>
  Concrete collaborators, options and dataset items on which the operations run to the
  end: a network that predicts 24 identity rotations, zero shape and a zero camera, a
  body model with 29 joints and one vertex at the origin, a translation estimate that
  always raises, and an optimizer that adds the gradient to the weights.
\<close>

definition demo_env :: "(unit, nat, nat, nat) env" where
  "demo_env =
     \<lparr>network = (\<lambda>train w images x. (replicate 24 eye3, [0], [0, 0, 0])),
      smpl = (\<lambda>b p g. (replicate 29 [0, 0, 0], [[0, 0, 0]])),
      smpl_rotmat = (\<lambda>b body orient. (replicate 29 [0, 0, 0], [[0, 0, 0]])),
      smpl_eval = (\<lambda>b p g. (replicate 29 [0, 0, 0], [[0, 0, 0]])),
      smpl_eval_rotmat = (\<lambda>b body orient. (replicate 29 [0, 0, 0], [[0, 0, 0]])),
      rodrigues = (\<lambda>v. eye3),
      rotation_matrix_to_angle_axis = (\<lambda>m. [0, 0, 0]),
      reconstruction_error = (\<lambda>p g. 0),
      perspective_projection = (\<lambda>points rotation translation f center. map (map (take 2)) points),
      estimate_translation = (\<lambda>joints kps f res. Inl ExternalError),
      focal_length = 5000,
      autograd = (\<lambda>w batch. 1),
      grad_add = (+),
      adam = (\<lambda>opt w g. (opt + 1, w + g))\<rparr>"

definition demo_opts :: options where
  "demo_opts =
     \<lparr>img_res = 224, use_wpp = True, openpose_train_weight = 1, gt_train_weight = 1,
      shape_loss_weight = 1, keypoint_loss_weight = 1, pose_loss_weight = 1,
      beta_loss_weight = 1, batch_size = 2\<rparr>"

definition demo_example :: "unit example" where
  "demo_example =
     \<lparr>img = (), keypoints = [[0, 0, 1]], pose = replicate 72 0, betas = [0],
      pose_3d = [[0, 0, 0, 1], [0, 0, 0, 1], [0, 0, 0, 1], [0, 0, 0, 1]],
      has_smpl = 0, has_pose_3d = 1, imgname = ''data/rec1/cam/img/frame_001.jpg''\<rparr>"

definition demo_trainer :: "(nat, nat, nat) trainer" where
  "demo_trainer = \<lparr>weights = 0, training = False, grads = None, opt_state = 0, events = []\<rparr>"

text \<open>
  What \<^verbatim>\<open>train_step\<close> returns on a batch of one such item whose 3D keypoint loss is
  \<open>v\<close>, and the trainer it leaves.
\<close>

definition demo_output :: step_output where
  "demo_output =
     \<lparr>pred_vertices = [[[0, 0, 0]]], opt_vertices = [[[0, 0, 0]]],
      pred_cam_t = [[0, 0, 0]], opt_cam_t = [[0, 0, 0]]\<rparr>"

definition demo_losses :: "real \<Rightarrow> losses" where
  "demo_losses v =
     \<lparr>loss = (v + 1) * 60, loss_keypoints = 0, loss_keypoints_3d = v,
      loss_regr_pose = 0, loss_regr_betas = 0, loss_shape = 0\<rparr>"

definition demo_losses_test :: losses_test where
  "demo_losses_test =
     \<lparr>loss_test = 60, loss_keypoints_test = 0, loss_regr_pose_test = 0,
      loss_regr_betas_test = 0, loss_shape_test = 0\<rparr>"

definition demo_trainer' :: "real \<Rightarrow> (nat, nat, nat) trainer" where
  "demo_trainer' v =
     \<lparr>weights = 1, training = True, grads = Some 1, opt_state = 1,
      events = [ZeroGrad, Backward ((v + 1) * 60), OptimizerStep]\<rparr>"

text \<open>
  The entry of the submission for the item, and the files \<^verbatim>\<open>eval\<close> leaves when it
  starts without files on the test set of this one item, with the log at \<open>eval.txt\<close>
  and the submission at \<open>submission.json\<close>.
\<close>

definition demo_entry :: json where
  "demo_entry =
     JObject [(''gender'', JString ''neutral''),
              (''body_pose'', JArray [JArray (map JNumber (replicate 69 0))]),
              (''global_orient'', JArray [JArray [JNumber 0, JNumber 0, JNumber 0]]),
              (''betas'', JArray [JArray [JNumber 0]])]"

definition demo_log :: "piece list" where
  "demo_log =
     [Text (''submission.json'' @ newline),
      Text ''MPJPE: '', FloatStr (Finite 0), Text newline,
      Text ''PA-MPJPE: '', FloatStr (Finite 0), Text newline,
      Text ''V2V: '', FloatStr (Finite 0), Text newline,
      Text ''PA-V2V: '', FloatStr (Finite 0), Text newline,
      Text newline]"

definition demo_submission :: "piece list" where
  "demo_submission = [JsonDumps (JObject [(''rec1'', JObject [(''frame_001.jpg'', demo_entry)])])]"

definition demo_files :: files where
  "demo_files = [''eval.txt'' \<mapsto> demo_log, ''submission.json'' \<mapsto> demo_submission]"

section \<open>A test set of three items\<close>

text \<open>
  Collaborators under which the items of a test set get different predictions and
  different errors. The image of an item is a number \<open>x\<close>. The network predicts the
  matrix \<open>diag3 x\<close> for the global orientation and \<open>diag3 (- x)\<close> for the 23 body
  joints, and the shape \<open>(x, 2)\<close>; the angle-axis conversion reads three entries of the
  padded matrix, which gives \<open>(x, 1, 1)\<close> and \<open>(- x, 1, 1)\<close>. The evaluation body
  model has two joints and one vertex: at the origin for the ground truth, and at
  distance \<open>x\<close> (joints) and \<open>2 x\<close> (vertex) from it for the prediction. The
  procrustes-aligned error is a quarter of the number of points. The three items have
  the images 1, 2 and 3; the first and the third are frames of the same recording. With
  a batch size of 2 the loader yields two batches. The log exists before the
  evaluation.
\<close>

definition diag3 :: "real \<Rightarrow> t2" where
  "diag3 x = [[1, 0, 0], [0, 1, 0], [0, 0, x]]"

definition sample_env :: "(int, nat, nat, nat) env" where
  "sample_env =
     \<lparr>network = (\<lambda>train w images x. (diag3 (of_int x) # replicate 23 (diag3 (- of_int x)), [of_int x, 2], [1, 0, 0])),
      smpl = (\<lambda>b p g. (replicate 29 [0, 0, 0], [[0, 0, 0]])),
      smpl_rotmat = (\<lambda>b body orient. (replicate 29 [0, 0, 0], [[0, 0, 0]])),
      smpl_eval = (\<lambda>b p g. ([[0, 0, 0], [0, 0, 0]], [[0, 0, 0]])),
      smpl_eval_rotmat = (\<lambda>b body orient. ([[hd b, 0, 0], [hd b, 0, 0]], [[0, 2 * hd b, 0]])),
      rodrigues = (\<lambda>v. eye3),
      rotation_matrix_to_angle_axis = (\<lambda>m. [m ! 2 ! 2, m ! 2 ! 3, m ! 0 ! 0]),
      reconstruction_error = (\<lambda>p g. real (length p) / 4),
      perspective_projection = (\<lambda>points rotation translation f center. map (map (take 2)) points),
      estimate_translation = (\<lambda>joints kps f res. Inl ExternalError),
      focal_length = 5000,
      autograd = (\<lambda>w batch. 1),
      grad_add = (+),
      adam = (\<lambda>opt w g. (opt + 1, w + g))\<rparr>"

definition sample_item :: "int \<Rightarrow> string \<Rightarrow> int example" where
  "sample_item x path =
     \<lparr>img = x, keypoints = [[0, 0, 1]], pose = replicate 72 0, betas = [0],
      pose_3d = [[0, 0, 0, 1], [0, 0, 0, 1], [0, 0, 0, 1], [0, 0, 0, 1]],
      has_smpl = 0, has_pose_3d = 1, imgname = path\<rparr>"

definition sample_ds :: "int example list" where
  "sample_ds =
     [sample_item 1 ''data/rec1/cam/img/f1.jpg'',
      sample_item 2 ''data/rec2/cam/img/f1.jpg'',
      sample_item 3 ''data/rec1/cam/img/f2.jpg'']"

definition sample_components :: "int example \<Rightarrow> string list" where
  "sample_components e =
     (if img e = 1 then [''data'', ''rec1'', ''cam'', ''img'', ''f1.jpg'']
      else if img e = 2 then [''data'', ''rec2'', ''cam'', ''img'', ''f1.jpg'']
      else [''data'', ''rec1'', ''cam'', ''img'', ''f2.jpg''])"

definition sample_files0 :: files where
  "sample_files0 = [''eval.txt'' \<mapsto> [Text ''earlier run'']]"

text \<open>
  The entry of the submission for the item with image \<open>x\<close>, the dictionary of the
  three items, and the lines that the evaluation appends to the log.
\<close>

definition sample_entry :: "real \<Rightarrow> json" where
  "sample_entry x =
     JObject [(''gender'', JString ''neutral''),
              (''body_pose'', JArray [JArray (map JNumber (concat (replicate 23 [- x, 1, 1])))]),
              (''global_orient'', JArray [JArray [JNumber x, JNumber 1, JNumber 1]]),
              (''betas'', JArray [JArray [JNumber x, JNumber 2]])]"

definition sample_dict :: pred_dict where
  "sample_dict =
     [(''rec1'', [(''f1.jpg'', sample_entry 1), (''f2.jpg'', sample_entry 3)]),
      (''rec2'', [(''f1.jpg'', sample_entry 2)])]"

definition sample_log :: "piece list" where
  "sample_log =
     [Text (''submission.json'' @ [CHR 0x0A]),
      Text ''MPJPE: '', FloatStr (Finite 2000), Text [CHR 0x0A],
      Text ''PA-MPJPE: '', FloatStr (Finite 500), Text [CHR 0x0A],
      Text ''V2V: '', FloatStr (Finite 4000), Text [CHR 0x0A],
      Text ''PA-V2V: '', FloatStr (Finite 250), Text [CHR 0x0A],
      Text [CHR 0x0A]]"

section \<open>Properties\<close>

subsection \<open>Auxiliary facts\<close>

lemma bindE_simps [simp]: "bindE (Inr x) f = f x" "bindE (Inl e) f = Inl e"
  by (simp_all add: bindE_def)

lemma of_opt_simps [simp]: "of_opt e (Some x) = Inr x" "of_opt e None = Inl e"
  by (simp_all add: of_opt_def)

lemma sequence_map: "(\<And>x. x \<in> set xs \<Longrightarrow> f x = Some (g x)) \<Longrightarrow> sequence (map f xs) = Some (map g xs)"
  by (induction xs) auto

lemma mapE_map: "(\<And>x. x \<in> set xs \<Longrightarrow> f x = Inr (g x)) \<Longrightarrow> mapE f xs = Inr (map g xs)"
  by (induction xs) auto

lemma sequence_nth:
  "(\<And>i. i < length xs \<Longrightarrow> xs ! i = Some (g i)) \<Longrightarrow> sequence xs = Some (map g [0..<length xs])"
proof (induction xs arbitrary: g)
  case Nil
  then show ?case by simp
next
  case (Cons x xs)
  have "x = Some (g 0)" using Cons.prems [of 0] by simp
  moreover have "sequence xs = Some (map (g \<circ> Suc) [0..<length xs])"
    by (rule Cons.IH) (use Cons.prems [of "Suc i" for i] in simp)
  ultimately show ?case by (simp add: map_upt_Suc del: upt_Suc)
qed

lemma sequence_map2_nth:
  assumes "length xs = n" "length ys = n"
    and "\<And>i. i < n \<Longrightarrow> f (xs ! i) (ys ! i) = Some (g i)"
  shows "sequence (map2 f xs ys) = Some (map g [0..<n])"
  using sequence_nth [of "map2 f xs ys" g] assms by simp

lemma bcast_left1: "bcast f [a] ys = sequence (map (f a) ys)"
  by (cases ys; cases "tl ys") (auto simp: bcast_def)

lemma bcast_right1: "bcast f xs [b] = sequence (map (\<lambda>x. f x b) xs)"
  by (cases xs; cases "tl xs") (auto simp: bcast_def)

lemma bcast_same: "length xs = length ys \<Longrightarrow> bcast f xs ys = sequence (map2 f xs ys)"
  by (simp add: bcast_def)

lemma length_concat_uniform:
  "(\<And>r. r \<in> set rows \<Longrightarrow> length r = n) \<Longrightarrow> length (concat rows) = length rows * n"
  by (induction rows) auto

lemma take_drop_concat:
  "(\<And>r. r \<in> set rows \<Longrightarrow> length r = n) \<Longrightarrow> i < length rows \<Longrightarrow>
   take n (drop (i * n) (concat rows)) = rows ! i"
proof (induction rows arbitrary: i)
  case Nil
  then show ?case by simp
next
  case (Cons r rows)
  show ?case
  proof (cases i)
    case 0
    with Cons.prems show ?thesis by simp
  next
    case (Suc k)
    with Cons.prems have "k < length rows" by simp
    with Cons have "take n (drop (k * n) (concat rows)) = rows ! k" by simp
    with Suc Cons.prems show ?thesis by (simp add: add.commute)
  qed
qed

lemma chunks_concat:
  assumes "0 < n" and "\<And>r. r \<in> set rows \<Longrightarrow> length r = n"
  shows "chunks n (concat rows) = rows"
proof (rule nth_equalityI)
  show "length (chunks n (concat rows)) = length rows"
    using assms by (simp add: chunks_def length_concat_uniform)
next
  fix i assume "i < length (chunks n (concat rows))"
  with assms have "i < length rows" by (simp add: chunks_def length_concat_uniform)
  with assms show "chunks n (concat rows) ! i = rows ! i"
    by (simp add: chunks_def length_concat_uniform take_drop_concat)
qed

lemma view_rows_concat:
  "0 < n \<Longrightarrow> (\<And>r. r \<in> set rows \<Longrightarrow> length r = n) \<Longrightarrow> view_rows n (concat rows) = Inr rows"
  by (simp add: view_rows_def chunks_concat length_concat_uniform)

subsection \<open>The weak-perspective projection\<close>

lemma ew1_scale: "ew1 (*) [s] (take 2 p) = Some (map ((*) s) (take 2 p))"
  by (simp add: ew1_def bcast_left1 sequence_map)

lemma ew2_scale:
  "ew2 (*) [[s]] (map (take 2) item) = Some (map (\<lambda>p. map ((*) s) (take 2 p)) item)"
  by (simp add: ew2_def bcast_left1 ew1_scale sequence_map comp_def)

lemma take2_of3: "length p = 3 \<Longrightarrow> take 2 p = [p ! 0, p ! 1]"
  by (cases p; cases "tl p"; cases "tl (tl p)") auto

lemma ew1_shift: "length tr = 2 \<Longrightarrow> ew1 (+) [a, b] tr = Some [a + tr ! 0, b + tr ! 1]"
  by (cases tr; cases "tl tr") (auto simp: ew1_def bcast_def)

lemma ew2_shift:
  assumes "length tr = 2" "\<And>p. p \<in> set item \<Longrightarrow> length p = 3"
  shows "ew2 (+) (map (\<lambda>p. map ((*) s) (take 2 p)) item) [tr]
         = Some (map (\<lambda>p. [s * p ! 0 + tr ! 0, s * p ! 1 + tr ! 1]) item)"
  using assms by (simp add: ew2_def bcast_right1 comp_def take2_of3 ew1_shift sequence_map)

lemma weakProjection_gpu_closed:
  assumes "skel3D \<noteq> []"
    and "length scale = length skel3D"
    and "length trans2D = length skel3D"
    and "\<forall>item \<in> set skel3D. \<forall>p \<in> set item. length p = 3"
    and "\<forall>row \<in> set trans2D. length row = 2"
  shows "weakProjection_gpu skel3D scale trans2D =
         Inr (map (\<lambda>b. map (\<lambda>p. [scale ! b * p ! 0 + trans2D ! b ! 0,
                                  scale ! b * p ! 1 + trans2D ! b ! 1]) (skel3D ! b))
                [0..<length skel3D])"
proof -
  let ?B = "length skel3D"
  let ?scaled = "map (\<lambda>b. map (\<lambda>p. map ((*) (scale ! b)) (take 2 p)) (skel3D ! b)) [0..<?B]"
  let ?proj = "map (\<lambda>b. map (\<lambda>p. [scale ! b * p ! 0 + trans2D ! b ! 0,
                                   scale ! b * p ! 1 + trans2D ! b ! 1]) (skel3D ! b)) [0..<?B]"
  have v1: "view_B_m1_3 skel3D = Inr skel3D"
    using assms(1,4) by (simp add: view_B_m1_3_def view_rows_concat mapE_map [where g = "\<lambda>x. x"])
  have v2: "view_B_1_2 trans2D = Inr (map (\<lambda>row. [row]) trans2D)"
    using assms(5) by (simp add: view_B_1_2_def)
  have "sequence (map2 (ew2 (*)) (map (\<lambda>s. [[s]]) scale) (map (map (take 2)) skel3D)) = Some ?scaled"
    using assms(2) by (intro sequence_map2_nth) (simp_all add: ew2_scale)
  then have m: "ew3 (*) (view_B_1_1 scale) (map (map (take 2)) skel3D) = Some ?scaled"
    using assms(2) by (simp add: ew3_def view_B_1_1_def bcast_same)
  have "sequence (map2 (ew2 (+)) ?scaled (map (\<lambda>row. [row]) trans2D)) = Some ?proj"
  proof (rule sequence_map2_nth)
    fix i assume i: "i < ?B"
    then have "length (trans2D ! i) = 2" and "\<And>p. p \<in> set (skel3D ! i) \<Longrightarrow> length p = 3"
      using assms(3,4,5) nth_mem [of i skel3D] by auto
    then show "ew2 (+) (?scaled ! i) (map (\<lambda>row. [row]) trans2D ! i)
               = Some (map (\<lambda>p. [scale ! i * p ! 0 + trans2D ! i ! 0,
                                  scale ! i * p ! 1 + trans2D ! i ! 1]) (skel3D ! i))"
      using i assms(3) by (simp add: ew2_shift)
  qed (simp_all add: assms(3))
  then have a: "ew3 (+) ?scaled (map (\<lambda>row. [row]) trans2D) = Some ?proj"
    using assms(3) by (simp add: ew3_def bcast_same)
  show ?thesis
    by (simp add: weakProjection_gpu_def v1 v2 m a)
qed

text \<open>
  C10. On a non-empty batch of \<open>B\<close> items, each a list of joints with 3 coordinates,
  with one scale and one 2D translation per item, \<open>weakProjection_gpu\<close> returns, for
  item \<open>b\<close> and joint \<open>j\<close>, the first two coordinates of the joint times \<open>scale[b]\<close>
  plus \<open>trans2D[b]\<close>: a tensor of shape (batch, joints, 2). The function is a function
  of its three arguments and changes none of them.
\<close>

theorem weakProjection_gpu_value:
  assumes "skel3D \<noteq> []"
    and "length scale = length skel3D"
    and "length trans2D = length skel3D"
    and "\<forall>item \<in> set skel3D. \<forall>p \<in> set item. length p = 3"
    and "\<forall>row \<in> set trans2D. length row = 2"
  shows "weakProjection_gpu skel3D scale trans2D =
         Inr (map (\<lambda>b. map (\<lambda>p. [scale ! b * p ! 0 + trans2D ! b ! 0,
                                  scale ! b * p ! 1 + trans2D ! b ! 1]) (skel3D ! b))
                [0..<length skel3D])"
  using assms by (rule weakProjection_gpu_closed)

theorem weakProjection_gpu_value_witness:
  "weakProjection_gpu [[[1, 2, 3], [4, 5, 6]]] [2] [[10, 20]] = Inr [[[12, 24], [18, 30]]]"
  using weakProjection_gpu_value [of "[[[1, 2, 3], [4, 5, 6]]]" "[2]" "[[10, 20]]"]
  by simp

subsection \<open>Batches without a valid example\<close>

lemma filter_zip_none:
  "length xs = length flags \<Longrightarrow> \<forall>h \<in> set flags. h = 0 \<Longrightarrow> filter snd (zip xs (eq1 flags)) = []"
  by (induction xs flags rule: list_induct2) (simp_all add: eq1_def)

lemma mask_select_none:
  "\<forall>h \<in> set flags. h = 0 \<Longrightarrow> length xs = length flags \<Longrightarrow> mask_select xs (eq1 flags) = Inr []"
  by (simp add: mask_select_def filter_zip_none) (simp add: eq1_def)

lemma length_chunks [simp]: "length (chunks n xs) = length xs div n"
  by (simp add: chunks_def)

lemma last_col_ok:
  "\<forall>item \<in> set t. \<forall>kp \<in> set item. kp \<noteq> [] \<Longrightarrow> last_col t = Inr (map (map (\<lambda>kp. [last kp])) t)"
  by (auto simp: last_col_def)

lemma keypoint_3d_loss_none:
  assumes "\<forall>h \<in> set flags. h = 0"
    and "length pred = length flags"
    and "length gt = length flags"
    and "\<forall>item \<in> set gt. \<forall>kp \<in> set item. kp \<noteq> []"
  shows "keypoint_3d_loss pred gt flags = Inr 0"
  using assms
  by (simp add: keypoint_3d_loss_def Let_def last_col_ok mask_select_none but_last_col_def)

lemma shape_loss_none:
  assumes "\<forall>h \<in> set flags. h = 0"
    and "length pv = length flags"
    and "length gv = length flags"
  shows "shape_loss pv gv flags = Inr 0"
  using assms by (simp add: shape_loss_def mask_select_none)

lemma length_flat3_map:
  "\<forall>v. length (concat (rod v)) = n \<Longrightarrow> length (flat3 (map rod rows)) = length rows * n"
  by (induction rows) (simp_all add: flat3_def)

lemma gt_rotmat_shape:
  assumes "\<forall>p \<in> set gt_pose. length p = 72"
    and "\<forall>v. length (concat (rod v)) = 9"
  shows "\<exists>rows gt_rotmat. view_rows 3 (flat2 gt_pose) = Inr rows \<and>
           view_m1_24_3_3 (map rod rows) = Inr gt_rotmat \<and>
           length gt_rotmat = length gt_pose"
proof -
  let ?rows = "chunks 3 (flat2 gt_pose)"
  have l: "length (flat2 gt_pose) = length gt_pose * 72"
    using assms(1) by (simp add: flat2_def length_concat_uniform)
  then have r: "view_rows 3 (flat2 gt_pose) = Inr ?rows"
    by (simp add: view_rows_def)
  have n: "length ?rows = length gt_pose * 24"
    using l by simp
  have f: "length (flat3 (map rod ?rows)) = length gt_pose * 216"
    using assms(2) n by (simp add: length_flat3_map)
  then have "view_m1_24_3_3 (map rod ?rows)
             = Inr (chunks 24 (chunks 3 (chunks 3 (flat3 (map rod ?rows)))))"
    by (simp add: view_m1_24_3_3_def)
  moreover have "length (chunks 24 (chunks 3 (chunks 3 (flat3 (map rod ?rows))))) = length gt_pose"
    using f by (simp add: div_mult2_eq [symmetric])
  ultimately show ?thesis using r by blast
qed

lemma smpl_losses_none:
  assumes "\<forall>h \<in> set flags. h = 0"
    and "length pred_rotmat = length flags"
    and "length pred_betas = length flags"
    and "length gt_pose = length flags"
    and "length gt_betas = length flags"
    and "\<forall>p \<in> set gt_pose. length p = 72"
    and "\<forall>v. length (concat (rod v)) = 9"
  shows "smpl_losses rod pred_rotmat pred_betas gt_pose gt_betas flags = Inr (0, 0)"
proof -
  obtain rows gt_rotmat where "view_rows 3 (flat2 gt_pose) = Inr rows"
    and "view_m1_24_3_3 (map rod rows) = Inr gt_rotmat" and "length gt_rotmat = length gt_pose"
    using gt_rotmat_shape [OF assms(6,7)] by blast
  then show ?thesis
    using assms(1-5) by (simp add: smpl_losses_def mask_select_none)
qed

text \<open>
  C1. When no flag of the batch is set (every entry of \<open>has_pose_3d\<close>, respectively
  of \<open>has_smpl\<close>, is 0), \<open>keypoint_3d_loss\<close>, \<open>shape_loss\<close> and \<open>smpl_losses\<close>
  return the zero loss and raise nothing. The batch is well-shaped: every tensor has one
  entry per flag, the ground-truth 3D keypoints have a confidence column, every pose has
  72 entries and \<open>rodrigues\<close> yields matrices of 9 numbers.
\<close>

theorem no_valid_example_zero_loss:
  assumes "\<forall>h \<in> set flags3d. h = 0"
    and "length pred3d = length flags3d"
    and "length gt3d = length flags3d"
    and "\<forall>item \<in> set gt3d. \<forall>kp \<in> set item. kp \<noteq> []"
    and "\<forall>h \<in> set flags. h = 0"
    and "length pv = length flags"
    and "length gv = length flags"
    and "length pred_rotmat = length flags"
    and "length pred_betas' = length flags"
    and "length gt_pose = length flags"
    and "length gt_betas = length flags"
    and "\<forall>p \<in> set gt_pose. length p = 72"
    and "\<forall>v. length (concat (rod v)) = 9"
  shows "keypoint_3d_loss pred3d gt3d flags3d = Inr 0 \<and>
         shape_loss pv gv flags = Inr 0 \<and>
         smpl_losses rod pred_rotmat pred_betas' gt_pose gt_betas flags = Inr (0, 0)"
  using assms by (simp add: keypoint_3d_loss_none shape_loss_none smpl_losses_none)

theorem no_valid_example_zero_loss_witness:
  "keypoint_3d_loss [[[1, 2, 3]]] [[[4, 5, 6, 1]]] [0] = Inr 0 \<and>
   shape_loss [[[1, 2, 3]]] [[[4, 5, 6]]] [0] = Inr 0 \<and>
   smpl_losses (\<lambda>v. eye3) [[eye3]] [[1, 2]] [replicate 72 0] [[3, 4]] [0] = Inr (0, 0)"
  using no_valid_example_zero_loss [of "[0]" "[[[1, 2, 3]]]" "[[[4, 5, 6, 1]]]" "[0]"
      "[[[1, 2, 3]]]" "[[[4, 5, 6]]]" "[[eye3]]" "[[1, 2]]" "[replicate 72 0]" "[[3, 4]]" "\<lambda>v. eye3"]
  by (simp add: eye3_def)

subsection \<open>The frame of the 2D keypoint loss\<close>

text \<open>
  C8. \<open>keypoint_loss\<close> leaves its ground-truth argument as it was: every tensor that the
  store holds before the call, the ground-truth keypoints among them, holds the same
  values after it, whatever the arguments and whether or not the call raises. The
  weights are multiplied into the clone of the confidence column, which lives at a new
  address.
\<close>

theorem keypoint_loss_frame:
  "take (length st) (snd (keypoint_loss st pred gt ow gw)) = st"
proof (cases "last_col (st ! gt)")
  case (Inl e)
  then show ?thesis by (simp add: keypoint_loss_def clone_def)
next
  case (Inr d)
  then show ?thesis by (simp add: keypoint_loss_def clone_def Let_def)
qed

subsection \<open>Translations and the 3D keypoint loss\<close>

lemma len3E: "length p = 3 \<Longrightarrow> \<exists>a b c. p = [a, b, c]"
  by (cases p; cases "tl p"; cases "tl (tl p)") auto

lemma ew1_same: "length p = length q \<Longrightarrow> ew1 f p q = Some (map2 f p q)"
  by (simp add: ew1_def bcast_same sequence_map [where g = "\<lambda>(x, y). f x y"] split_def)

lemma select1_ok: "\<forall>item \<in> set x. j < length item \<Longrightarrow> select1 x j = Inr (map (\<lambda>item. item ! j) x)"
  by (auto simp: select1_def)

lemma select1_err: "\<exists>item \<in> set x. length item \<le> j \<Longrightarrow> select1 x j = Inl IndexError"
  by (auto simp: select1_def)

lemma center_on_pelvis_closed:
  assumes "\<forall>item \<in> set x. \<forall>q \<in> set item. length q = 3"
  shows "center_on_pelvis x =
         (if \<exists>item \<in> set x. length item \<le> 3 then Inl IndexError else Inr (map centered x))"
proof (cases "\<exists>item \<in> set x. length item \<le> 3")
  case True
  show ?thesis
  proof (cases "\<exists>item \<in> set x. length item \<le> 2")
    case True
    then show ?thesis using \<open>\<exists>item \<in> set x. length item \<le> 3\<close>
      by (simp add: center_on_pelvis_def select1_err)
  next
    case False
    then have "select1 x 2 = Inr (map (\<lambda>item. item ! 2) x)"
      by (intro select1_ok) (auto simp: not_le)
    then show ?thesis using True by (simp add: center_on_pelvis_def select1_err)
  qed
next
  case False
  then have len: "\<And>item. item \<in> set x \<Longrightarrow> 3 < length item" by (auto simp: not_le)
  have s2: "select1 x 2 = Inr (map (\<lambda>item. item ! 2) x)"
    and s3: "select1 x 3 = Inr (map (\<lambda>item. item ! 3) x)"
    using len by (auto intro!: select1_ok dest: len)
  have pt: "\<And>item j. item \<in> set x \<Longrightarrow> j < length item \<Longrightarrow> length (item ! j) = 3"
    using assms by auto
  have sum: "ew2 (+) (map (\<lambda>item. item ! 2) x) (map (\<lambda>item. item ! 3) x)
             = Some (map (\<lambda>item. map2 (+) (item ! 2) (item ! 3)) x)"
  proof -
    have "sequence (map2 (ew1 (+)) (map (\<lambda>item. item ! 2) x) (map (\<lambda>item. item ! 3) x))
          = sequence (map (\<lambda>item. ew1 (+) (item ! 2) (item ! 3)) x)"
      by (simp add: zip_map_map zip_same_conv_map comp_def)
    also have "\<dots> = Some (map (\<lambda>item. map2 (+) (item ! 2) (item ! 3)) x)"
    proof (rule sequence_map)
      fix item assume i: "item \<in> set x"
      show "ew1 (+) (item ! 2) (item ! 3) = Some (map2 (+) (item ! 2) (item ! 3))"
        using pt [OF i, of 2] pt [OF i, of 3] len [OF i] by (intro ew1_same) simp
    qed
    finally show ?thesis by (simp add: ew2_def bcast_same)
  qed
  have sub: "ew3 (-) x (map (\<lambda>p. [map (\<lambda>v. v / 2) p]) (map (\<lambda>item. map2 (+) (item ! 2) (item ! 3)) x))
             = Some (map centered x)"
  proof -
    have "sequence (map2 (ew2 (-)) x (map (\<lambda>p. [map (\<lambda>v. v / 2) p]) (map (\<lambda>item. map2 (+) (item ! 2) (item ! 3)) x)))
          = sequence (map (\<lambda>item. ew2 (-) item [map (\<lambda>v. v / 2) (map2 (+) (item ! 2) (item ! 3))]) x)"
      by (simp add: zip_map2 zip_same_conv_map comp_def)
    also have "\<dots> = Some (map centered x)"
    proof (rule sequence_map)
      fix item assume i: "item \<in> set x"
      have l: "length (map (\<lambda>v. v / 2) (map2 (+) (item ! 2) (item ! 3))) = 3"
        using pt [OF i, of 2] pt [OF i, of 3] len [OF i] by simp
      have "\<And>q. q \<in> set item \<Longrightarrow> ew1 (-) q (map (\<lambda>v. v / 2) (map2 (+) (item ! 2) (item ! 3)))
              = Some (map2 (-) q (map (\<lambda>v. v / 2) (map2 (+) (item ! 2) (item ! 3))))"
        using assms i l by (intro ew1_same) auto
      then show "ew2 (-) item [map (\<lambda>v. v / 2) (map2 (+) (item ! 2) (item ! 3))] = Some (centered item)"
        by (simp add: ew2_def bcast_right1 centered_def sequence_map)
    qed
    finally show ?thesis by (simp add: ew3_def bcast_same)
  qed
  show ?thesis using False by (simp add: center_on_pelvis_def s2 s3 sum sub del: map_map)
qed


lemma shift3:
  fixes q a b t :: "real list"
  assumes "length q = 3" "length a = 3" "length b = 3" "length t = 3"
  shows "map2 (-) (map2 (+) q t) (map (\<lambda>v. v / 2) (map2 (+) (map2 (+) a t) (map2 (+) b t)))
         = map2 (-) q (map (\<lambda>v. v / 2) (map2 (+) a b))"
proof -
  obtain q1 q2 q3 a1 a2 a3 b1 b2 b3 t1 t2 t3
    where "q = [q1, q2, q3]" "a = [a1, a2, a3]" "b = [b1, b2, b3]" "t = [t1, t2, t3]"
    using assms len3E by metis
  then show ?thesis by (simp add: field_simps)
qed

lemma centered_shift:
  assumes "\<forall>q \<in> set item. length q = 3" "3 < length item" "length t = 3"
  shows "centered (map (\<lambda>q. map2 (+) q t) item) = centered item"
proof -
  have l: "length (item ! 2) = 3" "length (item ! 3) = 3"
    using assms(1,2) by simp_all
  have "centered (map (\<lambda>q. map2 (+) q t) item)
        = map (\<lambda>q. map2 (-) (map2 (+) q t)
                 (map (\<lambda>v. v / 2) (map2 (+) (map2 (+) (item ! 2) t) (map2 (+) (item ! 3) t)))) item"
    using assms(2) by (simp add: centered_def comp_def)
  also have "\<dots> = map (\<lambda>q. map2 (-) q (map (\<lambda>v. v / 2) (map2 (+) (item ! 2) (item ! 3)))) item"
    by (rule map_cong [OF refl]) (use assms(1,3) l in \<open>simp add: shift3 del: map_map\<close>)
  finally show ?thesis by (simp add: centered_def)
qed

lemma center_on_pelvis_shift:
  assumes "\<forall>item \<in> set x. \<forall>q \<in> set item. length q = 3" "length t = 3"
  shows "center_on_pelvis (map (map (\<lambda>q. map2 (+) q t)) x) = center_on_pelvis x"
proof -
  have "\<forall>item \<in> set (map (map (\<lambda>q. map2 (+) q t)) x). \<forall>q \<in> set item. length q = 3"
    using assms by auto
  then have c: "center_on_pelvis (map (map (\<lambda>q. map2 (+) q t)) x)
        = (if \<exists>item \<in> set x. length item \<le> 3 then Inl IndexError
           else Inr (map (\<lambda>item. centered (map (\<lambda>q. map2 (+) q t) item)) x))"
    by (simp add: center_on_pelvis_closed comp_def)
  show ?thesis
  proof (cases "\<exists>item \<in> set x. length item \<le> 3")
    case True
    then show ?thesis using c assms(1) by (simp add: center_on_pelvis_closed)
  next
    case False
    then have "map (\<lambda>item. centered (map (\<lambda>q. map2 (+) q t) item)) x = map centered x"
      using assms by (intro map_cong [OF refl] centered_shift) (auto simp: not_le)
    then show ?thesis using False c assms(1) by (simp add: center_on_pelvis_closed)
  qed
qed

lemma mask_select_map:
  "mask_select (map f xs) m = (case mask_select xs m of Inl e \<Rightarrow> Inl e | Inr ys \<Rightarrow> Inr (map f ys))"
proof (cases "length m = length xs")
  case True
  from True [symmetric]
  have "map fst (filter snd (zip (map f xs) m)) = map f (map fst (filter snd (zip xs m)))"
    by (induction xs m rule: list_induct2) simp_all
  with True show ?thesis by (simp add: mask_select_def)
next
  case False
  then show ?thesis by (simp add: mask_select_def)
qed

lemma mask_select_subset:
  assumes "mask_select xs m = Inr ys"
  shows "set ys \<subseteq> set xs"
proof -
  have "ys = map fst (filter snd (zip xs m))"
    using assms by (simp add: mask_select_def split: if_splits)
  then have "set ys \<subseteq> fst ` set (zip xs m)" by auto
  also have "\<dots> \<subseteq> set xs" by (auto dest: set_zip_leftD)
  finally show ?thesis .
qed

lemma drop_take_append: "drop n (take n xs @ map f (drop n xs)) = map f (drop n xs)"
  by (cases "n \<le> length xs") (simp_all add: min_def)

lemma drop25_translate_pred:
  "map (drop 25) (translate_pred t pred) = map (map (\<lambda>p. map2 (+) p t)) (map (drop 25) pred)"
  by (simp add: translate_pred_def comp_def drop_take_append del: drop_append)

lemma last_col_translate_gt:
  assumes "\<forall>item \<in> set gt. \<forall>kp \<in> set item. length kp = 4"
  shows "last_col (translate_gt t gt) = last_col gt"
proof -
  have "\<not> (\<exists>item \<in> set gt. \<exists>kp \<in> set item. kp = [])"
    using assms by fastforce
  moreover have "\<not> (\<exists>item \<in> set (translate_gt t gt). \<exists>kp \<in> set item. kp = [])"
    by (auto simp: translate_gt_def)
  moreover have "map (map (\<lambda>kp. [last kp])) (translate_gt t gt) = map (map (\<lambda>kp. [last kp])) gt"
    by (simp add: translate_gt_def comp_def)
  ultimately show ?thesis by (simp add: last_col_def)
qed

lemma but_last_col_translate_gt:
  "but_last_col (translate_gt t gt) = map (map (\<lambda>q. map2 (+) q t)) (but_last_col gt)"
  by (simp add: but_last_col_def translate_gt_def)

lemma keypoint_3d_loss_shift:
  assumes "length tp = 3" and "length tg = 3"
    and "\<forall>item \<in> set pred. \<forall>p \<in> set (drop 25 item). length p = 3"
    and "\<forall>item \<in> set gt. \<forall>kp \<in> set item. length kp = 4"
  shows "keypoint_3d_loss (translate_pred tp pred) (translate_gt tg gt) flags
         = keypoint_3d_loss pred gt flags"
proof -
  let ?G = "but_last_col gt" and ?P = "map (drop 25) pred" and ?m = "eq1 flags"
  have G3: "\<forall>item \<in> set ?G. \<forall>q \<in> set item. length q = 3"
    using assms(4) by (auto simp: but_last_col_def)
  have P3: "\<forall>item \<in> set ?P. \<forall>q \<in> set item. length q = 3"
    using assms(3) by auto
  note rw = keypoint_3d_loss_def Let_def drop25_translate_pred but_last_col_translate_gt
    last_col_translate_gt [OF assms(4)]
    mask_select_map [of "map (\<lambda>q. map2 (+) q tg)" ?G] mask_select_map [of "map (\<lambda>q. map2 (+) q tp)" ?P]
  show ?thesis
  proof (cases "last_col gt")
    case (Inl e)
    then show ?thesis by (simp add: rw del: map_map)
  next
    case c0: (Inr conf0)
    show ?thesis
    proof (cases "mask_select ?G ?m")
      case (Inl e)
      then show ?thesis by (simp add: rw c0 del: map_map)
    next
      case g: (Inr g)
      show ?thesis
      proof (cases "mask_select conf0 ?m")
        case (Inl e)
        then show ?thesis by (simp add: rw c0 g del: map_map)
      next
        case c: (Inr conf)
        show ?thesis
        proof (cases "mask_select ?P ?m")
          case (Inl e)
          then show ?thesis by (simp add: rw c0 g c del: map_map)
        next
          case p: (Inr p)
          have "\<forall>item \<in> set g. \<forall>q \<in> set item. length q = 3"
            using G3 mask_select_subset [OF g] by blast
          then have cg: "center_on_pelvis (map (map (\<lambda>q. map2 (+) q tg)) g) = center_on_pelvis g"
            using assms(2) by (rule center_on_pelvis_shift)
          have "\<forall>item \<in> set p. \<forall>q \<in> set item. length q = 3"
            using P3 mask_select_subset [OF p] by blast
          then have cp: "center_on_pelvis (map (map (\<lambda>q. map2 (+) q tp)) p) = center_on_pelvis p"
            using assms(1) by (rule center_on_pelvis_shift)
          show ?thesis by (simp add: rw c0 g c p cg cp del: map_map)
        qed
      qed
    qed
  qed
qed

text \<open>Without rounding, the loss with rounding is the loss in exact arithmetic.\<close>

lemma foldl_add_sum_list: "foldl (\<lambda>a x. a + x) a xs = a + sum_list xs" for a :: real
  by (induction xs arbitrary: a) simp_all

lemma mean_rnd_exact: "mean_rnd (\<lambda>x. x) xs = mean_list xs"
  by (simp add: mean_rnd_def sum_rnd_def mean_list_def foldl_add_sum_list)

lemma center_on_pelvis_rnd_exact: "center_on_pelvis_rnd (\<lambda>x. x) = center_on_pelvis"
  by (rule ext) (simp add: center_on_pelvis_rnd_def center_on_pelvis_def)

lemma keypoint_3d_loss_rnd_exact: "keypoint_3d_loss_rnd (\<lambda>x. x) pred gt flags = keypoint_3d_loss pred gt flags"
  unfolding keypoint_3d_loss_rnd_def keypoint_3d_loss_def center_on_pelvis_rnd_exact
      mean_rnd_exact criterion_keypoints_def sq_diff_def [abs_def] ..

lemma keypoint_3d_loss_exact_value:
  "keypoint_3d_loss_rnd (\<lambda>x. x)
     [replicate 25 [0, 0, 0] @ [[1, 2, 3], [1, 2, 3], [0, 0, 0], [2, 2, 2]]]
     [[[1, 2, 3, 1], [1, 2, 4, 1], [0, 0, 0, 1], [2, 2, 2, 1]]] [1] = Inr (1 / 12)"
  by (simp add: keypoint_3d_loss_rnd_def last_col_def but_last_col_def
      mask_select_def eq1_def center_on_pelvis_rnd_def select1_def
      ew3_def ew2_def ew1_def bcast_def mean_rnd_def sum_rnd_def flat3_def)

text \<open>
  C9, in exact arithmetic. Computed without rounding, where it is
  \<open>keypoint_3d_loss\<close>, the 3D keypoint loss does not change when one 3-vector is added
  to every predicted keypoint from index 25 on and another to the coordinates of every
  ground-truth keypoint: both sets are centered on their pelvis, the midpoint of joints
  2 and 3, before they are compared. Keypoints are well-shaped (3 coordinates, and a
  confidence for the ground truth). The result is the same value or the same exception,
  with or without a valid example in the batch.
\<close>

theorem keypoint_3d_loss_translation:
  assumes "length tp = 3" and "length tg = 3"
    and "\<forall>item \<in> set pred. \<forall>p \<in> set (drop 25 item). length p = 3"
    and "\<forall>item \<in> set gt. \<forall>kp \<in> set item. length kp = 4"
  shows "keypoint_3d_loss_rnd (\<lambda>x. x) (translate_pred tp pred) (translate_gt tg gt) flags
         = keypoint_3d_loss_rnd (\<lambda>x. x) pred gt flags"
  unfolding keypoint_3d_loss_rnd_exact using assms by (rule keypoint_3d_loss_shift)

theorem keypoint_3d_loss_translation_witness:
  "keypoint_3d_loss_rnd (\<lambda>x. x)
     (translate_pred [10, 20, 30] [replicate 25 [0, 0, 0] @ [[1, 2, 3], [1, 2, 3], [0, 0, 0], [2, 2, 2]]])
     (translate_gt [5, 6, 7] [[[1, 2, 3, 1], [1, 2, 4, 1], [0, 0, 0, 1], [2, 2, 2, 1]]]) [1]
   = keypoint_3d_loss_rnd (\<lambda>x. x)
       [replicate 25 [0, 0, 0] @ [[1, 2, 3], [1, 2, 3], [0, 0, 0], [2, 2, 2]]]
       [[[1, 2, 3, 1], [1, 2, 4, 1], [0, 0, 0, 1], [2, 2, 2, 1]]] [1] \<and>
   keypoint_3d_loss_rnd (\<lambda>x. x)
     [replicate 25 [0, 0, 0] @ [[1, 2, 3], [1, 2, 3], [0, 0, 0], [2, 2, 2]]]
     [[[1, 2, 3, 1], [1, 2, 4, 1], [0, 0, 0, 1], [2, 2, 2, 1]]] [1] = Inr (1 / 12)"
  using keypoint_3d_loss_translation [of "[10, 20, 30]" "[5, 6, 7]"
      "[replicate 25 [0, 0, 0] @ [[1, 2, 3], [1, 2, 3], [0, 0, 0], [2, 2, 2]]]"
      "[[[1, 2, 3, 1], [1, 2, 4, 1], [0, 0, 0, 1], [2, 2, 2, 1]]]" "[1]"]
    keypoint_3d_loss_exact_value
  by simp

subsection \<open>The 3D keypoint loss in float32\<close>

lemma significand_numeral:
  "significand (numeral k) m e =
     (if 2 ^ 24 \<le> m then significand (pred_numeral k) (m / 2) (e + 1)
      else if m < 2 ^ 23 \<and> - 149 < e then significand (pred_numeral k) (m * 2) (e - 1)
      else (m, e))"
  by (simp add: numeral_eq_Suc)

text \<open>
  Small integers are float32 numbers. Above \<open>2\<^sup>2\<^sup>4\<close> only every second integer is
  one, above \<open>2\<^sup>2\<^sup>5\<close> every fourth: \<open>2\<^sup>2\<^sup>5 + 6 = 33554438\<close> lies halfway between
  two float32 numbers and rounds to the one with the even significand,
  \<open>2\<^sup>2\<^sup>5 + 8\<close>. A third is rounded to 24 binary digits.
\<close>

lemma float32_vals:
  "float32 0 = 0" "float32 1 = 1" "float32 (- 1) = - 1" "float32 2 = 2" "float32 (- 2) = - 2"
  "float32 3 = 3" "float32 (- 3) = - 3" "float32 4 = 4" "float32 (- 4) = - 4" "float32 6 = 6"
  "float32 9 = 9" "float32 16 = 16" "float32 10 = 10" "float32 11 = 11" "float32 12 = 12"
  "float32 20 = 20" "float32 24 = 24"
  "float32 16777216 = 16777216" "float32 16777218 = 16777218" "float32 16777220 = 16777220"
  "float32 33554438 = 33554440"
  "float32 (1 / 3) = 11184811 / 33554432"
  by (simp_all add: float32_def significand_numeral round_half_even_def power_int_minus)

text \<open>
  C9, as the claim has it, fails in float32. The predicted keypoints 25 to 28 of the one
  item, valid, have the first coordinates 0, 2, 2, 4, the ground truth is at the origin
  with confidence 1, and the loss is 1. Adding \<open>(2\<^sup>2\<^sup>4, 0, 0)\<close> to the predicted
  keypoints gives float32 numbers again, and the loss 2: the sum of joints 2 and 3,
  \<open>2\<^sup>2\<^sup>5 + 6\<close>, rounds to \<open>2\<^sup>2\<^sup>5 + 8\<close>, so the pelvis is \<open>2\<^sup>2\<^sup>4 + 4\<close> where it
  was 3 before, and the centered coordinates are \<open>-4, -2, -2, 0\<close> where they were
  \<open>-3, -1, -1, 1\<close>. All sums of \<^verbatim>\<open>mean()\<close> are small integers here, the same in
  every order of summation.
\<close>

theorem keypoint_3d_loss_float32_translation:
  "translate_pred [16777216, 0, 0]
     [replicate 25 [0, 0, 0] @ [[0, 0, 0], [2, 0, 0], [2, 0, 0], [4, 0, 0]]]
   = [replicate 25 [0, 0, 0] @ [[16777216, 0, 0], [16777218, 0, 0], [16777218, 0, 0], [16777220, 0, 0]]] \<and>
   keypoint_3d_loss_rnd float32
     [replicate 25 [0, 0, 0] @ [[0, 0, 0], [2, 0, 0], [2, 0, 0], [4, 0, 0]]]
     [[[0, 0, 0, 1], [0, 0, 0, 1], [0, 0, 0, 1], [0, 0, 0, 1]]] [1] = Inr 1 \<and>
   keypoint_3d_loss_rnd float32
     [replicate 25 [0, 0, 0] @ [[16777216, 0, 0], [16777218, 0, 0], [16777218, 0, 0], [16777220, 0, 0]]]
     [[[0, 0, 0, 1], [0, 0, 0, 1], [0, 0, 0, 1], [0, 0, 0, 1]]] [1] = Inr 2"
  by (simp add: translate_pred_def keypoint_3d_loss_rnd_def last_col_def but_last_col_def
      mask_select_def eq1_def center_on_pelvis_rnd_def select1_def
      ew3_def ew2_def ew1_def bcast_def mean_rnd_def sum_rnd_def flat3_def float32_vals)

subsection \<open>The operations on the small instance\<close>

lemma sequence_replicate: "sequence (replicate n (Some x)) = Some (replicate n x)"
  by (induction n) simp_all

lemma sum_list_concat_replicate_zero: "sum_list (concat (replicate n [0, 0 :: real])) = 0"
  by (induction n) simp_all

lemma demo_project:
  "project demo_env demo_opts (Suc 0) [replicate 29 [0, 0, 0]] [[0, 0, 0]]
   = Inr ([replicate 29 [0, 0]], [[0, 0, 0]])"
  by (simp add: project_def demo_opts_def demo_env_def select1_def weakProjection_gpu_closed)

lemma demo_keypoint_loss:
  "fst (keypoint_loss [[[[0, 0, 1]]]] [replicate 29 [0, 0]] 0 1 1) = Inr 0"
  by (simp add: keypoint_loss_def clone_def last_col_def on_joints_def but_last_col_def
      criterion_keypoints_def ew3_def ew2_def ew1_def bcast_def sq_diff_def
      sequence_replicate mean_list_def flat3_def sum_list_concat_replicate_zero)


lemma demo_env_fields:
  "network demo_env = (\<lambda>train w images x. (replicate 24 eye3, [0], [0, 0, 0]))"
  "smpl demo_env = (\<lambda>b p g. (replicate 29 [0, 0, 0], [[0, 0, 0]]))"
  "smpl_rotmat demo_env = (\<lambda>b body orient. (replicate 29 [0, 0, 0], [[0, 0, 0]]))"
  "smpl_eval demo_env = (\<lambda>b p g. (replicate 29 [0, 0, 0], [[0, 0, 0]]))"
  "smpl_eval_rotmat demo_env = (\<lambda>b body orient. (replicate 29 [0, 0, 0], [[0, 0, 0]]))"
  "rodrigues demo_env = (\<lambda>v. eye3)"
  "rotation_matrix_to_angle_axis demo_env = (\<lambda>m. [0, 0, 0])"
  "reconstruction_error demo_env = (\<lambda>p g. 0)"
  "estimate_translation demo_env = (\<lambda>joints kps f res. Inl ExternalError)"
  "focal_length demo_env = 5000"
  "autograd demo_env = (\<lambda>w batch. 1)"
  "grad_add demo_env = (+)"
  "adam demo_env = (\<lambda>opt w g. (opt + 1, w + g))"
  by (simp_all add: demo_env_def)

lemma demo_opts_fields:
  "img_res demo_opts = 224" "use_wpp demo_opts = True" "openpose_train_weight demo_opts = 1"
  "gt_train_weight demo_opts = 1" "shape_loss_weight demo_opts = 1"
  "keypoint_loss_weight demo_opts = 1" "pose_loss_weight demo_opts = 1"
  "beta_loss_weight demo_opts = 1" "batch_size demo_opts = 2"
  by (simp_all add: demo_opts_def)

lemma demo_keypoint_3d_loss_0:
  "keypoint_3d_loss [replicate 29 [0, 0, 0]]
     [[[0, 0, 0, 1], [0, 0, 0, 1], [0, 0, 0, 1], [0, 0, 0, 1]]] [1] = Inr 0"
  by (simp add: keypoint_3d_loss_def last_col_def but_last_col_def mask_select_def eq1_def
      center_on_pelvis_closed centered_def numeral_eq_Suc criterion_keypoints_def
      ew3_def ew2_def ew1_def bcast_def sq_diff_def mean_list_def flat3_def)

lemma demo_keypoint_3d_loss_1:
  "keypoint_3d_loss [replicate 29 [0, 0, 0]]
     [[[1, 0, 0, 1], [0, 0, 0, 1], [0, 0, 0, 1], [0, 0, 0, 1]]] [1] = Inr (1 / 12)"
  by (simp add: keypoint_3d_loss_def last_col_def but_last_col_def mask_select_def eq1_def
      center_on_pelvis_closed centered_def numeral_eq_Suc criterion_keypoints_def
      ew3_def ew2_def ew1_def bcast_def sq_diff_def mean_list_def flat3_def)


lemma demo_train_losses:
  assumes "keypoint_3d_loss [replicate 29 [0, 0, 0]] [g3] [1] = Inr v"
  shows "train_losses demo_env demo_opts w [demo_example\<lparr>pose_3d := g3\<rparr>]
         = Inr (demo_output, demo_losses v)"
  using assms
  by (simp add: train_losses_def Let_def demo_example_def demo_env_fields demo_opts_fields
      smpl_gt_def smpl_pred_def select1_def byte_flags_def bool_flags_def
      demo_project smpl_losses_none shape_loss_none demo_keypoint_loss
      camera_term_def mean_list_def eye3_def demo_output_def demo_losses_def)

lemma demo_train_step:
  assumes "keypoint_3d_loss [replicate 29 [0, 0, 0]] [g3] [1] = Inr v"
  shows "train_step demo_env demo_opts demo_trainer [demo_example\<lparr>pose_3d := g3\<rparr>]
         = (Inr (demo_output, demo_losses v), demo_trainer' v)"
  by (simp add: train_step_def Let_def demo_train_losses [OF assms] zero_grad_def backward_def
      optimizer_step_def demo_trainer_def demo_trainer'_def demo_env_fields demo_losses_def)

lemma demo_example_pose_3d:
  "demo_example\<lparr>pose_3d := [[0, 0, 0, 1], [0, 0, 0, 1], [0, 0, 0, 1], [0, 0, 0, 1]]\<rparr> = demo_example"
  by (simp add: demo_example_def)

lemma demo_test_losses:
  "test_losses demo_env demo_opts w [demo_example] = Inr demo_losses_test"
  by (simp add: test_losses_def Let_def demo_example_def demo_env_fields demo_opts_fields
      smpl_gt_def smpl_pred_def select1_def byte_flags_def
      demo_project smpl_losses_none shape_loss_none demo_keypoint_loss
      camera_term_def mean_list_def eye3_def demo_losses_test_def)

subsection \<open>The data flow of \<^verbatim>\<open>train_step\<close> and \<^verbatim>\<open>test_step\<close>\<close>

lemma bindE_InrE:
  assumes "bindE m f = Inr y"
  obtains x where "m = Inr x" and "f x = Inr y"
  using assms by (cases m) simp_all

lemma smpl_gt_batch:
  "smpl_gt model (map betas batch) (map pose batch)
   = map (\<lambda>e. model (betas e) (drop 3 (pose e)) (take 3 (pose e))) batch"
  by (simp add: smpl_gt_def zip_map_map zip_same_conv_map)

lemma gt_vertices_of_eq: "map snd (smpl_gt (smpl env) (map betas batch) (map pose batch)) = gt_vertices_of env batch"
  by (simp add: smpl_gt_batch gt_vertices_of_def comp_def)

lemma gt_model_joints_of_eq:
  "map fst (smpl_gt (smpl env) (map betas batch) (map pose batch)) = gt_model_joints_of env batch"
  by (simp add: smpl_gt_batch gt_model_joints_of_def comp_def)

lemma camera_term_InrD:
  "camera_term (map (snd \<circ> snd) (prediction env train w batch)) = Inr cam \<Longrightarrow>
   cam = mean_list (map (\<lambda>s. (exp (- s * 10))\<^sup>2) (camera_scales env train w batch))"
  by (auto simp: camera_term_def select1_def camera_scales_def comp_def split_def split: if_splits)

lemma train_losses_InrD:
  assumes "train_losses env opts w batch = Inr (out, ls)"
  shows "\<exists>pred_output kp2d cam_t lp lb lk lk3 lsh cam.
      pred_output_of env True w batch = Inr pred_output \<and>
      project env opts (length batch) (map fst pred_output)
        (map (snd \<circ> snd) (prediction env True w batch)) = Inr (kp2d, cam_t) \<and>
      smpl_losses (rodrigues env) (map fst (prediction env True w batch))
        (map (fst \<circ> snd) (prediction env True w batch)) (map pose batch) (map betas batch)
        (bool_flags (byte_flags (map has_smpl batch))) = Inr (lp, lb) \<and>
      fst (keypoint_loss [map keypoints batch] (map (map (map (\<lambda>v. v / (img_res opts / 2)))) kp2d) 0
             (openpose_train_weight opts) (gt_train_weight opts)) = Inr lk \<and>
      keypoint_3d_loss (map fst pred_output) (map pose_3d batch)
        (byte_flags (map has_pose_3d batch)) = Inr lk3 \<and>
      shape_loss (map snd pred_output) (gt_vertices_of env batch)
        (bool_flags (byte_flags (map has_smpl batch))) = Inr lsh \<and>
      camera_term (map (snd \<circ> snd) (prediction env True w batch)) = Inr cam \<and>
      out = \<lparr>pred_vertices = map snd pred_output, opt_vertices = gt_vertices_of env batch,
             pred_cam_t = cam_t,
             opt_cam_t = (case estimate_translation env (gt_model_joints_of env batch)
                                 (denormalize (img_res opts) (map keypoints batch))
                                 (focal_length env) (img_res opts) of
                            Inl e \<Rightarrow> cam_t | Inr t \<Rightarrow> t)\<rparr> \<and>
      ls = \<lparr>loss = (shape_loss_weight opts * lsh + keypoint_loss_weight opts * lk +
                     keypoint_loss_weight opts * lk3 + pose_loss_weight opts * lp +
                     beta_loss_weight opts * lb + cam) * 60,
            loss_keypoints = lk, loss_keypoints_3d = lk3, loss_regr_pose = lp,
            loss_regr_betas = lb, loss_shape = lsh\<rparr>"
  using assms
  unfolding train_losses_def Let_def gt_vertices_of_eq gt_model_joints_of_eq
    pred_output_of_def [symmetric] prediction_def [symmetric]
  by (auto elim!: bindE_InrE split: sum.splits)


lemma test_losses_InrD:
  assumes "test_losses env opts w batch = Inr lt"
  shows "\<exists>pred_output lsh.
      pred_output_of env False w batch = Inr pred_output \<and>
      shape_loss (map snd pred_output) (gt_vertices_of env batch)
        (byte_flags (map has_smpl batch)) = Inr lsh \<and>
      loss_shape_test lt = lsh"
  using assms
  unfolding test_losses_def Let_def gt_vertices_of_eq
    pred_output_of_def [symmetric] prediction_def [symmetric]
  by (auto elim!: bindE_InrE split: sum.splits)

lemma train_step_InrD:
  "fst (train_step env opts tr batch) = Inr r \<Longrightarrow> train_losses env opts (weights tr) batch = Inr r"
  by (auto simp: train_step_def Let_def split: sum.splits)

lemma test_step_fst: "fst (test_step env opts tr batch) = test_losses env opts (weights tr) batch"
  by (simp add: test_step_def Let_def)



text \<open>
  C3, as the source has it. The total loss of \<^verbatim>\<open>train_step\<close> is one number: 60 times
  the sum of the five weighted losses (the keypoint weight for both the 2D and the 3D
  keypoint loss) and of one more, unweighted summand, the mean over the batch of
  \<open>exp(-10 s)\<^sup>2\<close> for the predicted camera scale \<open>s\<close>.
\<close>

theorem total_loss_composition:
  assumes "fst (train_step env opts tr batch) = Inr (out, ls)"
  shows "loss ls = 60 * (weighted_sum opts ls +
                        mean_list (map (\<lambda>s. (exp (- s * 10))\<^sup>2) (camera_scales env True (weights tr) batch)))"
proof -
  from train_losses_InrD [OF train_step_InrD [OF assms]]
  obtain lp lb lk lk3 lsh cam where
    cam: "camera_term (map (snd \<circ> snd) (prediction env True (weights tr) batch)) = Inr cam"
    and ls: "ls = \<lparr>loss = (shape_loss_weight opts * lsh + keypoint_loss_weight opts * lk +
                     keypoint_loss_weight opts * lk3 + pose_loss_weight opts * lp +
                     beta_loss_weight opts * lb + cam) * 60,
            loss_keypoints = lk, loss_keypoints_3d = lk3, loss_regr_pose = lp,
            loss_regr_betas = lb, loss_shape = lsh\<rparr>"
    by blast
  show ?thesis
    by (simp add: ls weighted_sum_def camera_term_InrD [OF cam])
qed

theorem total_loss_composition_witness:
  "fst (train_step demo_env demo_opts demo_trainer [demo_example]) = Inr (demo_output, demo_losses 0) \<and>
   loss (demo_losses 0) = 60 * (weighted_sum demo_opts (demo_losses 0) +
      mean_list (map (\<lambda>s. (exp (- s * 10))\<^sup>2)
        (camera_scales demo_env True (weights demo_trainer) [demo_example])))"
  using total_loss_composition [of demo_env demo_opts demo_trainer "[demo_example]"
      demo_output "demo_losses 0"]
    demo_train_step [OF demo_keypoint_3d_loss_0]
  by (simp add: demo_example_pose_3d)

text \<open>
  C3, as the claim has it, fails: on the small instance every weighted loss is 0 and the
  total is 60, the camera summand times 60.
\<close>

theorem total_loss_not_weighted_sum:
  "fst (train_step demo_env demo_opts demo_trainer [demo_example]) = Inr (demo_output, demo_losses 0) \<and>
   loss (demo_losses 0) = 60 \<and> weighted_sum demo_opts (demo_losses 0) = 0 \<and>
   loss (demo_losses 0) \<noteq> weighted_sum demo_opts (demo_losses 0)"
  using demo_train_step [OF demo_keypoint_3d_loss_0]
  by (simp add: demo_example_pose_3d demo_losses_def weighted_sum_def)


text \<open>
  C6, as the source has it. In \<^verbatim>\<open>train_step\<close> and in \<^verbatim>\<open>test_step\<close> the ground-truth
  vertices of the per-vertex loss are those of the body model on the ground-truth shape
  and on the ground-truth pose, split into global orientation (its first 3 entries) and
  body pose (the rest). The joints of the body model on the same input go to the
  estimate of the camera translation in \<^verbatim>\<open>train_step\<close> and into no loss. The 3D
  keypoint loss of \<^verbatim>\<open>train_step\<close> compares the predicted joints with the annotated
  3D keypoints \<^verbatim>\<open>pose_3d\<close> of the batch; \<^verbatim>\<open>test_step\<close> has no 3D keypoint loss.
\<close>

theorem ground_truth_of_losses:
  "(fst (train_step env opts tr batch) = Inr (out, ls) \<longrightarrow>
      opt_vertices out = gt_vertices_of env batch \<and>
      opt_cam_t out = (case estimate_translation env (gt_model_joints_of env batch)
                              (denormalize (img_res opts) (map keypoints batch))
                              (focal_length env) (img_res opts) of
                         Inl e \<Rightarrow> pred_cam_t out | Inr t \<Rightarrow> t) \<and>
      (\<exists>po. pred_output_of env True (weights tr) batch = Inr po \<and>
         shape_loss (map snd po) (gt_vertices_of env batch)
           (bool_flags (byte_flags (map has_smpl batch))) = Inr (loss_shape ls) \<and>
         keypoint_3d_loss (map fst po) (map pose_3d batch)
           (byte_flags (map has_pose_3d batch)) = Inr (loss_keypoints_3d ls))) \<and>
   (fst (test_step env opts tr batch) = Inr lt \<longrightarrow>
      (\<exists>po. pred_output_of env False (weights tr) batch = Inr po \<and>
         shape_loss (map snd po) (gt_vertices_of env batch)
           (byte_flags (map has_smpl batch)) = Inr (loss_shape_test lt)))"
proof (intro conjI impI)
  assume a: "fst (train_step env opts tr batch) = Inr (out, ls)"
  from train_losses_InrD [OF train_step_InrD [OF a]]
  show "opt_vertices out = gt_vertices_of env batch" by auto
  from train_losses_InrD [OF train_step_InrD [OF a]]
  show "opt_cam_t out = (case estimate_translation env (gt_model_joints_of env batch)
                              (denormalize (img_res opts) (map keypoints batch))
                              (focal_length env) (img_res opts) of
                         Inl e \<Rightarrow> pred_cam_t out | Inr t \<Rightarrow> t)"
    by (auto split: sum.splits)
  from train_losses_InrD [OF train_step_InrD [OF a]]
  show "\<exists>po. pred_output_of env True (weights tr) batch = Inr po \<and>
         shape_loss (map snd po) (gt_vertices_of env batch)
           (bool_flags (byte_flags (map has_smpl batch))) = Inr (loss_shape ls) \<and>
         keypoint_3d_loss (map fst po) (map pose_3d batch)
           (byte_flags (map has_pose_3d batch)) = Inr (loss_keypoints_3d ls)"
    by auto
next
  assume "fst (test_step env opts tr batch) = Inr lt"
  then have "test_losses env opts (weights tr) batch = Inr lt" by (simp add: test_step_fst)
  from test_losses_InrD [OF this]
  show "\<exists>po. pred_output_of env False (weights tr) batch = Inr po \<and>
         shape_loss (map snd po) (gt_vertices_of env batch)
           (byte_flags (map has_smpl batch)) = Inr (loss_shape_test lt)"
    by auto
qed

theorem ground_truth_of_losses_witness:
  "fst (train_step demo_env demo_opts demo_trainer [demo_example]) = Inr (demo_output, demo_losses 0) \<and>
   fst (test_step demo_env demo_opts demo_trainer [demo_example]) = Inr demo_losses_test \<and>
   opt_vertices demo_output = gt_vertices_of demo_env [demo_example] \<and>
   opt_cam_t demo_output = (case estimate_translation demo_env (gt_model_joints_of demo_env [demo_example])
                              (denormalize (img_res demo_opts) (map keypoints [demo_example]))
                              (focal_length demo_env) (img_res demo_opts) of
                         Inl e \<Rightarrow> pred_cam_t demo_output | Inr t \<Rightarrow> t) \<and>
   (\<exists>po. pred_output_of demo_env True (weights demo_trainer) [demo_example] = Inr po \<and>
      shape_loss (map snd po) (gt_vertices_of demo_env [demo_example])
        (bool_flags (byte_flags (map has_smpl [demo_example]))) = Inr (loss_shape (demo_losses 0)) \<and>
      keypoint_3d_loss (map fst po) (map pose_3d [demo_example])
        (byte_flags (map has_pose_3d [demo_example])) = Inr (loss_keypoints_3d (demo_losses 0))) \<and>
   (\<exists>po. pred_output_of demo_env False (weights demo_trainer) [demo_example] = Inr po \<and>
      shape_loss (map snd po) (gt_vertices_of demo_env [demo_example])
        (byte_flags (map has_smpl [demo_example])) = Inr (loss_shape_test demo_losses_test))"
  using ground_truth_of_losses [of demo_env demo_opts demo_trainer "[demo_example]"
      demo_output "demo_losses 0" demo_losses_test]
    demo_train_step [OF demo_keypoint_3d_loss_0] demo_test_losses [of "weights demo_trainer"]
  by (simp add: demo_example_pose_3d test_step_fst)

text \<open>
  C6, as the claim has it, fails for the joints: two batches with the same pose and the
  same shape, hence the same joints and vertices of the body model, and different
  annotated 3D keypoints get different 3D keypoint losses.
\<close>

theorem joints_of_loss_not_from_smpl:
  "gt_model_joints_of demo_env [demo_example\<lparr>pose_3d := [[1, 0, 0, 1], [0, 0, 0, 1], [0, 0, 0, 1], [0, 0, 0, 1]]\<rparr>]
     = gt_model_joints_of demo_env [demo_example] \<and>
   fst (train_step demo_env demo_opts demo_trainer [demo_example]) = Inr (demo_output, demo_losses 0) \<and>
   fst (train_step demo_env demo_opts demo_trainer
          [demo_example\<lparr>pose_3d := [[1, 0, 0, 1], [0, 0, 0, 1], [0, 0, 0, 1], [0, 0, 0, 1]]\<rparr>])
     = Inr (demo_output, demo_losses (1 / 12)) \<and>
   loss_keypoints_3d (demo_losses 0) \<noteq> loss_keypoints_3d (demo_losses (1 / 12))"
  using demo_train_step [OF demo_keypoint_3d_loss_0] demo_train_step [OF demo_keypoint_3d_loss_1]
  by (simp add: demo_example_pose_3d demo_losses_def gt_model_joints_of_def demo_example_def)

text \<open>
  Why the gradients are cleared first: \<^verbatim>\<open>backward\<close> adds to the gradients that the
  parameters hold, so a step after it alone would update the weights with the sum of
  the stale gradient and the gradient of this batch.
\<close>

lemma step_without_zero_grad:
  assumes "grads tr = Some old"
  shows "grads (backward env batch l tr) = Some (grad_add env old (autograd env (weights tr) batch))"
    and "(opt_state (optimizer_step env (backward env batch l tr)),
          weights (optimizer_step env (backward env batch l tr)))
         = adam env (opt_state tr) (weights tr) (grad_add env old (autograd env (weights tr) batch))"
  using assms by (simp_all add: backward_def optimizer_step_def Let_def split_def)

lemma demo_train_step_stale:
  assumes "keypoint_3d_loss [replicate 29 [0, 0, 0]] [g3] [1] = Inr v"
  shows "train_step demo_env demo_opts (demo_trainer\<lparr>grads := Some 5\<rparr>) [demo_example\<lparr>pose_3d := g3\<rparr>]
         = (Inr (demo_output, demo_losses v), demo_trainer' v)"
  by (simp add: train_step_def Let_def demo_train_losses [OF assms] zero_grad_def backward_def
      optimizer_step_def demo_trainer_def demo_trainer'_def demo_env_fields demo_losses_def)

lemma demo_keypoint_3d_loss_short:
  "keypoint_3d_loss [replicate 29 [0, 0, 0]] [[[0, 0, 0, 1]]] [1] = Inl IndexError"
  by (simp add: keypoint_3d_loss_def last_col_def but_last_col_def mask_select_def eq1_def
      center_on_pelvis_def select1_def)

lemma demo_train_step_raises:
  "train_step demo_env demo_opts tr [demo_example\<lparr>pose_3d := [[0, 0, 0, 1]]\<rparr>]
   = (Inl IndexError, tr\<lparr>training := True\<rparr>)"
  using demo_keypoint_3d_loss_short
  by (simp add: train_step_def train_losses_def Let_def demo_example_def demo_env_fields demo_opts_fields
      smpl_gt_def smpl_pred_def select1_def byte_flags_def bool_flags_def
      demo_project smpl_losses_none shape_loss_none demo_keypoint_loss eye3_def)

text \<open>
  C7. A call of \<^verbatim>\<open>train_step\<close> that returns makes exactly three optimizer calls, in
  this order: it clears the gradients, backpropagates the total loss it returns, and
  takes one optimizer step. Because the gradients are cleared first, the gradients the
  parameters hold afterwards are those of the loss of this batch alone, whatever they
  held before the call, and the step replaces weights and optimizer state by what
  \<open>adam\<close> gives for exactly that gradient. A call that raises does so before the three
  calls and changes nothing but the mode of the network. \<^verbatim>\<open>test_step\<close> and
  \<^verbatim>\<open>eval\<close> make no optimizer call and leave weights, gradients and optimizer state
  as they were.
\<close>

theorem optimizer_calls:
  "(fst (train_step env opts tr batch) = Inr (out, ls) \<longrightarrow>
      events (snd (train_step env opts tr batch))
        = events tr @ [ZeroGrad, Backward (loss ls), OptimizerStep] \<and>
      grads (snd (train_step env opts tr batch)) = Some (autograd env (weights tr) batch) \<and>
      (opt_state (snd (train_step env opts tr batch)), weights (snd (train_step env opts tr batch)))
        = adam env (opt_state tr) (weights tr) (autograd env (weights tr) batch)) \<and>
   (fst (train_step env opts tr batch) = Inl e \<longrightarrow>
      snd (train_step env opts tr batch) = tr\<lparr>training := True\<rparr>) \<and>
   snd (test_step env opts tr batch) = tr\<lparr>training := False\<rparr> \<and>
   fst (snd (eval env opts eval_result_path submission_path test_ds tr fs)) = tr\<lparr>training := False\<rparr>"
proof (intro conjI impI)
  assume "fst (train_step env opts tr batch) = Inr (out, ls)"
  then have s: "train_step env opts tr batch
      = (Inr (out, ls), optimizer_step env (backward env batch (loss ls) (zero_grad (tr\<lparr>training := True\<rparr>))))"
    by (auto simp: train_step_def Let_def split: sum.splits)
  show "events (snd (train_step env opts tr batch)) = events tr @ [ZeroGrad, Backward (loss ls), OptimizerStep]"
    by (simp add: s optimizer_step_def backward_def zero_grad_def split_def Let_def)
  show "grads (snd (train_step env opts tr batch)) = Some (autograd env (weights tr) batch)"
    by (simp add: s optimizer_step_def backward_def zero_grad_def split_def Let_def)
  show "(opt_state (snd (train_step env opts tr batch)), weights (snd (train_step env opts tr batch)))
        = adam env (opt_state tr) (weights tr) (autograd env (weights tr) batch)"
    by (simp add: s optimizer_step_def backward_def zero_grad_def split_def Let_def)
next
  assume "fst (train_step env opts tr batch) = Inl e"
  then show "snd (train_step env opts tr batch) = tr\<lparr>training := True\<rparr>"
    by (auto simp: train_step_def Let_def split: sum.splits)
next
  show "snd (test_step env opts tr batch) = tr\<lparr>training := False\<rparr>"
    by (simp add: test_step_def Let_def)
  show "fst (snd (eval env opts eval_result_path submission_path test_ds tr fs)) = tr\<lparr>training := False\<rparr>"
    by (simp add: eval_def Let_def split: sum.splits)
qed

text \<open>
  On the small instance, from a trainer whose parameters still hold a stale gradient 5:
  the call that returns leaves the gradient 1 of its own batch and the weights
  \<open>0 + 1\<close>; the call that raises leaves the stale gradient and the weights.
\<close>

theorem optimizer_calls_witness:
  "fst (train_step demo_env demo_opts (demo_trainer\<lparr>grads := Some 5\<rparr>) [demo_example])
     = Inr (demo_output, demo_losses 0) \<and>
   events (snd (train_step demo_env demo_opts (demo_trainer\<lparr>grads := Some 5\<rparr>) [demo_example]))
     = [ZeroGrad, Backward 60, OptimizerStep] \<and>
   grads (snd (train_step demo_env demo_opts (demo_trainer\<lparr>grads := Some 5\<rparr>) [demo_example])) = Some 1 \<and>
   weights (snd (train_step demo_env demo_opts (demo_trainer\<lparr>grads := Some 5\<rparr>) [demo_example])) = 1 \<and>
   opt_state (snd (train_step demo_env demo_opts (demo_trainer\<lparr>grads := Some 5\<rparr>) [demo_example])) = 1 \<and>
   fst (train_step demo_env demo_opts (demo_trainer\<lparr>grads := Some 5\<rparr>)
          [demo_example\<lparr>pose_3d := [[0, 0, 0, 1]]\<rparr>]) = Inl IndexError \<and>
   snd (train_step demo_env demo_opts (demo_trainer\<lparr>grads := Some 5\<rparr>)
          [demo_example\<lparr>pose_3d := [[0, 0, 0, 1]]\<rparr>])
     = \<lparr>weights = 0, training = True, grads = Some 5, opt_state = 0, events = []\<rparr>"
  using optimizer_calls [where env = demo_env and opts = demo_opts
      and tr = "demo_trainer\<lparr>grads := Some 5\<rparr>"
      and batch = "[demo_example]" and out = demo_output and ls = "demo_losses 0"]
    optimizer_calls [where env = demo_env and opts = demo_opts
      and tr = "demo_trainer\<lparr>grads := Some 5\<rparr>"
      and batch = "[demo_example\<lparr>pose_3d := [[0, 0, 0, 1]]\<rparr>]" and e = IndexError]
    demo_train_step_stale [OF demo_keypoint_3d_loss_0] demo_train_step_raises
  by (simp add: demo_example_pose_3d demo_trainer_def demo_env_fields demo_losses_def)

subsection \<open>One batch of \<^verbatim>\<open>eval\<close>\<close>

lemma sequence_map_Some: "sequence (map Some ys) = Some ys"
  by (induction ys) simp_all

lemma sequence_SomeD: "sequence xs = Some ys \<Longrightarrow> xs = map Some ys"
proof (induction xs arbitrary: ys)
  case Nil
  then show ?case by simp
next
  case (Cons x xs)
  then obtain z where x: "x = Some z" by (cases x) auto
  with Cons.prems obtain zs where zs: "sequence xs = Some zs" and ys: "ys = z # zs"
    by (auto split: option.splits)
  from Cons.IH [OF zs] x ys show ?case by simp
qed

lemma map2_map_same: "map2 h (map f xs) (map g xs) = map (\<lambda>x. h (f x) (g x)) xs"
  by (induction xs) simp_all

lemma sequence_ew1_same:
  "list_all2 (\<lambda>p g. length p = length g) ps gs \<Longrightarrow>
   sequence (map2 (ew1 f) ps gs) = Some (map2 (map2 f) ps gs)"
  by (induction rule: list_all2_induct) (simp_all add: ew1_same)

lemma ew2_same:
  "list_all2 (\<lambda>p g. length p = length g) ps gs \<Longrightarrow> ew2 f ps gs = Some (map2 (map2 f) ps gs)"
  by (simp add: ew2_def bcast_same list_all2_lengthD sequence_ew1_same)

lemma mean_distance_eq:
  assumes "same_shape ps gs"
  shows "mean_list (map (\<lambda>pt. sqrt (sum_list pt)) (the (ew2 sq_diff ps gs))) = mean_distance ps gs"
proof -
  from assms have a: "list_all2 (\<lambda>p g. length p = length g) ps gs"
    by (simp add: same_shape_def)
  then have l: "length gs = length ps" by (simp add: list_all2_lengthD)
  have "map (\<lambda>pt. sqrt (sum_list pt)) (map2 (map2 sq_diff) ps gs) = map2 distance ps gs"
    by (simp add: distance_def sq_diff_def [abs_def] split_def)
  then show ?thesis
    by (simp add: ew2_same [OF a] mean_list_def mean_distance_def l del: map_map)
qed

lemma point_errors_items:
  assumes "point_errors (map f batch) (map g batch) = Inr es"
    and "\<forall>e \<in> set batch. same_shape (f e) (g e)"
  shows "es = map (\<lambda>e. mean_distance (f e) (g e)) batch"
proof -
  from assms obtain d where d: "ew3 sq_diff (map f batch) (map g batch) = Some d"
    and es: "es = map (\<lambda>item. mean_list (map (\<lambda>pt. sqrt (sum_list pt)) item)) d"
    by (auto simp: point_errors_def of_opt_def elim!: bindE_InrE split: option.splits)
  from d have "map (\<lambda>e. ew2 sq_diff (f e) (g e)) batch = map Some d"
    by (simp add: ew3_def bcast_same map2_map_same del: map_map) (rule sequence_SomeD)
  then have "map the (map (\<lambda>e. ew2 sq_diff (f e) (g e)) batch) = map the (map Some d)"
    by simp
  then have "d = map (\<lambda>e. the (ew2 sq_diff (f e) (g e))) batch"
    by (simp add: comp_def)
  then have "es = map (\<lambda>e. mean_list (map (\<lambda>pt. sqrt (sum_list pt)) (the (ew2 sq_diff (f e) (g e))))) batch"
    by (simp add: es comp_def)
  also have "\<dots> = map (\<lambda>e. mean_distance (f e) (g e)) batch"
    by (rule map_cong [OF refl]) (use assms(2) in \<open>simp add: mean_distance_eq\<close>)
  finally show ?thesis .
qed

lemma assign_slice_exact:
  assumes "assign_slice arr lo n vals = Inr arr'" and "length vals = n" and "lo + n \<le> length arr"
  shows "arr' = take lo arr @ vals @ drop (lo + n) arr"
  using assms by (auto simp: assign_slice_def Let_def min_def split: if_splits)

lemma smpl_pred_items:
  assumes "smpl_pred model (map (fst \<circ> snd) pred) (map fst pred) = Inr po"
  shows "po = map (\<lambda>(r, b, c). model b (drop 1 r) [r ! 0]) pred"
proof -
  from assms have "select1 (map fst pred) 0 = Inr (map (\<lambda>item. item ! 0) (map fst pred))"
    by (auto simp: smpl_pred_def select1_def split: if_splits)
  with assms show ?thesis
    by (simp add: smpl_pred_def zip_map_map zip_same_conv_map split_def comp_def
        zip_map1 zip_map2)
qed


lemma eval_batch_InrD:
  assumes "eval_batch env w bs step batch acc = Inr acc'"
  shows "\<exists>e1 e2 pp.
     point_errors (map (\<lambda>e. take 24 (fst (fst (item_bodies env w batch e)))) batch)
       (map (\<lambda>e. take 24 (fst (snd (item_bodies env w batch e)))) batch) = Inr e1 \<and>
     assign_slice (mpjpe acc) (step * bs) (length batch) e1 = Inr (mpjpe acc') \<and>
     assign_slice (pa_mpjpe acc) (step * bs) (length batch)
       (map (item_pa_mpjpe env w batch) batch) = Inr (pa_mpjpe acc') \<and>
     point_errors (map (\<lambda>e. snd (fst (item_bodies env w batch e))) batch)
       (map (\<lambda>e. snd (snd (item_bodies env w batch e))) batch) = Inr e2 \<and>
     assign_slice (v2v acc) (step * bs) (length batch) e2 = Inr (v2v acc') \<and>
     assign_slice (pa_v2v acc) (step * bs) (length batch)
       (map (item_pa_v2v env w batch) batch) = Inr (pa_v2v acc') \<and>
     pred_pose_of (rotation_matrix_to_angle_axis env) (length batch)
       (map (\<lambda>e. fst (item_prediction env w batch e)) batch) = Inr pp \<and>
     save_items (map imgname batch) pp (map (\<lambda>e. fst (snd (item_prediction env w batch e))) batch)
       (pred_dict acc) [0..<length batch] = Inr (pred_dict acc')"
proof -
  let ?pred = "map (item_prediction env w batch) batch"
  have pred: "map (network env False w (map img batch)) (map img batch) = ?pred"
    by (simp add: item_prediction_def comp_def)
  from assms obtain po where
    po: "smpl_pred (smpl_eval_rotmat env) (map (fst \<circ> snd) ?pred) (map fst ?pred) = Inr po"
    unfolding eval_batch_def Let_def pred by (auto elim!: bindE_InrE)
  have po': "po = map (\<lambda>e. fst (item_bodies env w batch e)) batch"
    using smpl_pred_items [OF po] by (simp add: item_bodies_def split_def comp_def Let_def)
  have gt: "smpl_gt (smpl_eval env) (map betas batch) (map pose batch)
            = map (\<lambda>e. snd (item_bodies env w batch e)) batch"
    by (simp add: smpl_gt_batch item_bodies_def split_def Let_def)
  have pa1: "map2 (reconstruction_error env) (map (\<lambda>e. take 24 (fst (fst (item_bodies env w batch e)))) batch)
               (map (\<lambda>e. take 24 (fst (snd (item_bodies env w batch e)))) batch)
             = map (item_pa_mpjpe env w batch) batch"
    by (subst map2_map_same) (simp add: item_pa_mpjpe_def split_def Let_def)
  have pa2: "map2 (reconstruction_error env) (map (\<lambda>e. snd (fst (item_bodies env w batch e))) batch)
               (map (\<lambda>e. snd (snd (item_bodies env w batch e))) batch)
             = map (item_pa_v2v env w batch) batch"
    by (subst map2_map_same) (simp add: item_pa_v2v_def split_def Let_def)
  from assms show ?thesis
    unfolding eval_batch_def Let_def pred po bindE_simps gt
    unfolding po' map_map comp_def pa1 pa2
    by (auto elim!: bindE_InrE)
qed


lemma item_bodies_shaped:
  assumes "bodies_shaped env"
  shows "same_shape (take 24 (fst (fst (item_bodies env w batch e))))
           (take 24 (fst (snd (item_bodies env w batch e))))"
    and "same_shape (snd (fst (item_bodies env w batch e))) (snd (snd (item_bodies env w batch e)))"
  using assms by (simp_all add: bodies_shaped_def item_bodies_def split_def Let_def)

lemma eval_batch_arrays:
  assumes "eval_batch env w bs step batch acc = Inr acc1" and shaped: "bodies_shaped env"
  shows "step * bs + length batch \<le> length (mpjpe acc) \<Longrightarrow>
           mpjpe acc1 = take (step * bs) (mpjpe acc) @ map (item_mpjpe env w batch) batch @
                        drop (step * bs + length batch) (mpjpe acc)"
    and "step * bs + length batch \<le> length (pa_mpjpe acc) \<Longrightarrow>
           pa_mpjpe acc1 = take (step * bs) (pa_mpjpe acc) @ map (item_pa_mpjpe env w batch) batch @
                        drop (step * bs + length batch) (pa_mpjpe acc)"
    and "step * bs + length batch \<le> length (v2v acc) \<Longrightarrow>
           v2v acc1 = take (step * bs) (v2v acc) @ map (item_v2v env w batch) batch @
                        drop (step * bs + length batch) (v2v acc)"
    and "step * bs + length batch \<le> length (pa_v2v acc) \<Longrightarrow>
           pa_v2v acc1 = take (step * bs) (pa_v2v acc) @ map (item_pa_v2v env w batch) batch @
                        drop (step * bs + length batch) (pa_v2v acc)"
proof -
  from eval_batch_InrD [OF assms(1)] obtain e1 e2 where
    e1: "point_errors (map (\<lambda>e. take 24 (fst (fst (item_bodies env w batch e)))) batch)
           (map (\<lambda>e. take 24 (fst (snd (item_bodies env w batch e)))) batch) = Inr e1"
    and a1: "assign_slice (mpjpe acc) (step * bs) (length batch) e1 = Inr (mpjpe acc1)"
    and a2: "assign_slice (pa_mpjpe acc) (step * bs) (length batch)
               (map (item_pa_mpjpe env w batch) batch) = Inr (pa_mpjpe acc1)"
    and e2: "point_errors (map (\<lambda>e. snd (fst (item_bodies env w batch e))) batch)
               (map (\<lambda>e. snd (snd (item_bodies env w batch e))) batch) = Inr e2"
    and a3: "assign_slice (v2v acc) (step * bs) (length batch) e2 = Inr (v2v acc1)"
    and a4: "assign_slice (pa_v2v acc) (step * bs) (length batch)
               (map (item_pa_v2v env w batch) batch) = Inr (pa_v2v acc1)"
    by blast
  have v1: "e1 = map (item_mpjpe env w batch) batch"
    using point_errors_items [OF e1] item_bodies_shaped [OF shaped]
    by (simp add: item_mpjpe_def split_def Let_def)
  have v2: "e2 = map (item_v2v env w batch) batch"
    using point_errors_items [OF e2] item_bodies_shaped [OF shaped]
    by (simp add: item_v2v_def split_def Let_def)
  show "step * bs + length batch \<le> length (mpjpe acc) \<Longrightarrow>
           mpjpe acc1 = take (step * bs) (mpjpe acc) @ map (item_mpjpe env w batch) batch @
                        drop (step * bs + length batch) (mpjpe acc)"
    using assign_slice_exact [OF a1] by (simp add: v1)
  show "step * bs + length batch \<le> length (pa_mpjpe acc) \<Longrightarrow>
           pa_mpjpe acc1 = take (step * bs) (pa_mpjpe acc) @ map (item_pa_mpjpe env w batch) batch @
                        drop (step * bs + length batch) (pa_mpjpe acc)"
    using assign_slice_exact [OF a2] by simp
  show "step * bs + length batch \<le> length (v2v acc) \<Longrightarrow>
           v2v acc1 = take (step * bs) (v2v acc) @ map (item_v2v env w batch) batch @
                        drop (step * bs + length batch) (v2v acc)"
    using assign_slice_exact [OF a3] by (simp add: v2)
  show "step * bs + length batch \<le> length (pa_v2v acc) \<Longrightarrow>
           pa_v2v acc1 = take (step * bs) (pa_v2v acc) @ map (item_pa_v2v env w batch) batch @
                        drop (step * bs + length batch) (pa_v2v acc)"
    using assign_slice_exact [OF a4] by simp
qed

text \<open>
  The loop fills one array: when every batch stores its values at its own offset, the
  array after the loop is what came before the first offset, then the values of all
  batches in order.
\<close>

lemma eval_loop_array:
  fixes sel :: "eval_acc \<Rightarrow> t1" and itemf :: "'img example list \<Rightarrow> 'img example \<Rightarrow> real"
  assumes stepf: "\<And>step batch acc acc1. eval_batch env w bs step batch acc = Inr acc1 \<Longrightarrow>
              step * bs + length batch \<le> length (sel acc) \<Longrightarrow>
              sel acc1 = take (step * bs) (sel acc) @ map (itemf batch) batch @
                         drop (step * bs + length batch) (sel acc)"
    and "eval_loop env w bs step batches acc = Inr acc'"
    and "\<forall>b \<in> set (butlast batches). length b = bs"
    and "length (sel acc) = step * bs + length (concat batches)"
  shows "sel acc' = take (step * bs) (sel acc) @ concat (map (\<lambda>b. map (itemf b) b) batches)"
  using assms(2-)
proof (induction batches arbitrary: step acc)
  case Nil
  then show ?case by simp
next
  case (Cons b rest)
  from Cons.prems(1) obtain acc1 where
    b: "eval_batch env w bs step b acc = Inr acc1"
    and r: "eval_loop env w bs (Suc step) rest acc1 = Inr acc'"
    by (auto elim!: bindE_InrE)
  have le: "step * bs + length b \<le> length (sel acc)"
    using Cons.prems(3) by simp
  note s1 = stepf [OF b le]
  show ?case
  proof (cases "rest = []")
    case True
    with r have "acc' = acc1" by simp
    with s1 True Cons.prems(3) show ?thesis by simp
  next
    case False
    with Cons.prems(2) have lb: "length b = bs" and br: "\<forall>b \<in> set (butlast rest). length b = bs"
      by simp_all
    have len1: "length (sel acc1) = Suc step * bs + length (concat rest)"
      using s1 le lb Cons.prems(3) by simp
    have "sel acc' = take (Suc step * bs) (sel acc1) @ concat (map (\<lambda>b. map (itemf b) b) rest)"
      by (rule Cons.IH [OF r br len1])
    moreover have "take (Suc step * bs) (sel acc1) = take (step * bs) (sel acc) @ map (itemf b) b"
      using s1 le lb by (simp add: min_def)
    ultimately show ?thesis by simp
  qed
qed


subsection \<open>The batches of the loader\<close>

lemma ceil_div_step:
  fixes m bs :: nat
  assumes "0 < bs"
  shows "(Suc m + bs - 1) div bs = Suc ((Suc m - bs + bs - 1) div bs)"
proof -
  have "(Suc m + bs - 1) div bs = (m + bs) div bs" by simp
  also have "\<dots> = Suc (m div bs)" using assms by simp
  also have "m div bs = (Suc m - bs + bs - 1) div bs"
  proof (cases "Suc m \<le> bs")
    case True
    then have "m < bs" by simp
    then have "m div bs = 0" by simp
    moreover from True have "Suc m - bs + bs - 1 = bs - 1" by simp
    moreover have "(bs - 1) div bs = 0" using assms by simp
    ultimately show ?thesis by simp
  next
    case False
    then have "Suc m - bs + bs - 1 = m" by simp
    then show ?thesis by simp
  qed
  finally show ?thesis .
qed

lemma batches_count:
  assumes "0 < bs" "ds \<noteq> []"
  shows "(length ds + bs - 1) div bs = Suc ((length (drop bs ds) + bs - 1) div bs)"
proof -
  from assms(2) obtain m where "length ds = Suc m" by (cases ds) auto
  then show ?thesis using ceil_div_step [OF assms(1), of m] by simp
qed

lemma loader_batches_Nil [simp]: "0 < bs \<Longrightarrow> loader_batches bs [] = []"
  by (simp add: loader_batches_def)

lemma loader_batches_rec:
  assumes "0 < bs" "ds \<noteq> []"
  shows "loader_batches bs ds = take bs ds # loader_batches bs (drop bs ds)"
proof -
  have "loader_batches bs ds
        = map (\<lambda>k. take bs (drop (k * bs) ds)) [0..<Suc ((length (drop bs ds) + bs - 1) div bs)]"
    unfolding loader_batches_def batches_count [OF assms] ..
  also have "\<dots> = take bs ds # map (\<lambda>k. take bs (drop (k * bs) (drop bs ds)))
                                    [0..<(length (drop bs ds) + bs - 1) div bs]"
    by (simp add: map_upt_Suc add.commute del: upt_Suc)
  finally show ?thesis by (simp add: loader_batches_def)
qed

lemma loader_batches_props:
  assumes "0 < bs"
  shows "concat (loader_batches bs ds) = ds \<and> (\<forall>b \<in> set (butlast (loader_batches bs ds)). length b = bs)"
proof (induction ds rule: length_induct)
  case (1 ds)
  show ?case
  proof (cases "ds = []")
    case True
    with assms show ?thesis by simp
  next
    case False
    with assms have "length (drop bs ds) < length ds" by (cases ds) simp_all
    with 1 have ih: "concat (loader_batches bs (drop bs ds)) = drop bs ds"
      "\<forall>b \<in> set (butlast (loader_batches bs (drop bs ds))). length b = bs"
      by blast+
    have "loader_batches bs (drop bs ds) \<noteq> [] \<Longrightarrow> length (take bs ds) = bs"
    proof -
      assume "loader_batches bs (drop bs ds) \<noteq> []"
      with assms have "drop bs ds \<noteq> []" by auto
      then show ?thesis by simp
    qed
    with ih show ?thesis
      by (simp add: loader_batches_rec [OF assms False])
  qed
qed


lemma loader_batches_sizes:
  assumes "0 < bs"
  shows "\<forall>b \<in> set (loader_batches bs ds). b \<noteq> [] \<and> length b \<le> bs"
proof (induction ds rule: length_induct)
  case (1 ds)
  show ?case
  proof (cases "ds = []")
    case True
    with assms show ?thesis by simp
  next
    case False
    with assms have "length (drop bs ds) < length ds" by (cases ds) simp_all
    with 1 have ih: "\<forall>b \<in> set (loader_batches bs (drop bs ds)). b \<noteq> [] \<and> length b \<le> bs"
      by blast
    from False assms have "take bs ds \<noteq> []" by (cases ds) simp_all
    with ih show ?thesis
      by (simp add: loader_batches_rec [OF assms False])
  qed
qed

lemma length_per_item: "0 < bs \<Longrightarrow> length (per_item f bs ds) = length ds"
proof -
  assume "0 < bs"
  have "length (per_item f bs ds) = length (concat (loader_batches bs ds))"
    by (simp add: per_item_def length_concat comp_def)
  with \<open>0 < bs\<close> show ?thesis by (simp add: loader_batches_props)
qed

lemma eval_InrD:
  assumes "fst (eval env opts eval_result_path submission_path test_ds tr fs) = Inr u"
  shows "0 < batch_size opts \<and>
         (\<exists>acc. eval_loop env (weights tr) (batch_size opts) 0
                  (loader_batches (batch_size opts) test_ds) (eval_acc0 (length test_ds)) = Inr acc \<and>
            snd (snd (eval env opts eval_result_path submission_path test_ds tr fs))
              = write_file
                  (append_file fs eval_result_path
                     (report submission_path (mpjpe acc) (pa_mpjpe acc) (v2v acc) (pa_v2v acc)))
                  submission_path [JsonDumps (dict_json (pred_dict acc))])"
  using assms by (auto simp: eval_def Let_def split: if_splits sum.splits)

lemma eval_loop_arrays:
  assumes "0 < bs"
    and "eval_loop env w bs 0 (loader_batches bs ds) (eval_acc0 (length ds)) = Inr acc"
    and "bodies_shaped env"
  shows "mpjpe acc = per_item (item_mpjpe env w) bs ds"
    and "pa_mpjpe acc = per_item (item_pa_mpjpe env w) bs ds"
    and "v2v acc = per_item (item_v2v env w) bs ds"
    and "pa_v2v acc = per_item (item_pa_v2v env w) bs ds"
proof -
  note p = loader_batches_props [OF assms(1), of ds]
  from p have bl: "\<forall>b \<in> set (butlast (loader_batches bs ds)). length b = bs" by simp
  show "mpjpe acc = per_item (item_mpjpe env w) bs ds"
    using eval_loop_array [where sel = mpjpe and itemf = "item_mpjpe env w", OF _ assms(2) bl] p assms(3)
    by (simp add: eval_batch_arrays eval_acc0_def per_item_def)
  show "pa_mpjpe acc = per_item (item_pa_mpjpe env w) bs ds"
    using eval_loop_array [where sel = pa_mpjpe and itemf = "item_pa_mpjpe env w", OF _ assms(2) bl] p assms(3)
    by (simp add: eval_batch_arrays eval_acc0_def per_item_def)
  show "v2v acc = per_item (item_v2v env w) bs ds"
    using eval_loop_array [where sel = v2v and itemf = "item_v2v env w", OF _ assms(2) bl] p assms(3)
    by (simp add: eval_batch_arrays eval_acc0_def per_item_def)
  show "pa_v2v acc = per_item (item_pa_v2v env w) bs ds"
    using eval_loop_array [where sel = pa_v2v and itemf = "item_pa_v2v env w", OF _ assms(2) bl] p assms(3)
    by (simp add: eval_batch_arrays eval_acc0_def per_item_def)
qed

lemma np_scaled_mean: "np_times 1000 (np_mean xs) = scaled_mean xs"
  by (simp add: np_mean_def scaled_mean_def)

lemma append_file_alt:
  "append_file fs path ps = fs(path \<mapsto> (case fs path of None \<Rightarrow> [] | Some old \<Rightarrow> old) @ ps)"
  by (simp add: append_file_def split: option.splits)

text \<open>
  C5. When \<^verbatim>\<open>eval\<close> returns, the log file holds what it held before, followed by the
  path of the submission and four lines \<open>MPJPE\<close>, \<open>PA-MPJPE\<close>, \<open>V2V\<close> and
  \<open>PA-V2V\<close>, each with 1000 times the mean of the errors of that kind, one error for
  every item of the test set, in the order of the test set; on an empty test set the
  four numbers are NaN. The errors of an item are the mean distance between its
  predicted and its ground-truth joints (the first 24) and vertices, and what
  \<open>reconstruction_error\<close>, the procrustes-aligned error, gives for the same joints
  and vertices. The prediction of an item is the one the network makes on the batch that
  holds it: the loader cuts the test set into consecutive batches of \<open>batch_size\<close>
  items, the last one possibly shorter. The submission is written after the log, so it
  replaces the log when both paths name the same file. The body model gives the
  prediction and the ground truth the same shape.
\<close>

theorem eval_log:
  assumes "fst (eval env opts eval_result_path submission_path test_ds tr fs) = Inr u"
    and "bodies_shaped env"
  shows "\<exists>batches pred_json.
      concat batches = test_ds \<and>
      (\<forall>b \<in> set batches. b \<noteq> [] \<and> length b \<le> batch_size opts) \<and>
      (\<forall>b \<in> set (butlast batches). length b = batch_size opts) \<and>
      snd (snd (eval env opts eval_result_path submission_path test_ds tr fs)) =
        (fs(eval_result_path \<mapsto>
              (case fs eval_result_path of None \<Rightarrow> [] | Some old \<Rightarrow> old) @
              [Text (submission_path @ [CHR 0x0A]),
               Text ''MPJPE: '',
               FloatStr (scaled_mean (concat (map (\<lambda>b. map (item_mpjpe env (weights tr) b) b) batches))),
               Text [CHR 0x0A],
               Text ''PA-MPJPE: '',
               FloatStr (scaled_mean (concat (map (\<lambda>b. map (item_pa_mpjpe env (weights tr) b) b) batches))),
               Text [CHR 0x0A],
               Text ''V2V: '',
               FloatStr (scaled_mean (concat (map (\<lambda>b. map (item_v2v env (weights tr) b) b) batches))),
               Text [CHR 0x0A],
               Text ''PA-V2V: '',
               FloatStr (scaled_mean (concat (map (\<lambda>b. map (item_pa_v2v env (weights tr) b) b) batches))),
               Text [CHR 0x0A],
               Text [CHR 0x0A]]))
          (submission_path \<mapsto> [JsonDumps pred_json])"
proof -
  from eval_InrD [OF assms(1)] obtain acc where
    bs: "0 < batch_size opts"
    and loop: "eval_loop env (weights tr) (batch_size opts) 0
                 (loader_batches (batch_size opts) test_ds) (eval_acc0 (length test_ds)) = Inr acc"
    and fs': "snd (snd (eval env opts eval_result_path submission_path test_ds tr fs))
              = write_file
                  (append_file fs eval_result_path
                     (report submission_path (mpjpe acc) (pa_mpjpe acc) (v2v acc) (pa_v2v acc)))
                  submission_path [JsonDumps (dict_json (pred_dict acc))]"
    by blast
  let ?batches = "loader_batches (batch_size opts) test_ds"
  note arrays = eval_loop_arrays [OF bs loop assms(2), unfolded per_item_def]
  have "snd (snd (eval env opts eval_result_path submission_path test_ds tr fs)) =
        (fs(eval_result_path \<mapsto>
              (case fs eval_result_path of None \<Rightarrow> [] | Some old \<Rightarrow> old) @
              [Text (submission_path @ [CHR 0x0A]),
               Text ''MPJPE: '',
               FloatStr (scaled_mean (concat (map (\<lambda>b. map (item_mpjpe env (weights tr) b) b) ?batches))),
               Text [CHR 0x0A],
               Text ''PA-MPJPE: '',
               FloatStr (scaled_mean (concat (map (\<lambda>b. map (item_pa_mpjpe env (weights tr) b) b) ?batches))),
               Text [CHR 0x0A],
               Text ''V2V: '',
               FloatStr (scaled_mean (concat (map (\<lambda>b. map (item_v2v env (weights tr) b) b) ?batches))),
               Text [CHR 0x0A],
               Text ''PA-V2V: '',
               FloatStr (scaled_mean (concat (map (\<lambda>b. map (item_pa_v2v env (weights tr) b) b) ?batches))),
               Text [CHR 0x0A],
               Text [CHR 0x0A]]))
          (submission_path \<mapsto> [JsonDumps (dict_json (pred_dict acc))])"
    unfolding fs' write_file_def append_file_alt report_def np_scaled_mean newline_def arrays ..
  with loader_batches_props [OF bs, of test_ds] loader_batches_sizes [OF bs, of test_ds]
  show ?thesis by blast
qed

subsection \<open>The dictionary of predictions\<close>

lemma set_frame_lookup:
  "lookup_frame (set_frame d r f e) = (lookup_frame d)((r, f) \<mapsto> e)"
proof (rule ext)
  fix k :: "string \<times> string"
  obtain r' f' where k: "k = (r', f')" by (cases k)
  show "lookup_frame (set_frame d r f e) k = ((lookup_frame d)((r, f) \<mapsto> e)) k"
  proof (cases "r \<in> fst ` set d")
    case True
    then obtain frames where fr: "map_of d r = Some frames"
      by (metis map_of_eq_None_iff not_Some_eq)
    with True show ?thesis
      by (simp add: set_frame_def lookup_frame_def k update_conv')
  next
    case False
    then have "map_of d r = None" by (simp add: map_of_eq_None_iff)
    with False show ?thesis
      by (simp add: set_frame_def lookup_frame_def k update_conv')
  qed
qed

lemma save_item_lookup:
  assumes "save_item paths pp pb d i = Inr d'"
  shows "lookup_frame d' = (lookup_frame d)(path_names (paths ! i) \<mapsto> frame_entry (pp ! i) (pb ! i))"
  using assms
  by (auto simp: save_item_def index_def index_from_end_def path_names_def Let_def set_frame_lookup
      elim!: bindE_InrE split: if_splits)

lemma save_items_lookup:
  assumes "save_items paths pp pb d is = Inr d'"
  shows "lookup_frame d' =
         lookup_frame d ++ map_of (rev (map (\<lambda>i. (path_names (paths ! i), frame_entry (pp ! i) (pb ! i))) is))"
  using assms
proof (induction "is" arbitrary: d)
  case Nil
  then show ?case by simp
next
  case (Cons i "is")
  from Cons.prems obtain d1 where
    d1: "save_item paths pp pb d i = Inr d1" and r: "save_items paths pp pb d1 is = Inr d'"
    by (auto elim!: bindE_InrE)
  show ?case
    unfolding Cons.IH [OF r] save_item_lookup [OF d1]
    by (rule ext) (simp add: map_add_def split: option.splits)
qed


lemma concat_map_concat: "concat (map f (concat xss)) = concat (map (\<lambda>xs. concat (map f xs)) xss)"
  by (induction xss) simp_all

lemma length_concat_map: "(\<And>x. length (f x) = n) \<Longrightarrow> length (concat (map f xs)) = length xs * n"
  by (induction xs) simp_all

lemma pred_pose_of_shaped:
  assumes "\<forall>r \<in> set rs. length r = 24 \<and> (\<forall>m \<in> set r. length m = 3 \<and> (\<forall>row \<in> set m. length row = 3))"
    and "\<forall>m. length (rotation_matrix_to_angle_axis env m) = 3"
  shows "pred_pose_of (rotation_matrix_to_angle_axis env) (length rs) rs = Inr (map (item_pose env) rs)"
proof -
  let ?M = "concat rs"
  have m3: "\<And>m. m \<in> set ?M \<Longrightarrow> length m = 3" using assms(1) by auto
  have r3: "\<And>row. row \<in> set (concat ?M) \<Longrightarrow> length row = 3" using assms(1) by auto
  have lM: "length ?M = length rs * 24"
    using assms(1) by (simp add: length_concat_uniform)
  have "length (flat4 rs) = length (concat ?M) * 3"
    unfolding flat4_def using r3 by (rule length_concat_uniform)
  also have "length (concat ?M) = length ?M * 3" using m3 by (rule length_concat_uniform)
  finally have "length (flat4 rs) = length ?M * 9" by simp
  then have "9 dvd length (flat4 rs)" by simp
  moreover have "chunks 3 (chunks 3 (flat4 rs)) = ?M"
  proof -
    have "chunks 3 (concat (concat ?M)) = concat ?M"
      by (rule chunks_concat) (simp_all add: r3)
    moreover have "chunks 3 (concat ?M) = ?M"
      by (rule chunks_concat) (simp_all add: m3)
    ultimately show ?thesis by (simp add: flat4_def)
  qed
  ultimately have v: "view_m1_3_3 rs = Inr ?M" by (simp add: view_m1_3_3_def)
  have c: "cat_rot_pad (length rs) ?M = Inr (map (\<lambda>m. map2 (\<lambda>row pad. row @ pad) m [[0], [0], [1]]) ?M)"
    by (simp add: cat_rot_pad_def lM)
  have "flat2 (map (rotation_matrix_to_angle_axis env) (map (\<lambda>m. map2 (\<lambda>row pad. row @ pad) m [[0], [0], [1]]) ?M))
        = concat (map (\<lambda>m. rotation_matrix_to_angle_axis env (map2 (\<lambda>row pad. row @ pad) m [[0], [0], [1]])) (concat rs))"
    unfolding flat2_def map_map comp_def ..
  also have "\<dots> = concat (map (item_pose env) rs)"
    unfolding item_pose_def by (rule concat_map_concat)
  finally have "flat2 (map (rotation_matrix_to_angle_axis env) (map (\<lambda>m. map2 (\<lambda>row pad. row @ pad) m [[0], [0], [1]]) ?M))
        = concat (map (item_pose env) rs)" .
  moreover have "length (item_pose env r) = 72" if "r \<in> set rs" for r
  proof -
    have "length (item_pose env r) = length r * 3"
      unfolding item_pose_def by (rule length_concat_map) (simp add: assms(2))
    with that assms(1) show ?thesis by simp
  qed
  then have "view_rows 72 (concat (map (item_pose env) rs)) = Inr (map (item_pose env) rs)"
    by (intro view_rows_concat) auto
  ultimately show ?thesis
    by (simp add: pred_pose_of_def v c del: map_map)
qed


lemma map_upt_nth: "map (\<lambda>i. f (xs ! i)) [0..<length xs] = map f xs"
  by (rule nth_equalityI) simp_all

lemma eval_batch_dict:
  assumes "eval_batch env w bs step batch acc = Inr acc1" and "rotations_shaped env"
  shows "lookup_frame (pred_dict acc1) =
         lookup_frame (pred_dict acc) ++
         map_of (rev (map (\<lambda>e. (item_names e, item_entry env w batch e)) batch))"
proof -
  let ?rs = "map (\<lambda>e. fst (item_prediction env w batch e)) batch"
  let ?bs = "map (\<lambda>e. fst (snd (item_prediction env w batch e))) batch"
  from eval_batch_InrD [OF assms(1)] obtain pp where
    pp: "pred_pose_of (rotation_matrix_to_angle_axis env) (length batch) ?rs = Inr pp"
    and sv: "save_items (map imgname batch) pp ?bs (pred_dict acc) [0..<length batch] = Inr (pred_dict acc1)"
    by blast
  have "pred_pose_of (rotation_matrix_to_angle_axis env) (length ?rs) ?rs = Inr (map (item_pose env) ?rs)"
    using assms(2) by (intro pred_pose_of_shaped) (auto simp: rotations_shaped_def item_prediction_def)
  with pp have pp': "pp = map (item_pose env) ?rs" by simp
  have "map (\<lambda>i. (path_names (map imgname batch ! i), frame_entry (pp ! i) (?bs ! i))) [0..<length batch]
        = map (\<lambda>i. (\<lambda>e. (item_names e, item_entry env w batch e)) (batch ! i)) [0..<length batch]"
    by (rule map_cong [OF refl])
       (simp add: pp' item_names_def item_entry_def split_def Let_def)
  also have "\<dots> = map (\<lambda>e. (item_names e, item_entry env w batch e)) batch"
    by (rule map_upt_nth)
  finally show ?thesis
    using save_items_lookup [OF sv] by simp
qed

lemma eval_loop_dict:
  assumes "eval_loop env w bs step batches acc = Inr acc'" and "rotations_shaped env"
  shows "lookup_frame (pred_dict acc') =
         lookup_frame (pred_dict acc) ++
         map_of (rev (concat (map (\<lambda>b. map (\<lambda>e. (item_names e, item_entry env w b e)) b) batches)))"
  using assms(1)
proof (induction batches arbitrary: step acc)
  case Nil
  then show ?case by simp
next
  case (Cons b rest)
  from Cons.prems obtain acc1 where
    b: "eval_batch env w bs step b acc = Inr acc1"
    and r: "eval_loop env w bs (Suc step) rest acc1 = Inr acc'"
    by (auto elim!: bindE_InrE)
  show ?case
    unfolding Cons.IH [OF r] eval_batch_dict [OF b assms(2)]
    by (simp add: map_add_assoc)
qed

lemma split_on_no_sep: "c \<notin> set w \<Longrightarrow> split_on c w = [w]"
  by (induction w) auto

lemma split_on_sep: "c \<notin> set w \<Longrightarrow> split_on c (w @ c # rest) = w # split_on c rest"
  by (induction w) auto

lemma split_join:
  "cs \<noteq> [] \<Longrightarrow> \<forall>w \<in> set cs. CHR ''/'' \<notin> set w \<Longrightarrow> split_on CHR ''/'' (join_path cs) = cs"
  by (induction cs rule: join_path.induct) (simp_all add: split_on_no_sep split_on_sep)

lemma split_on_not_Nil: "split_on c s \<noteq> []"
  by (induction s) (auto split: list.splits)

lemma join_split: "join_path (split_on CHR ''/'' s) = s"
proof (induction s)
  case Nil
  then show ?case by simp
next
  case (Cons x xs)
  obtain w ws where w: "split_on CHR ''/'' xs = w # ws"
    using split_on_not_Nil [of "CHR ''/''" xs] by (cases "split_on CHR ''/'' xs") auto
  with Cons show ?case by (cases ws) auto
qed

lemma split_on_parts: "\<forall>w \<in> set (split_on c s). c \<notin> set w"
  by (induction s) (auto split: list.splits)

text \<open>Every path is a list of components joined by slashes.\<close>

lemma path_has_components:
  "\<exists>cs. path = join_path cs \<and> cs \<noteq> [] \<and> (\<forall>c \<in> set cs. CHR ''/'' \<notin> set c)"
  using join_split [of path] split_on_not_Nil [of "CHR ''/''" path] split_on_parts [of "CHR ''/''" path]
  by (intro exI [of _ "split_on CHR ''/'' path"]) simp

lemma set_update_subset: "set (AList.update k v al) \<subseteq> insert (k, v) (set al)"
  by (induction al) auto

lemma update_not_Nil: "AList.update k v al \<noteq> []"
  by (cases al) simp_all

lemma well_keyed_update:
  assumes "well_keyed d" and "frames \<noteq> []" and "distinct (map fst frames)"
  shows "well_keyed (AList.update r frames d)"
  using assms set_update_subset [of r frames d]
  by (auto simp: well_keyed_def distinct_update)

lemma set_frame_well_keyed:
  assumes "well_keyed d"
  shows "well_keyed (set_frame d r f e)"
proof (cases "r \<in> fst ` set d")
  case True
  then obtain frames where fr: "map_of d r = Some frames"
    by (metis map_of_eq_None_iff not_Some_eq)
  then have "(r, frames) \<in> set d" by (rule map_of_SomeD)
  with assms have "distinct (map fst frames)" by (auto simp: well_keyed_def)
  then have "distinct (map fst (AList.update f e frames))" by (rule distinct_update)
  with assms have "well_keyed (AList.update r (AList.update f e frames) d)"
    by (intro well_keyed_update) (simp_all add: update_not_Nil)
  with True fr show ?thesis by (simp add: set_frame_def)
next
  case False
  have "well_keyed (AList.update r [(f, e)] d)"
    using assms by (intro well_keyed_update) simp_all
  with False show ?thesis
    by (simp add: set_frame_def update_conv' update_last)
qed

lemma save_item_well_keyed:
  assumes "save_item paths pp pb d i = Inr d'" and "well_keyed d"
  shows "well_keyed d'"
  using assms
  by (auto simp: save_item_def set_frame_well_keyed elim!: bindE_InrE)

lemma save_items_well_keyed:
  assumes "save_items paths pp pb d is = Inr d'" and "well_keyed d"
  shows "well_keyed d'"
  using assms
proof (induction "is" arbitrary: d)
  case Nil
  then show ?case by simp
next
  case (Cons i "is")
  from Cons.prems(1) obtain d1 where
    d1: "save_item paths pp pb d i = Inr d1" and r: "save_items paths pp pb d1 is = Inr d'"
    by (auto elim!: bindE_InrE)
  from Cons.IH [OF r save_item_well_keyed [OF d1 Cons.prems(2)]] show ?case .
qed

lemma save_items_paths:
  assumes "save_items paths pp pb d is = Inr d'" and "i \<in> set is"
  shows "i < length paths \<and> 4 \<le> length (split_on CHR ''/'' (paths ! i))"
  using assms
proof (induction "is" arbitrary: d)
  case Nil
  then show ?case by simp
next
  case (Cons j "is")
  from Cons.prems(1) obtain d1 where
    d1: "save_item paths pp pb d j = Inr d1" and r: "save_items paths pp pb d1 is = Inr d'"
    by (auto elim!: bindE_InrE)
  from d1 have "j < length paths \<and> 4 \<le> length (split_on CHR ''/'' (paths ! j))"
    by (auto simp: save_item_def index_def index_from_end_def elim!: bindE_InrE split: if_splits)
  with Cons.IH [OF r] Cons.prems(2) show ?case by auto
qed

lemma eval_batch_well_keyed:
  assumes "eval_batch env w bs step batch acc = Inr acc1" and "well_keyed (pred_dict acc)"
  shows "well_keyed (pred_dict acc1)"
    and "\<forall>e \<in> set batch. 4 \<le> length (split_on CHR ''/'' (imgname e))"
proof -
  from eval_batch_InrD [OF assms(1)] obtain pp where
    sv: "save_items (map imgname batch) pp (map (\<lambda>e. fst (snd (item_prediction env w batch e))) batch)
           (pred_dict acc) [0..<length batch] = Inr (pred_dict acc1)"
    by blast
  show "well_keyed (pred_dict acc1)"
    by (rule save_items_well_keyed [OF sv assms(2)])
  show "\<forall>e \<in> set batch. 4 \<le> length (split_on CHR ''/'' (imgname e))"
  proof
    fix e assume "e \<in> set batch"
    then obtain i where i: "i < length batch" and e: "e = batch ! i"
      by (auto simp: in_set_conv_nth)
    from save_items_paths [OF sv, of i] i e
    show "4 \<le> length (split_on CHR ''/'' (imgname e))" by simp
  qed
qed

lemma eval_loop_well_keyed:
  assumes "eval_loop env w bs step batches acc = Inr acc'" and "well_keyed (pred_dict acc)"
  shows "well_keyed (pred_dict acc') \<and>
         (\<forall>e \<in> set (concat batches). 4 \<le> length (split_on CHR ''/'' (imgname e)))"
  using assms
proof (induction batches arbitrary: step acc)
  case Nil
  then show ?case by simp
next
  case (Cons b rest)
  from Cons.prems(1) obtain acc1 where
    b: "eval_batch env w bs step b acc = Inr acc1"
    and r: "eval_loop env w bs (Suc step) rest acc1 = Inr acc'"
    by (auto elim!: bindE_InrE)
  from Cons.IH [OF r eval_batch_well_keyed(1) [OF b Cons.prems(2)]]
    eval_batch_well_keyed(2) [OF b Cons.prems(2)]
  show ?case by auto
qed

lemma concat_map_cong:
  assumes "\<And>b e. b \<in> set batches \<Longrightarrow> e \<in> set b \<Longrightarrow> f b e = g b e"
  shows "concat (map (\<lambda>b. map (f b) b) batches) = concat (map (\<lambda>b. map (g b) b) batches)"
  using assms by (induction batches) simp_all

lemma item_names_components:
  assumes "imgname e = join_path cs" and "cs \<noteq> []" and "\<forall>c \<in> set cs. CHR ''/'' \<notin> set c"
  shows "item_names e = (cs ! (length cs - 4), last cs)"
  using assms
  by (simp add: item_names_def path_names_def split_join Let_def last_conv_nth)

lemma item_entry_fields:
  "item_entry env w b e =
     JObject [(''gender'', JString ''neutral''),
              (''body_pose'', JArray [JArray (map JNumber (drop 3 (item_pose env (fst (item_prediction env w b e)))))]),
              (''global_orient'', JArray [JArray (map JNumber (take 3 (item_pose env (fst (item_prediction env w b e)))))]),
              (''betas'', JArray [JArray (map JNumber (fst (snd (item_prediction env w b e))))])]"
  by (simp add: item_entry_def frame_entry_def tolist_def split_def Let_def)

text \<open>
  C4, as the source has it. When \<^verbatim>\<open>eval\<close> returns, the submission file holds the JSON
  text of one object whose keys are recording names, each with an object whose keys are
  frame names; no key occurs twice in an object and no recording is without a frame.
  The image path of an item is a list of components joined by slashes: the item is
  filed under its fourth-from-last component as recording and under its last component
  as frame, and \<^verbatim>\<open>eval\<close> returns only when every path has four components. The
  entry of an item has four fields: \<open>gender\<close>, always \<open>neutral\<close>; \<open>body_pose\<close>,
  the predicted pose from index 3 on; \<open>global_orient\<close>, the first 3 numbers of the
  predicted pose; and \<open>betas\<close>, the predicted shape; each of the three is wrapped in a
  list. The predicted pose is the angle-axis vector of each of the 24 predicted rotation
  matrices, one after the other; the prediction of an item is the one the network makes
  on the batch of the loader that holds it. The items are filed in the order of the test
  set, so of two items with the same names the later one stays. The network predicts 24
  rotation matrices of 3 by 3 numbers per item.
\<close>

theorem eval_submission:
  assumes "fst (eval env opts eval_result_path submission_path test_ds tr fs) = Inr u"
    and "rotations_shaped env"
    and "\<forall>e \<in> set test_ds. imgname e = join_path (components e) \<and> components e \<noteq> [] \<and>
           (\<forall>c \<in> set (components e). CHR ''/'' \<notin> set c)"
  shows "\<exists>batches d.
      concat batches = test_ds \<and>
      (\<forall>b \<in> set batches. b \<noteq> [] \<and> length b \<le> batch_size opts) \<and>
      (\<forall>b \<in> set (butlast batches). length b = batch_size opts) \<and>
      snd (snd (eval env opts eval_result_path submission_path test_ds tr fs)) submission_path
        = Some [JsonDumps (JObject (map (\<lambda>(recording_name, frames). (recording_name, JObject frames)) d))] \<and>
      distinct (map fst d) \<and>
      (\<forall>(recording_name, frames) \<in> set d. frames \<noteq> [] \<and> distinct (map fst frames)) \<and>
      (\<forall>e \<in> set test_ds. 4 \<le> length (components e)) \<and>
      lookup_frame d
        = map_of (rev (concat (map (\<lambda>b. map (\<lambda>e.
            ((components e ! (length (components e) - 4), last (components e)),
             JObject [(''gender'', JString ''neutral''),
                      (''body_pose'', JArray [JArray (map JNumber
                         (drop 3 (item_pose env (fst (item_prediction env (weights tr) b e)))))]),
                      (''global_orient'', JArray [JArray (map JNumber
                         (take 3 (item_pose env (fst (item_prediction env (weights tr) b e)))))]),
                      (''betas'', JArray [JArray (map JNumber
                         (fst (snd (item_prediction env (weights tr) b e))))])])) b) batches)))"
proof -
  from eval_InrD [OF assms(1)] obtain acc where
    bs: "0 < batch_size opts"
    and loop: "eval_loop env (weights tr) (batch_size opts) 0
                 (loader_batches (batch_size opts) test_ds) (eval_acc0 (length test_ds)) = Inr acc"
    and fs': "snd (snd (eval env opts eval_result_path submission_path test_ds tr fs))
              = write_file
                  (append_file fs eval_result_path
                     (report submission_path (mpjpe acc) (pa_mpjpe acc) (v2v acc) (pa_v2v acc)))
                  submission_path [JsonDumps (dict_json (pred_dict acc))]"
    by blast
  let ?batches = "loader_batches (batch_size opts) test_ds"
  note props = loader_batches_props [OF bs, of test_ds]
  from props have cc: "concat ?batches = test_ds" by simp
  have sub: "snd (snd (eval env opts eval_result_path submission_path test_ds tr fs)) submission_path
        = Some [JsonDumps (JObject (map (\<lambda>(recording_name, frames). (recording_name, JObject frames))
                   (pred_dict acc)))]"
    by (simp add: fs' write_file_def dict_json_def)
  have "well_keyed (pred_dict (eval_acc0 (length test_ds)))"
    by (simp add: well_keyed_def eval_acc0_def)
  from eval_loop_well_keyed [OF loop this]
  have wk: "well_keyed (pred_dict acc)"
    and parts: "\<forall>e \<in> set test_ds. 4 \<le> length (split_on CHR ''/'' (imgname e))"
    by (simp_all add: cc)
  have len: "\<forall>e \<in> set test_ds. 4 \<le> length (components e)"
  proof
    fix e assume e: "e \<in> set test_ds"
    with assms(3) have "split_on CHR ''/'' (imgname e) = components e"
      by (simp add: split_join)
    with parts e show "4 \<le> length (components e)" by auto
  qed
  have "lookup_frame (pred_dict (eval_acc0 (length test_ds))) = Map.empty"
    by (rule ext) (simp add: lookup_frame_def eval_acc0_def)
  with eval_loop_dict [OF loop assms(2)]
  have "lookup_frame (pred_dict acc)
        = map_of (rev (concat (map (\<lambda>b. map (\<lambda>e. (item_names e, item_entry env (weights tr) b e)) b)
                    ?batches)))"
    by simp
  also have "concat (map (\<lambda>b. map (\<lambda>e. (item_names e, item_entry env (weights tr) b e)) b) ?batches)
      = concat (map (\<lambda>b. map (\<lambda>e.
            ((components e ! (length (components e) - 4), last (components e)),
             JObject [(''gender'', JString ''neutral''),
                      (''body_pose'', JArray [JArray (map JNumber
                         (drop 3 (item_pose env (fst (item_prediction env (weights tr) b e)))))]),
                      (''global_orient'', JArray [JArray (map JNumber
                         (take 3 (item_pose env (fst (item_prediction env (weights tr) b e)))))]),
                      (''betas'', JArray [JArray (map JNumber
                         (fst (snd (item_prediction env (weights tr) b e))))])])) b) ?batches)"
  proof (rule concat_map_cong)
    fix b e assume "b \<in> set ?batches" and "e \<in> set b"
    then have "e \<in> set (concat ?batches)" by auto
    then have "e \<in> set test_ds" by (simp add: cc)
    with assms(3) have "item_names e = (components e ! (length (components e) - 4), last (components e))"
      by (intro item_names_components) auto
    then show "(item_names e, item_entry env (weights tr) b e) =
        ((components e ! (length (components e) - 4), last (components e)),
             JObject [(''gender'', JString ''neutral''),
                      (''body_pose'', JArray [JArray (map JNumber
                         (drop 3 (item_pose env (fst (item_prediction env (weights tr) b e)))))]),
                      (''global_orient'', JArray [JArray (map JNumber
                         (take 3 (item_pose env (fst (item_prediction env (weights tr) b e)))))]),
                      (''betas'', JArray [JArray (map JNumber
                         (fst (snd (item_prediction env (weights tr) b e))))])])"
      by (simp add: item_entry_fields)
  qed
  finally have lk: "lookup_frame (pred_dict acc) = map_of (rev (concat (map (\<lambda>b. map (\<lambda>e.
            ((components e ! (length (components e) - 4), last (components e)),
             JObject [(''gender'', JString ''neutral''),
                      (''body_pose'', JArray [JArray (map JNumber
                         (drop 3 (item_pose env (fst (item_prediction env (weights tr) b e)))))]),
                      (''global_orient'', JArray [JArray (map JNumber
                         (take 3 (item_pose env (fst (item_prediction env (weights tr) b e)))))]),
                      (''betas'', JArray [JArray (map JNumber
                         (fst (snd (item_prediction env (weights tr) b e))))])])) b) ?batches)))" .
  from wk have d1: "distinct (map fst (pred_dict acc))"
    and d2: "\<forall>(recording_name, frames) \<in> set (pred_dict acc). frames \<noteq> [] \<and> distinct (map fst frames)"
    by (simp_all add: well_keyed_def)
  from props loader_batches_sizes [OF bs, of test_ds] sub d1 d2 len lk
  show ?thesis by blast
qed

subsection \<open>\<^verbatim>\<open>eval\<close> on the small instance\<close>

lemma demo_point_errors_joints:
  "point_errors [replicate 24 [0, 0, 0]] [replicate 24 [0, 0, 0]] = Inr [0]"
  by (simp add: point_errors_def ew3_def ew2_def ew1_def bcast_def sq_diff_def
      sequence_replicate mean_list_def sum_list_replicate)

lemma demo_point_errors_vertices:
  "point_errors [[[0, 0, 0]]] [[[0, 0, 0]]] = Inr [0]"
  by (simp add: point_errors_def ew3_def ew2_def ew1_def bcast_def sq_diff_def mean_list_def)

lemma demo_rotations_shaped: "rotations_shaped demo_env"
  by (simp add: rotations_shaped_def demo_env_fields eye3_def)

lemma demo_pred_pose:
  "pred_pose_of (\<lambda>m. [0, 0, 0]) (Suc 0) [replicate 24 eye3]
   = Inr [concat (replicate 24 [0, 0, 0])]"
  using pred_pose_of_shaped [of "[replicate 24 eye3]" demo_env]
  by (simp add: item_pose_def demo_env_fields eye3_def)

lemma demo_frame_entry: "frame_entry (concat (replicate 24 [0, 0, 0])) [0] = demo_entry"
  by (simp add: frame_entry_def demo_entry_def tolist_def numeral_eq_Suc)

lemma demo_save_item:
  "save_item [''data/rec1/cam/img/frame_001.jpg''] [concat (replicate 24 [0, 0, 0])] [[0]] [] 0
   = Inr [(''rec1'', [(''frame_001.jpg'', demo_entry)])]"
  by (simp add: save_item_def index_def index_from_end_def set_frame_def demo_frame_entry)


lemma demo_eval_batch:
  "eval_batch demo_env w 2 0 [demo_example] (eval_acc0 (Suc 0))
   = Inr \<lparr>mpjpe = [0], pa_mpjpe = [0], v2v = [0], pa_v2v = [0],
           pred_dict = [(''rec1'', [(''frame_001.jpg'', demo_entry)])]\<rparr>"
  by (simp add: eval_batch_def Let_def demo_example_def demo_env_fields eval_acc0_def
      smpl_gt_def smpl_pred_def select1_def demo_point_errors_joints demo_point_errors_vertices
      assign_slice_def demo_pred_pose demo_save_item)

lemma demo_eval:
  "eval demo_env demo_opts ''eval.txt'' ''submission.json'' [demo_example] demo_trainer Map.empty
   = (Inr (), demo_trainer\<lparr>training := False\<rparr>, demo_files)"
  by (simp add: eval_def Let_def demo_opts_fields loader_batches_def demo_eval_batch
      report_def np_mean_def write_file_def append_file_def dict_json_def
      demo_files_def demo_log_def demo_submission_def demo_trainer_def)

subsection \<open>\<^verbatim>\<open>eval\<close> on the test set of three items\<close>

lemma sample_env_fields:
  "network sample_env = (\<lambda>train w images x. (diag3 (of_int x) # replicate 23 (diag3 (- of_int x)), [of_int x, 2], [1, 0, 0]))"
  "smpl_eval sample_env = (\<lambda>b p g. ([[0, 0, 0], [0, 0, 0]], [[0, 0, 0]]))"
  "smpl_eval_rotmat sample_env = (\<lambda>b body orient. ([[hd b, 0, 0], [hd b, 0, 0]], [[0, 2 * hd b, 0]]))"
  "rotation_matrix_to_angle_axis sample_env = (\<lambda>m. [m ! 2 ! 2, m ! 2 ! 3, m ! 0 ! 0])"
  "reconstruction_error sample_env = (\<lambda>p g. real (length p) / 4)"
  by (simp_all add: sample_env_def)

lemma sample_rotations_shaped: "rotations_shaped sample_env"
  by (simp add: rotations_shaped_def sample_env_fields diag3_def)

lemma sample_bodies_shaped: "bodies_shaped sample_env"
  by (simp add: bodies_shaped_def same_shape_def sample_env_fields)

lemma sample_item_pose:
  "item_pose sample_env (diag3 x # replicate 23 (diag3 (- x))) = [x, 1, 1] @ concat (replicate 23 [- x, 1, 1])"
  by (simp add: item_pose_def sample_env_fields diag3_def map_replicate)

lemma sqrt_squares: "sqrt 4 = 2" "sqrt 9 = 3" "sqrt 16 = 4" "sqrt 36 = 6"
  using real_sqrt_abs [of 2] real_sqrt_abs [of 3] real_sqrt_abs [of 4] real_sqrt_abs [of 6]
  by simp_all

lemma sample_item_errors:
  "item_mpjpe sample_env w b (sample_item 1 p) = 1"
  "item_mpjpe sample_env w b (sample_item 2 p) = 2"
  "item_mpjpe sample_env w b (sample_item 3 p) = 3"
  "item_v2v sample_env w b (sample_item 1 p) = 2"
  "item_v2v sample_env w b (sample_item 2 p) = 4"
  "item_v2v sample_env w b (sample_item 3 p) = 6"
  "item_pa_mpjpe sample_env w b (sample_item x p) = 1 / 2"
  "item_pa_v2v sample_env w b (sample_item x p) = 1 / 4"
  by (simp_all add: item_mpjpe_def item_v2v_def item_pa_mpjpe_def item_pa_v2v_def item_bodies_def
      item_prediction_def sample_env_fields sample_item_def mean_distance_def distance_def
      sqrt_squares)

lemma sample_pred_pose:
  "pred_pose_of (rotation_matrix_to_angle_axis sample_env) (length xs) (map (\<lambda>x. diag3 x # replicate 23 (diag3 (- x))) xs)
   = Inr (map (\<lambda>x. [x, 1, 1] @ concat (replicate 23 [- x, 1, 1])) xs)"
proof -
  have "\<forall>r \<in> set (map (\<lambda>x. diag3 x # replicate 23 (diag3 (- x))) xs).
          length r = 24 \<and> (\<forall>m \<in> set r. length m = 3 \<and> (\<forall>row \<in> set m. length row = 3))"
    by (auto simp: diag3_def)
  from pred_pose_of_shaped [OF this, of sample_env]
  show ?thesis by (simp add: sample_env_fields sample_item_pose comp_def)
qed

lemma sample_point_errors:
  "point_errors [[[1, 0, 0], [1, 0, 0]], [[2, 0, 0], [2, 0, 0]]] [[[0, 0, 0], [0, 0, 0]], [[0, 0, 0], [0, 0, 0]]]
   = Inr [1, 2]"
  "point_errors [[[3, 0, 0], [3, 0, 0]]] [[[0, 0, 0], [0, 0, 0]]] = Inr [3]"
  "point_errors [[[0, 2, 0]], [[0, 4, 0]]] [[[0, 0, 0]], [[0, 0, 0]]] = Inr [2, 4]"
  "point_errors [[[0, 6, 0]]] [[[0, 0, 0]]] = Inr [6]"
  by (simp_all add: point_errors_def ew3_def ew2_def ew1_def bcast_def sq_diff_def mean_list_def
      sqrt_squares)

lemma sample_frame_entry:
  "frame_entry (x # 1 # 1 # concat (replicate 23 [- x, 1, 1])) [x, 2] = sample_entry x"
  by (simp add: frame_entry_def sample_entry_def tolist_def)

lemma sample_save_items_1:
  "save_items [''data/rec1/cam/img/f1.jpg'', ''data/rec2/cam/img/f1.jpg'']
     [1 # 1 # 1 # concat (replicate 23 [- 1, 1, 1]), 2 # 1 # 1 # concat (replicate 23 [- 2, 1, 1])] [[1, 2], [2, 2]] [] [0, Suc 0]
   = Inr [(''rec1'', [(''f1.jpg'', sample_entry 1)]), (''rec2'', [(''f1.jpg'', sample_entry 2)])]"
  using sample_frame_entry [of 1] sample_frame_entry [of 2]
  by (simp add: save_item_def index_def index_from_end_def set_frame_def)

lemma sample_save_items_2:
  "save_items [''data/rec1/cam/img/f2.jpg''] [3 # 1 # 1 # concat (replicate 23 [- 3, 1, 1])] [[3, 2]]
     [(''rec1'', [(''f1.jpg'', sample_entry 1)]), (''rec2'', [(''f1.jpg'', sample_entry 2)])] [0]
   = Inr sample_dict"
  using sample_frame_entry [of 3]
  by (simp add: save_item_def index_def index_from_end_def set_frame_def sample_dict_def)

lemma sample_eval_batch_1:
  "eval_batch sample_env w 2 0
     [sample_item 1 ''data/rec1/cam/img/f1.jpg'', sample_item 2 ''data/rec2/cam/img/f1.jpg'']
     (eval_acc0 (Suc (Suc (Suc 0))))
   = Inr \<lparr>mpjpe = [1, 2, 0], pa_mpjpe = [1 / 2, 1 / 2, 0], v2v = [2, 4, 0], pa_v2v = [1 / 4, 1 / 4, 0],
           pred_dict = [(''rec1'', [(''f1.jpg'', sample_entry 1)]), (''rec2'', [(''f1.jpg'', sample_entry 2)])]\<rparr>"
  using sample_pred_pose [of "[1, 2]"]
  by (simp add: eval_batch_def Let_def sample_item_def sample_env_fields eval_acc0_def
      smpl_gt_def smpl_pred_def select1_def sample_point_errors
      assign_slice_def sample_save_items_1 del: save_items.simps)

lemma sample_eval_batch_2:
  "eval_batch sample_env w 2 (Suc 0) [sample_item 3 ''data/rec1/cam/img/f2.jpg'']
     \<lparr>mpjpe = [1, 2, 0], pa_mpjpe = [1 / 2, 1 / 2, 0], v2v = [2, 4, 0], pa_v2v = [1 / 4, 1 / 4, 0],
      pred_dict = [(''rec1'', [(''f1.jpg'', sample_entry 1)]), (''rec2'', [(''f1.jpg'', sample_entry 2)])]\<rparr>
   = Inr \<lparr>mpjpe = [1, 2, 3], pa_mpjpe = [1 / 2, 1 / 2, 1 / 2], v2v = [2, 4, 6],
           pa_v2v = [1 / 4, 1 / 4, 1 / 4], pred_dict = sample_dict\<rparr>"
  using sample_pred_pose [of "[3]"]
  by (simp add: eval_batch_def Let_def sample_item_def sample_env_fields
      smpl_gt_def smpl_pred_def select1_def sample_point_errors
      assign_slice_def sample_save_items_2 del: save_items.simps)

lemma sample_batches:
  "loader_batches 2 sample_ds
   = [[sample_item 1 ''data/rec1/cam/img/f1.jpg'', sample_item 2 ''data/rec2/cam/img/f1.jpg''],
      [sample_item 3 ''data/rec1/cam/img/f2.jpg'']]"
  by (simp add: loader_batches_def sample_ds_def upt_rec)

lemma sample_eval:
  "eval sample_env demo_opts ''eval.txt'' ''submission.json'' sample_ds demo_trainer sample_files0
   = (Inr (), demo_trainer\<lparr>training := False\<rparr>,
      [''eval.txt'' \<mapsto> [Text ''earlier run''] @ sample_log,
       ''submission.json'' \<mapsto> [JsonDumps (dict_json sample_dict)]])"
proof -
  have l: "length sample_ds = Suc (Suc (Suc 0))" by (simp add: sample_ds_def)
  show ?thesis
    by (simp add: eval_def Let_def demo_opts_fields sample_batches l sample_eval_batch_1
        sample_eval_batch_2 report_def np_mean_def write_file_def append_file_def newline_def
        sample_files0_def sample_log_def demo_trainer_def)
qed

lemma sample_paths:
  "\<forall>e \<in> set sample_ds. imgname e = join_path (sample_components e) \<and> sample_components e \<noteq> [] \<and>
      (\<forall>c \<in> set (sample_components e). CHR ''/'' \<notin> set c)"
  by (simp add: sample_ds_def sample_item_def sample_components_def)

text \<open>On an empty test set the loop does not run and the four means are NaN.\<close>

lemma sample_eval_empty:
  "snd (snd (eval sample_env demo_opts ''eval.txt'' ''submission.json'' [] demo_trainer Map.empty))
     ''eval.txt''
   = Some [Text (''submission.json'' @ [CHR 0x0A]),
           Text ''MPJPE: '', FloatStr NaN, Text [CHR 0x0A],
           Text ''PA-MPJPE: '', FloatStr NaN, Text [CHR 0x0A],
           Text ''V2V: '', FloatStr NaN, Text [CHR 0x0A],
           Text ''PA-V2V: '', FloatStr NaN, Text [CHR 0x0A],
           Text [CHR 0x0A]]"
  by (simp add: eval_def Let_def demo_opts_fields eval_acc0_def report_def np_mean_def
      write_file_def append_file_def newline_def)

text \<open>
  The log of the three items: the errors are 1, 2, 3 (joints) and 2, 4, 6 (vertices),
  with the means 2 and 4, and the aligned errors are \<open>1 / 2\<close> and \<open>1 / 4\<close> for every
  item.
\<close>

theorem eval_log_witness:
  "fst (eval sample_env demo_opts ''eval.txt'' ''submission.json'' sample_ds demo_trainer sample_files0)
     = Inr () \<and>
   bodies_shaped sample_env \<and>
   (\<exists>batches pred_json.
      concat batches = sample_ds \<and>
      (\<forall>b \<in> set batches. b \<noteq> [] \<and> length b \<le> batch_size demo_opts) \<and>
      (\<forall>b \<in> set (butlast batches). length b = batch_size demo_opts) \<and>
      snd (snd (eval sample_env demo_opts ''eval.txt'' ''submission.json'' sample_ds demo_trainer sample_files0)) =
        (sample_files0(''eval.txt'' \<mapsto>
              (case sample_files0 ''eval.txt'' of None \<Rightarrow> [] | Some old \<Rightarrow> old) @
              [Text (''submission.json'' @ [CHR 0x0A]),
               Text ''MPJPE: '',
               FloatStr (scaled_mean (concat (map (\<lambda>b. map (item_mpjpe sample_env (weights demo_trainer) b) b) batches))),
               Text [CHR 0x0A],
               Text ''PA-MPJPE: '',
               FloatStr (scaled_mean (concat (map (\<lambda>b. map (item_pa_mpjpe sample_env (weights demo_trainer) b) b) batches))),
               Text [CHR 0x0A],
               Text ''V2V: '',
               FloatStr (scaled_mean (concat (map (\<lambda>b. map (item_v2v sample_env (weights demo_trainer) b) b) batches))),
               Text [CHR 0x0A],
               Text ''PA-V2V: '',
               FloatStr (scaled_mean (concat (map (\<lambda>b. map (item_pa_v2v sample_env (weights demo_trainer) b) b) batches))),
               Text [CHR 0x0A],
               Text [CHR 0x0A]]))
          (''submission.json'' \<mapsto> [JsonDumps pred_json])) \<and>
   snd (snd (eval sample_env demo_opts ''eval.txt'' ''submission.json'' sample_ds demo_trainer sample_files0))
     ''eval.txt''
     = Some [Text ''earlier run'',
             Text (''submission.json'' @ [CHR 0x0A]),
             Text ''MPJPE: '', FloatStr (Finite 2000), Text [CHR 0x0A],
             Text ''PA-MPJPE: '', FloatStr (Finite 500), Text [CHR 0x0A],
             Text ''V2V: '', FloatStr (Finite 4000), Text [CHR 0x0A],
             Text ''PA-V2V: '', FloatStr (Finite 250), Text [CHR 0x0A],
             Text [CHR 0x0A]]"
  using eval_log [of sample_env demo_opts "''eval.txt''" "''submission.json''" sample_ds
      demo_trainer sample_files0 "()"]
  by (simp add: sample_eval sample_bodies_shaped sample_log_def)

text \<open>
  The submission of the three items: two recordings, the first with two frames, and
  the pose of every entry split after its first three numbers.
\<close>

theorem eval_submission_witness:
  "fst (eval sample_env demo_opts ''eval.txt'' ''submission.json'' sample_ds demo_trainer sample_files0)
     = Inr () \<and>
   rotations_shaped sample_env \<and>
   list_all (\<lambda>e. imgname e = join_path (sample_components e) \<and> sample_components e \<noteq> [] \<and>
      list_all (\<lambda>c. CHR ''/'' \<notin> set c) (sample_components e)) sample_ds \<and>
   (\<exists>batches d.
      concat batches = sample_ds \<and>
      (\<forall>b \<in> set batches. b \<noteq> [] \<and> length b \<le> batch_size demo_opts) \<and>
      (\<forall>b \<in> set (butlast batches). length b = batch_size demo_opts) \<and>
      snd (snd (eval sample_env demo_opts ''eval.txt'' ''submission.json'' sample_ds demo_trainer sample_files0))
        ''submission.json''
        = Some [JsonDumps (JObject (map (\<lambda>(recording_name, frames). (recording_name, JObject frames)) d))] \<and>
      distinct (map fst d) \<and>
      (\<forall>(recording_name, frames) \<in> set d. frames \<noteq> [] \<and> distinct (map fst frames)) \<and>
      (\<forall>e \<in> set sample_ds. 4 \<le> length (sample_components e)) \<and>
      lookup_frame d
        = map_of (rev (concat (map (\<lambda>b. map (\<lambda>e.
            ((sample_components e ! (length (sample_components e) - 4), last (sample_components e)),
             JObject [(''gender'', JString ''neutral''),
                      (''body_pose'', JArray [JArray (map JNumber
                         (drop 3 (item_pose sample_env (fst (item_prediction sample_env (weights demo_trainer) b e)))))]),
                      (''global_orient'', JArray [JArray (map JNumber
                         (take 3 (item_pose sample_env (fst (item_prediction sample_env (weights demo_trainer) b e)))))]),
                      (''betas'', JArray [JArray (map JNumber
                         (fst (snd (item_prediction sample_env (weights demo_trainer) b e))))])])) b) batches)))) \<and>
   snd (snd (eval sample_env demo_opts ''eval.txt'' ''submission.json'' sample_ds demo_trainer sample_files0))
     ''submission.json''
     = Some [JsonDumps (JObject
         [(''rec1'', JObject [(''f1.jpg'', sample_entry 1), (''f2.jpg'', sample_entry 3)]),
          (''rec2'', JObject [(''f1.jpg'', sample_entry 2)])])]"
  using eval_submission [of sample_env demo_opts "''eval.txt''" "''submission.json''" sample_ds
      demo_trainer sample_files0 "()" sample_components]
  by (simp add: sample_eval sample_rotations_shaped sample_paths list_all_iff dict_json_def
      sample_dict_def)

text \<open>
  C4, as the claim has it, fails: the entry of a frame has a fourth field, \<open>gender\<close>,
  beside the pose, the orientation and the shape.
\<close>

theorem frame_entry_has_gender:
  "snd (snd (eval demo_env demo_opts ''eval.txt'' ''submission.json'' [demo_example] demo_trainer Map.empty))
     ''submission.json''
   = Some [JsonDumps (JObject [(''rec1'', JObject [(''frame_001.jpg'',
       JObject [(''gender'', JString ''neutral''),
                (''body_pose'', JArray [JArray (map JNumber (replicate 69 0))]),
                (''global_orient'', JArray [JArray [JNumber 0, JNumber 0, JNumber 0]]),
                (''betas'', JArray [JArray [JNumber 0]])])])])]"
  by (simp add: demo_eval demo_files_def demo_submission_def demo_entry_def)

end
